theory Spec2Isabelle
  imports Complex_Main "HOL-Library.Word"
begin

unbundle bit_operations_syntax

section \<open>StateManager11: the D3D11 state cache of ANGLE\<close>

text \<open>
  A shallow embedding of \<^verbatim>\<open>StateManager11.cpp\<close>. Member functions become functions on
  a record of the class's fields; the calls made on the D3D11 device context are appended
  to a trace held in the state, oldest first. Answers of the collaborating objects
  (program, framebuffer, vertex array, renderer caches) are arguments of the functions.

  Conventions.
  \<^item> A pointer is its address, a \<open>nat\<close>; \<open>0\<close> is \<^verbatim>\<open>nullptr\<close>.
  \<^item> \<^verbatim>\<open>size_t\<close> slot indices are \<open>nat\<close>. They stay below the size of the vector they
    index, which is taken from a 32-bit capability, so the narrowing casts of the source
    to \<^verbatim>\<open>unsigned int\<close> keep their value. 32-bit fields whose arithmetic can wrap
    (the mip and slice ranges of a view description, stencil masks) are \<open>32 word\<close>.
  \<^item> \<^verbatim>\<open>ASSERT\<close> is compiled out of release builds. The functions follow the release
    build; the asserted conditions are stated as predicates and enter the theorems as
    hypotheses where a claim refers to them. An index outside its vector is undefined
    behaviour in the source; here \<open>xs[i := v]\<close> then leaves \<open>xs\<close> as it is.
  \<^item> \<^verbatim>\<open>float\<close> values are only copied and compared by the modelled code; they are
    \<open>real\<close>, which leaves NaN out.
\<close>

type_synonym uintptr_t = nat
type_synonym GLenum = nat
type_synonym UINT = "32 word"

text \<open>\<^verbatim>\<open>gl::ShaderType\<close>: the stages this file switches on.\<close>

datatype ShaderType = Vertex | Fragment | Compute

text \<open>\<^verbatim>\<open>gl::Error\<close>: success, or an error with its code.\<close>

datatype Error = NoError | GLError nat

subsection \<open>Ranges\<close>

text \<open>
  Modelled from the spec: \<^verbatim>\<open>gl::Range\<close> (declared in common/mathutil.h) is the
  half-open interval \<open>[low, high)\<close> the spec writes as \<open>[rangeStart, highestUsed)\<close>:
  empty when \<open>high \<le> low\<close>, of length \<open>high - low\<close> otherwise, iterated upwards from
  \<open>low\<close>; \<open>extend\<close> widens it to the smallest range that also holds a given slot.
\<close>

record Range =
  mLow :: nat
  mHigh :: nat

definition Range_empty :: "Range \<Rightarrow> bool" where
  "Range_empty r = (mHigh r \<le> mLow r)"

definition Range_length :: "Range \<Rightarrow> nat" where
  "Range_length r = (if Range_empty r then 0 else mHigh r - mLow r)"

definition Range_low :: "Range \<Rightarrow> nat" where
  "Range_low r = mLow r"

definition Range_high :: "Range \<Rightarrow> nat" where
  "Range_high r = mHigh r"

definition Range_intersects :: "Range \<Rightarrow> Range \<Rightarrow> bool" where
  "Range_intersects r other =
     (if mLow r \<le> mLow other then mLow other < mHigh r else mLow r < mHigh other)"

definition Range_extend :: "nat \<Rightarrow> Range \<Rightarrow> Range" where
  "Range_extend v r =
     \<lparr> mLow = (if v < mLow r then v else mLow r),
       mHigh = (if v \<ge> mHigh r then v + 1 else mHigh r) \<rparr>"

definition Range_elems :: "Range \<Rightarrow> nat list" where
  "Range_elems r = [mLow r ..< mHigh r]"

subsection \<open>Shader resource views and their descriptions\<close>

datatype D3D11_SRV_DIMENSION =
    D3D11_SRV_DIMENSION_UNKNOWN
  | D3D11_SRV_DIMENSION_BUFFER
  | D3D11_SRV_DIMENSION_TEXTURE2D
  | D3D11_SRV_DIMENSION_TEXTURE2DARRAY
  | D3D11_SRV_DIMENSION_TEXTURE2DMS
  | D3D11_SRV_DIMENSION_TEXTURE3D
  | D3D11_SRV_DIMENSION_TEXTURECUBE

text \<open>
  \<^verbatim>\<open>D3D11_SHADER_RESOURCE_VIEW_DESC\<close>. The members \<^verbatim>\<open>Texture2D\<close>,
  \<^verbatim>\<open>Texture2DArray\<close>, \<^verbatim>\<open>TextureCube\<close> and \<^verbatim>\<open>Texture3D\<close> of its union all start
  with \<^verbatim>\<open>MostDetailedMip\<close> and \<^verbatim>\<open>MipLevels\<close>; the array member adds
  \<^verbatim>\<open>FirstArraySlice\<close> and \<^verbatim>\<open>ArraySize\<close>.
\<close>

record D3D11_SHADER_RESOURCE_VIEW_DESC =
  ViewDimension :: D3D11_SRV_DIMENSION
  MostDetailedMip :: UINT
  MipLevels :: UINT
  FirstArraySlice :: UINT
  ArraySize :: UINT

definition zero_desc :: D3D11_SHADER_RESOURCE_VIEW_DESC where
  "zero_desc = \<lparr> ViewDimension = D3D11_SRV_DIMENSION_UNKNOWN, MostDetailedMip = 0,
                 MipLevels = 0, FirstArraySlice = 0, ArraySize = 0 \<rparr>"

text \<open>
  An \<^verbatim>\<open>ID3D11ShaderResourceView\<close> as this file reads it through a non-null pointer:
  its address, the resource \<^verbatim>\<open>GetViewResource\<close> returns, and what \<^verbatim>\<open>GetDesc\<close>
  fills in. \<open>None\<close> stands for \<^verbatim>\<open>nullptr\<close>.
\<close>

record ID3D11View =
  ptr :: uintptr_t
  GetResource :: uintptr_t
  GetDesc :: D3D11_SHADER_RESOURCE_VIEW_DESC

definition ptr_of :: "ID3D11View option \<Rightarrow> uintptr_t" where
  "ptr_of v = (case v of None \<Rightarrow> 0 | Some w \<Rightarrow> ptr w)"

subsection \<open>ViewCache\<close>

record ViewRecord =
  view :: uintptr_t
  resource :: uintptr_t
  desc :: D3D11_SHADER_RESOURCE_VIEW_DESC

record ViewCache =
  mCurrentViews :: "ViewRecord list"
  mHighestUsedView :: nat

definition zero_record :: ViewRecord where
  "zero_record = \<lparr> view = 0, resource = 0, desc = zero_desc \<rparr>"

text \<open>The constructor, and \<^verbatim>\<open>initialize\<close>, which resizes the vector of records.\<close>

definition ViewCache_new :: ViewCache where
  "ViewCache_new = \<lparr> mCurrentViews = [], mHighestUsedView = 0 \<rparr>"

text \<open>
  Modelled from the spec: \<^verbatim>\<open>initialize\<close>, \<^verbatim>\<open>size\<close>, \<^verbatim>\<open>highestUsed\<close> and the
  subscript operator of \<^verbatim>\<open>ViewCache\<close> are declared in StateManager11.h. The caches
  are "sized from device capability limits" with value-initialised records, and
  \<^verbatim>\<open>highestUsed\<close> reads the tracked \<^verbatim>\<open>mHighestUsedView\<close>.
\<close>

definition ViewCache_initialize :: "nat \<Rightarrow> ViewCache \<Rightarrow> ViewCache" where
  "ViewCache_initialize n c =
     c\<lparr> mCurrentViews := take n (mCurrentViews c)
                            @ replicate (n - length (mCurrentViews c)) zero_record \<rparr>"

definition ViewCache_size :: "ViewCache \<Rightarrow> nat" where
  "ViewCache_size c = length (mCurrentViews c)"

definition highestUsed :: "ViewCache \<Rightarrow> nat" where
  "highestUsed c = mHighestUsedView c"

text \<open>
  The loop of the unbinding branch of \<^verbatim>\<open>update\<close>,
  \<^verbatim>\<open>do { --mHighestUsedView; } while (mHighestUsedView > 0 &&
  mCurrentViews[mHighestUsedView].view == 0)\<close>, from the value \<open>h\<close> of the counter at its
  entry to the value at its exit. It is entered with \<open>h = resourceIndex + 1\<close>.
\<close>

function ViewCache_scan :: "ViewRecord list \<Rightarrow> nat \<Rightarrow> nat" where
  "ViewCache_scan views h =
     (if h - 1 > 0 \<and> view (views ! (h - 1)) = 0
      then ViewCache_scan views (h - 1)
      else h - 1)"
  by pat_completeness auto
termination
  by (relation "measure snd") auto

declare ViewCache_scan.simps [simp del]

definition ViewCache_update :: "nat \<Rightarrow> ID3D11View option \<Rightarrow> ViewCache \<Rightarrow> ViewCache" where
  "ViewCache_update resourceIndex v c =
     (case v of
        Some w \<Rightarrow>
          c\<lparr> mCurrentViews := (mCurrentViews c)
                 [resourceIndex := \<lparr> view = ptr w, resource = GetResource w, desc = GetDesc w \<rparr>],
             mHighestUsedView := max (resourceIndex + 1) (mHighestUsedView c) \<rparr>
      | None \<Rightarrow>
          (let views = (mCurrentViews c)
                 [resourceIndex := (mCurrentViews c ! resourceIndex)\<lparr> view := 0, resource := 0 \<rparr>]
           in c\<lparr> mCurrentViews := views,
                 mHighestUsedView :=
                   (if resourceIndex + 1 = mHighestUsedView c
                    then ViewCache_scan views (mHighestUsedView c)
                    else mHighestUsedView c) \<rparr>))"

definition ViewCache_clear :: "ViewCache \<Rightarrow> ViewCache" where
  "ViewCache_clear c =
     (if mCurrentViews c = [] then c
      else c\<lparr> mCurrentViews := replicate (length (mCurrentViews c)) zero_record,
              mHighestUsedView := 0 \<rparr>)"

text \<open>A slot is occupied when its record holds a view.\<close>

definition occupied :: "ViewCache \<Rightarrow> nat \<Rightarrow> bool" where
  "occupied c i = (i < ViewCache_size c \<and> view (mCurrentViews c ! i) \<noteq> 0)"

text \<open>Sequences of cache operations.\<close>

datatype ViewCacheOp = Update nat "ID3D11View option" | Clear

fun ViewCache_apply :: "ViewCacheOp \<Rightarrow> ViewCache \<Rightarrow> ViewCache" where
  "ViewCache_apply (Update i v) c = ViewCache_update i v c"
| "ViewCache_apply Clear c = ViewCache_clear c"

definition ViewCache_run :: "ViewCacheOp list \<Rightarrow> ViewCache \<Rightarrow> ViewCache" where
  "ViewCache_run ops c = foldl (\<lambda>c' op. ViewCache_apply op c') c ops"

subsection \<open>Wrapped views, image indices, attachments\<close>

text \<open>
  A \<^verbatim>\<open>d3d11::ShaderResourceView\<close> or \<^verbatim>\<open>d3d11::SharedSRV\<close>: the wrapper object, at
  its own address, and the COM pointer its \<^verbatim>\<open>get()\<close> returns.
\<close>

record SRVWrapper =
  self_addr :: uintptr_t
  get :: "ID3D11View option"

datatype TextureType =
    TextureType_2D
  | TextureType_2DArray
  | TextureType_2DMultisample
  | TextureType_3D
  | TextureType_External
  | TextureType_Rectangle
  | TextureType_CubeMap

text \<open>
  \<^verbatim>\<open>gl::ImageIndex\<close>. \<^verbatim>\<open>mipIndex\<close> and \<^verbatim>\<open>layerIndex\<close> are \<^verbatim>\<open>GLint\<close>; the source
  converts both to unsigned, which keeps the 32 bits held here.
\<close>

record ImageIndex =
  index_type :: TextureType
  mipIndex :: "32 word"
  layerIndex :: "32 word"

definition INT_MAX :: UINT where
  "INT_MAX = 0x7FFFFFFF"

definition UINT_MAX :: UINT where
  "UINT_MAX = 0xFFFFFFFF"

definition RangeUI :: "UINT \<Rightarrow> UINT \<Rightarrow> Range" where
  "RangeUI lo hi = \<lparr> mLow = unat lo, mHigh = unat hi \<rparr>"

definition ImageIndexConflictsWithSRV ::
    "ImageIndex \<Rightarrow> D3D11_SHADER_RESOURCE_VIEW_DESC \<Rightarrow> bool" where
  "ImageIndexConflictsWithSRV index d =
     (let mipLevel = mipIndex index;
          textureType = index_type index;
          allLevels = (MipLevels d = UINT_MAX);
          maxSrvMip = (if allLevels then INT_MAX else MipLevels d + MostDetailedMip d)
      in case ViewDimension d of
           D3D11_SRV_DIMENSION_TEXTURE2D \<Rightarrow>
             textureType = TextureType_2D \<and>
             Range_intersects (RangeUI (mipIndex index) INT_MAX)
                              (RangeUI (MostDetailedMip d) maxSrvMip)
         | D3D11_SRV_DIMENSION_TEXTURE2DARRAY \<Rightarrow>
             (let maxSlice = FirstArraySlice d + ArraySize d
              in (textureType = TextureType_2DArray \<or> textureType = TextureType_CubeMap) \<and>
                 MostDetailedMip d \<le> mipLevel \<and> mipLevel < maxSrvMip \<and>
                 FirstArraySlice d \<le> layerIndex index \<and> layerIndex index < maxSlice)
         | D3D11_SRV_DIMENSION_TEXTURECUBE \<Rightarrow>
             textureType = TextureType_CubeMap \<and>
             MostDetailedMip d \<le> mipLevel \<and> mipLevel < maxSrvMip
         | D3D11_SRV_DIMENSION_TEXTURE3D \<Rightarrow>
             textureType = TextureType_3D \<and>
             MostDetailedMip d \<le> mipLevel \<and> mipLevel < maxSrvMip
         | _ \<Rightarrow> False)"

record Extents =
  ext_width :: int
  ext_height :: int
  ext_depth :: int

record Rectangle =
  rect_x :: int
  rect_y :: int
  rect_width :: int
  rect_height :: int

record Offset =
  off_x :: int
  off_y :: int
  off_z :: int

definition GL_NONE :: GLenum where "GL_NONE = 0"
definition GL_TEXTURE :: GLenum where "GL_TEXTURE = 0x1702"
definition GL_RENDERBUFFER :: GLenum where "GL_RENDERBUFFER = 0x8D41"
definition GL_FRAMEBUFFER_DEFAULT :: GLenum where "GL_FRAMEBUFFER_DEFAULT = 0x8218"
definition GL_BACK :: GLenum where "GL_BACK = 0x0405"

text \<open>What this file asks of a \<^verbatim>\<open>gl::FramebufferAttachment\<close>.\<close>

record FramebufferAttachment =
  att_type :: GLenum
  getSize :: Extents
  getTextureImageIndex :: ImageIndex

text \<open>
  What this file asks of a \<^verbatim>\<open>RenderTarget11\<close>: the views
  (\<^verbatim>\<open>getRenderTargetView().get()\<close>, \<^verbatim>\<open>getDepthStencilView().get()\<close>), the resource
  (\<^verbatim>\<open>getTexture().get()\<close>) and the sample count.
\<close>

record RenderTarget11 =
  getRenderTargetView :: uintptr_t
  getDepthStencilView :: uintptr_t
  getTexture :: uintptr_t
  getSamples :: int

text \<open>
  What this file asks of the draw framebuffer (\<^verbatim>\<open>gl::Framebuffer\<close>, \<^verbatim>\<open>Framebuffer11\<close>).
  A cached render target comes with the attachment it renders to, which the source
  fetches with \<^verbatim>\<open>getColorbuffer(rtIndex)\<close> or \<^verbatim>\<open>getDepthOrStencilbuffer()\<close> and asserts
  to exist.
\<close>

record Framebuffer =
  fb_id :: nat
  getFirstColorbuffer :: "FramebufferAttachment option"
  getFirstNonNullAttachment :: "FramebufferAttachment option"
  getCachedColorRenderTargets :: "(RenderTarget11 \<times> FramebufferAttachment) option list"
  getDrawBufferStates :: "GLenum list"
  getCachedDepthStencilRenderTarget :: "(RenderTarget11 \<times> FramebufferAttachment) option"
  hasDepth :: bool
  hasStencil :: bool
  getCachedSamples :: int
  getDefaultWidth :: int
  getDefaultHeight :: int
  getViewportOffsets :: "Offset list option"
  getMultiviewLayout :: GLenum
  getFirstRenderTarget :: "RenderTarget11 option"
  markAttachmentsDirty :: Error

subsection \<open>The GL state this file reads\<close>

record ColorF =
  red :: real
  green :: real
  blue :: real
  alpha :: real

record BlendState =
  blend :: bool
  sourceBlendRGB :: GLenum
  destBlendRGB :: GLenum
  sourceBlendAlpha :: GLenum
  destBlendAlpha :: GLenum
  blendEquationRGB :: GLenum
  blendEquationAlpha :: GLenum
  colorMaskRed :: bool
  colorMaskGreen :: bool
  colorMaskBlue :: bool
  colorMaskAlpha :: bool
  sampleAlphaToCoverage :: bool
  dither :: bool

record DepthStencilState =
  depthTest :: bool
  depthFunc :: GLenum
  depthMask :: bool
  stencilTest :: bool
  stencilFunc :: GLenum
  stencilMask :: "32 word"
  stencilFail :: GLenum
  stencilPassDepthFail :: GLenum
  stencilPassDepthPass :: GLenum
  stencilWritemask :: "32 word"
  stencilBackFunc :: GLenum
  stencilBackMask :: "32 word"
  stencilBackFail :: GLenum
  stencilBackPassDepthFail :: GLenum
  stencilBackPassDepthPass :: GLenum
  stencilBackWritemask :: "32 word"

datatype CullFaceMode = Back | Front | FrontAndBack

record RasterizerState =
  cullFace :: bool
  cullMode :: CullFaceMode
  frontFace :: GLenum
  polygonOffsetFill :: bool
  polygonOffsetFactor :: real
  polygonOffsetUnits :: real
  pointDrawMode :: bool
  multiSample :: bool
  rasterizerDiscard :: bool

definition GL_ZERO :: GLenum where "GL_ZERO = 0"
definition GL_ONE :: GLenum where "GL_ONE = 1"
definition GL_CONSTANT_COLOR :: GLenum where "GL_CONSTANT_COLOR = 0x8001"
definition GL_CONSTANT_ALPHA :: GLenum where "GL_CONSTANT_ALPHA = 0x8003"
definition GL_ONE_MINUS_CONSTANT_ALPHA :: GLenum where "GL_ONE_MINUS_CONSTANT_ALPHA = 0x8004"
definition GL_FUNC_ADD :: GLenum where "GL_FUNC_ADD = 0x8006"
definition GL_LESS :: GLenum where "GL_LESS = 0x0201"
definition GL_ALWAYS :: GLenum where "GL_ALWAYS = 0x0207"
definition GL_KEEP :: GLenum where "GL_KEEP = 0x1E00"
definition GL_CW :: GLenum where "GL_CW = 0x0900"
definition GL_CCW :: GLenum where "GL_CCW = 0x0901"
definition GL_POINTS :: GLenum where "GL_POINTS = 0x0000"
definition GL_LINES :: GLenum where "GL_LINES = 0x0001"
definition GL_LINE_LOOP :: GLenum where "GL_LINE_LOOP = 0x0002"
definition GL_LINE_STRIP :: GLenum where "GL_LINE_STRIP = 0x0003"
definition GL_TRIANGLES :: GLenum where "GL_TRIANGLES = 0x0004"
definition GL_TRIANGLE_STRIP :: GLenum where "GL_TRIANGLE_STRIP = 0x0005"
definition GL_TRIANGLE_FAN :: GLenum where "GL_TRIANGLE_FAN = 0x0006"
definition GL_INVALID_INDEX :: GLenum where "GL_INVALID_INDEX = 0xFFFFFFFF"
definition GL_UNSIGNED_INT :: GLenum where "GL_UNSIGNED_INT = 0x1405"
definition GL_FRAMEBUFFER_MULTIVIEW_SIDE_BY_SIDE_ANGLE :: GLenum where
  "GL_FRAMEBUFFER_MULTIVIEW_SIDE_BY_SIDE_ANGLE = 0x969B"
definition GL_FRAMEBUFFER_MULTIVIEW_LAYERED_ANGLE :: GLenum where
  "GL_FRAMEBUFFER_MULTIVIEW_LAYERED_ANGLE = 0x969C"

text \<open>\<^verbatim>\<open>gl::State\<close>, as far as the fixed-function synchronizers and \<^verbatim>\<open>syncState\<close> read it.\<close>

record State =
  getBlendState :: BlendState
  getBlendColor :: ColorF
  getDepthStencilState :: DepthStencilState
  getStencilRef :: int
  getStencilBackRef :: int
  getRasterizerState :: RasterizerState
  getScissor :: Rectangle
  isScissorTestEnabled :: bool
  getNearPlane :: real
  getFarPlane :: real
  getViewport :: Rectangle
  isTransformFeedbackActiveUnpaused :: bool
  getAndResetDirtyCurrentValues :: "nat list"

subsection \<open>The device context\<close>

record D3D11_RECT =
  rc_left :: int
  rc_top :: int
  rc_right :: int
  rc_bottom :: int

text \<open>
  A \<^verbatim>\<open>D3D11_VIEWPORT\<close>. Its box is computed in \<^verbatim>\<open>int\<close> and converted to \<^verbatim>\<open>float\<close>
  member by member; the box is held as computed.
\<close>

record D3D11_VIEWPORT =
  TopLeftX :: int
  TopLeftY :: int
  Width :: int
  Height :: int
  MinDepth :: real
  MaxDepth :: real

datatype D3D11_PRIMITIVE_TOPOLOGY =
    D3D11_PRIMITIVE_TOPOLOGY_UNDEFINED
  | D3D11_PRIMITIVE_TOPOLOGY_POINTLIST
  | D3D11_PRIMITIVE_TOPOLOGY_LINELIST
  | D3D11_PRIMITIVE_TOPOLOGY_LINESTRIP
  | D3D11_PRIMITIVE_TOPOLOGY_TRIANGLELIST
  | D3D11_PRIMITIVE_TOPOLOGY_TRIANGLESTRIP

datatype DXGI_FORMAT = DXGI_FORMAT_UNKNOWN | DXGI_FORMAT_R16_UINT | DXGI_FORMAT_R32_UINT

text \<open>
  \<^verbatim>\<open>ShaderConstants11::SamplerMetadata\<close>, and the header structs \<^verbatim>\<open>Vertex\<close>,
  \<^verbatim>\<open>Pixel\<close> and \<^verbatim>\<open>Compute\<close> that precede the sampler metadata in a driver constant
  buffer.
\<close>

record SamplerMetadata =
  baseLevel :: int
  internalFormatBits :: int
  wrapModes :: int

record VertexConstants =
  v_depthRange :: "real list"
  v_viewAdjust :: "real list"
  v_viewCoords :: "real list"
  v_viewScale :: "real list"
  v_multiviewWriteToViewportIndex :: real

record PixelConstants =
  p_depthRange :: "real list"
  p_viewCoords :: "real list"
  p_depthFront :: "real list"
  p_viewScale :: "real list"
  p_multiviewWriteToViewportIndex :: real

record ComputeConstants =
  numWorkGroups :: "nat list"

datatype ConstantsHeader =
    VertexHeader VertexConstants
  | PixelHeader PixelConstants
  | ComputeHeader ComputeConstants

text \<open>
  The calls this file makes on \<^verbatim>\<open>ID3D11DeviceContext\<close>, with the arguments it passes:
  a start slot and a count with the entries read from the array passed, a state object
  with its parameters. The calls that exist once per pipeline stage
  (\<^verbatim>\<open>VSSetShaderResources\<close>, \<^verbatim>\<open>PSSetShaderResources\<close>, ...) carry the stage.
  \<open>WriteDiscard\<close> is the map with \<^verbatim>\<open>D3D11_MAP_WRITE_DISCARD\<close>, the two \<^verbatim>\<open>memcpy\<close>
  and the \<^verbatim>\<open>Unmap\<close> of \<^verbatim>\<open>ShaderConstants11::updateBuffer\<close>: the buffer, the header
  written at its start and the sampler metadata written after it.
\<close>

datatype D3DStage = VS | PS | GS | CS

datatype OMCall =
    SetRenderTargets nat "uintptr_t list" uintptr_t
  | SetBlendState uintptr_t "real list" nat
  | SetDepthStencilState uintptr_t nat

datatype RSCall =
    SetState uintptr_t
  | SetScissorRects nat "D3D11_RECT list"
  | SetViewports nat "D3D11_VIEWPORT list"

datatype IACall =
    SetInputLayout uintptr_t
  | SetVertexBuffers nat nat "uintptr_t list" "nat list" "nat list"
  | SetIndexBuffer uintptr_t DXGI_FORMAT nat
  | SetPrimitiveTopology D3D11_PRIMITIVE_TOPOLOGY

datatype DeviceCall =
    SetShaderResources D3DStage nat nat "uintptr_t list"
  | SetSamplers D3DStage nat nat "uintptr_t list"
  | SetConstantBuffers D3DStage nat nat "uintptr_t list"
  | SetConstantBuffers1 D3DStage nat uintptr_t nat nat
  | SetShader D3DStage uintptr_t
  | OM OMCall
  | RS RSCall
  | IA IACall
  | UpdateSubresource uintptr_t
  | SOSetTargets nat "uintptr_t list" "nat list"
  | WriteDiscard uintptr_t ConstantsHeader "SamplerMetadata list"

abbreviation VSSetShaderResources :: "nat \<Rightarrow> nat \<Rightarrow> uintptr_t list \<Rightarrow> DeviceCall" where
  "VSSetShaderResources \<equiv> SetShaderResources VS"
abbreviation PSSetShaderResources :: "nat \<Rightarrow> nat \<Rightarrow> uintptr_t list \<Rightarrow> DeviceCall" where
  "PSSetShaderResources \<equiv> SetShaderResources PS"
abbreviation CSSetShaderResources :: "nat \<Rightarrow> nat \<Rightarrow> uintptr_t list \<Rightarrow> DeviceCall" where
  "CSSetShaderResources \<equiv> SetShaderResources CS"
abbreviation OMSetRenderTargets :: "nat \<Rightarrow> uintptr_t list \<Rightarrow> uintptr_t \<Rightarrow> DeviceCall" where
  "OMSetRenderTargets n rtvs dsv \<equiv> OM (SetRenderTargets n rtvs dsv)"
abbreviation OMSetBlendState :: "uintptr_t \<Rightarrow> real list \<Rightarrow> nat \<Rightarrow> DeviceCall" where
  "OMSetBlendState st factor sm \<equiv> OM (SetBlendState st factor sm)"
abbreviation OMSetDepthStencilState :: "uintptr_t \<Rightarrow> nat \<Rightarrow> DeviceCall" where
  "OMSetDepthStencilState st ref \<equiv> OM (SetDepthStencilState st ref)"
abbreviation RSSetState :: "uintptr_t \<Rightarrow> DeviceCall" where
  "RSSetState st \<equiv> RS (SetState st)"
abbreviation RSSetScissorRects :: "nat \<Rightarrow> D3D11_RECT list \<Rightarrow> DeviceCall" where
  "RSSetScissorRects n rects \<equiv> RS (SetScissorRects n rects)"
abbreviation RSSetViewports :: "nat \<Rightarrow> D3D11_VIEWPORT list \<Rightarrow> DeviceCall" where
  "RSSetViewports n vps \<equiv> RS (SetViewports n vps)"
abbreviation IASetInputLayout :: "uintptr_t \<Rightarrow> DeviceCall" where
  "IASetInputLayout l \<equiv> IA (SetInputLayout l)"
abbreviation IASetVertexBuffers ::
    "nat \<Rightarrow> nat \<Rightarrow> uintptr_t list \<Rightarrow> nat list \<Rightarrow> nat list \<Rightarrow> DeviceCall" where
  "IASetVertexBuffers start n bufs strides offsets \<equiv>
     IA (SetVertexBuffers start n bufs strides offsets)"
abbreviation IASetIndexBuffer :: "uintptr_t \<Rightarrow> DXGI_FORMAT \<Rightarrow> nat \<Rightarrow> DeviceCall" where
  "IASetIndexBuffer b f off \<equiv> IA (SetIndexBuffer b f off)"
abbreviation IASetPrimitiveTopology :: "D3D11_PRIMITIVE_TOPOLOGY \<Rightarrow> DeviceCall" where
  "IASetPrimitiveTopology t \<equiv> IA (SetPrimitiveTopology t)"

text \<open>The switch on the shader type that picks the device call of the stage.\<close>

definition stage_of :: "ShaderType \<Rightarrow> D3DStage" where
  "stage_of shaderType = (case shaderType of Vertex \<Rightarrow> VS | Fragment \<Rightarrow> PS | Compute \<Rightarrow> CS)"

subsection \<open>ShaderConstants11\<close>

record ShaderConstants11 =
  mVertex :: VertexConstants
  mPixel :: PixelConstants
  mCompute :: ComputeConstants
  mShaderConstantsDirty :: "ShaderType set"
  mSamplerMetadataVS :: "SamplerMetadata list"
  mSamplerMetadataPS :: "SamplerMetadata list"
  mSamplerMetadataCS :: "SamplerMetadata list"
  mNumActiveVSSamplers :: int
  mNumActivePSSamplers :: int
  mNumActiveCSSamplers :: int

definition zero_metadata :: SamplerMetadata where
  "zero_metadata = \<lparr> baseLevel = 0, internalFormatBits = 0, wrapModes = 0 \<rparr>"

text \<open>
  The constructor: no samplers uploaded, every stage dirty. The header structs are
  zero-initialised by their own constructors (StateManager11.h).
\<close>

definition ShaderConstants11_new :: ShaderConstants11 where
  "ShaderConstants11_new =
     \<lparr> mVertex = \<lparr> v_depthRange = [0, 0, 0, 0], v_viewAdjust = [0, 0, 0, 0],
                    v_viewCoords = [0, 0, 0, 0], v_viewScale = [0, 0],
                    v_multiviewWriteToViewportIndex = 0 \<rparr>,
       mPixel = \<lparr> p_depthRange = [0, 0, 0, 0], p_viewCoords = [0, 0, 0, 0],
                   p_depthFront = [0, 0, 0, 0], p_viewScale = [0, 0],
                   p_multiviewWriteToViewportIndex = 0 \<rparr>,
       mCompute = \<lparr> numWorkGroups = [0, 0, 0] \<rparr>,
       mShaderConstantsDirty = {Vertex, Fragment, Compute},
       mSamplerMetadataVS = [], mSamplerMetadataPS = [], mSamplerMetadataCS = [],
       mNumActiveVSSamplers = 0, mNumActivePSSamplers = 0, mNumActiveCSSamplers = 0 \<rparr>"

text \<open>\<^verbatim>\<open>gl::Caps\<close>, as far as this file reads it.\<close>

record Caps =
  maxVertexTextureImageUnits :: nat
  maxTextureImageUnits :: nat
  maxComputeTextureImageUnits :: nat
  maxImageUnits :: nat
  maxVertexAttributes :: nat
  maxViewportWidth :: nat
  maxViewportHeight :: nat
  maxDrawBuffers :: nat

text \<open>\<^verbatim>\<open>std::vector::resize\<close> with the value new elements take.\<close>

definition resize :: "nat \<Rightarrow> 'a \<Rightarrow> 'a list \<Rightarrow> 'a list" where
  "resize n v xs = take n xs @ replicate (n - length xs) v"

definition ShaderConstants11_init :: "Caps \<Rightarrow> ShaderConstants11 \<Rightarrow> ShaderConstants11" where
  "ShaderConstants11_init caps c =
     c\<lparr> mSamplerMetadataVS := resize (maxVertexTextureImageUnits caps) zero_metadata
                                   (mSamplerMetadataVS c),
        mSamplerMetadataPS := resize (maxTextureImageUnits caps) zero_metadata
                                   (mSamplerMetadataPS c),
        mSamplerMetadataCS := resize (maxComputeTextureImageUnits caps) zero_metadata
                                   (mSamplerMetadataCS c) \<rparr>"

definition ShaderConstants11_markDirty :: "ShaderConstants11 \<Rightarrow> ShaderConstants11" where
  "ShaderConstants11_markDirty c =
     c\<lparr> mShaderConstantsDirty := {Vertex, Fragment, Compute},
        mNumActiveVSSamplers := 0, mNumActivePSSamplers := 0, mNumActiveCSSamplers := 0 \<rparr>"

text \<open>
  \<^verbatim>\<open>updateBuffer\<close>. Its arguments beyond the shader type are what it asks of its
  collaborators: \<open>numSamplers\<close>, the program's \<^verbatim>\<open>getUsedSamplerRange(shaderType)\<close>
  converted to \<^verbatim>\<open>int\<close>; \<open>driverConstantBuffer\<close>, the buffer's \<^verbatim>\<open>get()\<close>; and
  \<open>mapResult\<close>, the result of \<^verbatim>\<open>Renderer11::mapResource\<close> on that buffer, which is only
  called when the stage is dirty. The function returns the error, the constants with the
  dirty flag cleared and the sampler count recorded (both happen before the map is
  tried), and the device calls made.
\<close>

definition updateBuffer ::
    "Error \<Rightarrow> ShaderType \<Rightarrow> int \<Rightarrow> uintptr_t \<Rightarrow> ShaderConstants11
       \<Rightarrow> Error \<times> ShaderConstants11 \<times> DeviceCall list" where
  "updateBuffer mapResult shaderType numSamplers driverConstantBuffer c =
     (let (dirty, data, samplerData, c') =
        (case shaderType of
           Vertex \<Rightarrow>
             (Vertex \<in> mShaderConstantsDirty c \<or> mNumActiveVSSamplers c < numSamplers,
              VertexHeader (mVertex c), mSamplerMetadataVS c,
              c\<lparr> mShaderConstantsDirty := mShaderConstantsDirty c - {Vertex},
                 mNumActiveVSSamplers := numSamplers \<rparr>)
         | Fragment \<Rightarrow>
             (Fragment \<in> mShaderConstantsDirty c \<or> mNumActivePSSamplers c < numSamplers,
              PixelHeader (mPixel c), mSamplerMetadataPS c,
              c\<lparr> mShaderConstantsDirty := mShaderConstantsDirty c - {Fragment},
                 mNumActivePSSamplers := numSamplers \<rparr>)
         | Compute \<Rightarrow>
             (Compute \<in> mShaderConstantsDirty c \<or> mNumActiveCSSamplers c < numSamplers,
              ComputeHeader (mCompute c), mSamplerMetadataCS c,
              c\<lparr> mShaderConstantsDirty := mShaderConstantsDirty c - {Compute},
                 mNumActiveCSSamplers := numSamplers \<rparr>))
      in if \<not> dirty then (NoError, c', [])
         else if mapResult \<noteq> NoError then (mapResult, c', [])
         else (NoError, c',
               [WriteDiscard driverConstantBuffer data (take (nat numSamplers) samplerData)]))"

text \<open>The sampler count a stage last recorded, and the sampler metadata of a stage.\<close>

definition numActiveSamplers :: "ShaderType \<Rightarrow> ShaderConstants11 \<Rightarrow> int" where
  "numActiveSamplers shaderType c =
     (case shaderType of
        Vertex \<Rightarrow> mNumActiveVSSamplers c
      | Fragment \<Rightarrow> mNumActivePSSamplers c
      | Compute \<Rightarrow> mNumActiveCSSamplers c)"

definition samplerMetadata :: "ShaderType \<Rightarrow> ShaderConstants11 \<Rightarrow> SamplerMetadata list" where
  "samplerMetadata shaderType c =
     (case shaderType of
        Vertex \<Rightarrow> mSamplerMetadataVS c
      | Fragment \<Rightarrow> mSamplerMetadataPS c
      | Compute \<Rightarrow> mSamplerMetadataCS c)"

text \<open>The uploads among the device calls of a call of \<^verbatim>\<open>updateBuffer\<close>.\<close>

definition uploads :: "Error \<times> ShaderConstants11 \<times> DeviceCall list \<Rightarrow> DeviceCall list" where
  "uploads r = snd (snd r)"

subsection \<open>Collaborators\<close>

text \<open>
  The objects \<^verbatim>\<open>StateManager11\<close> works with are defined in other files. Each is a record
  of the answers this file asks of it; a fallible query answers with a \<^verbatim>\<open>gl::Error\<close>
  and, when that is \<^verbatim>\<open>NoError\<close>, a value.
\<close>

type_synonym ResourceSerial = nat

text \<open>
  Modelled from the spec: \<^verbatim>\<open>ResourceSerial\<close> (ResourceManager11.h) is the "opaque
  comparable identity" of a device object; the empty serial is \<open>0\<close> and a
  default-constructed one is the reserved "dirty" value that equals no object's serial.
\<close>

definition kEmpty :: ResourceSerial where "kEmpty = 0"
definition kDirty :: ResourceSerial where "kDirty = 2 ^ 64 - 1"

text \<open>A \<^verbatim>\<open>d3d11::Buffer\<close>, shader or input layout: its serial and the pointer \<^verbatim>\<open>get()\<close> returns.\<close>

record D3DObject =
  getSerial :: ResourceSerial
  get_ptr :: uintptr_t

text \<open>\<^verbatim>\<open>gl::SamplerState\<close> is compared with \<^verbatim>\<open>memcmp\<close>: it is its bytes.\<close>

type_synonym SamplerState = "nat list"

text \<open>A \<^verbatim>\<open>gl::Texture\<close> with its \<^verbatim>\<open>TextureD3D\<close> and its storage.\<close>

record Texture =
  tex_getSamplerState :: SamplerState
  tex_getNativeTexture :: Error
  tex_hasStorage :: bool
  tex_getSRVForSampler :: "Error \<times> SRVWrapper"
  tex_getEffectiveBaseLevel :: nat
  tex_sizedInternalFormat :: GLenum
  tex_getWrapS :: GLenum
  tex_getWrapT :: GLenum
  tex_getWrapR :: GLenum
  tex_swizzleRequired :: bool
  tex_generateSwizzles :: Error

text \<open>
  One sampler of a stage of the program, \<open>samplerIndex\<close> below
  \<^verbatim>\<open>getUsedSamplerRange\<close>: the entry of the complete-texture cache at the texture unit
  the sampler is mapped to (\<open>None\<close> when the texture is incomplete), the state of the
  sampler object bound to that unit if there is one, the renderer's incomplete texture of
  the sampler's type, and for swizzle generation the texture bound to the unit
  (\<open>None\<close> when the sampler is mapped to no unit).
\<close>

record SamplerBinding =
  completeTexture :: "Texture option"
  getSampler :: "SamplerState option"
  getIncompleteTexture :: "Error \<times> Texture"
  getSamplerTexture :: "Texture option"

text \<open>
  One entry of a uniform buffer cache of the program: the binding (\<open>-1\<close> for none), the
  buffer bound there (\<open>0\<close> for none) with its offset and size, and the answer of its
  \<^verbatim>\<open>getConstantBufferRange\<close>: the constant buffer, \<open>firstConstant\<close> and \<open>numConstants\<close>.
\<close>

record UniformBufferBinding =
  ub_binding :: int
  ub_buffer :: uintptr_t
  ub_getOffset :: int
  ub_getSize :: int
  ub_getConstantBufferRange :: "Error \<times> D3DObject \<times> nat \<times> nat"

text \<open>
  A \<^verbatim>\<open>TranslatedAttribute\<close>: whether its attribute is set and enabled, its divisor and
  stride, its \<^verbatim>\<open>vertexBuffer\<close>, the answers of its buffer storage if it has one
  (\<^verbatim>\<open>getBuffer\<close>, \<^verbatim>\<open>getEmulatedIndexedBuffer\<close>), and of \<^verbatim>\<open>computeOffset\<close> at the first
  vertex of the draw.
\<close>

record TranslatedAttribute =
  attr_enabled :: bool
  divisor :: nat
  stride :: nat
  vertexBuffer :: uintptr_t
  storage :: "((Error \<times> uintptr_t) \<times> (Error \<times> uintptr_t)) option"
  computeOffset :: "Error \<times> nat"

text \<open>
  \<^verbatim>\<open>ProgramD3D\<close> and its \<^verbatim>\<open>gl::Program\<close>. Two of its members change during a pass and
  are state: \<open>mDirtySamplerMapping\<close> and \<open>mShaderUniformsDirty\<close>. An executable is the
  shader it holds; the vertex executable holds the vertex shader and the stream-out
  shader.
\<close>

record ProgramD3D =
  mDirtySamplerMapping :: bool
  mShaderUniformsDirty :: "ShaderType set"
  samplers :: "ShaderType \<Rightarrow> SamplerBinding list"
  getActiveOutputVariables :: "nat set"
  getActiveAttribLocationsMask :: "nat list"
  getAttribLocationToD3DSemantics :: "nat \<Rightarrow> nat"
  usesPointSize :: bool
  usesInstancedPointSpriteEmulation :: bool
  vertexUniformStorage_size :: nat
  vertexUniformStorage_getConstantBuffer :: "Error \<times> D3DObject"
  fragmentUniformStorage_size :: nat
  fragmentUniformStorage_getConstantBuffer :: "Error \<times> D3DObject"
  getVertexUniformBufferCache :: "UniformBufferBinding list"
  getFragmentUniformBufferCache :: "UniformBufferBinding list"
  getVertexExecutableForCachedInputLayout :: "Error \<times> (D3DObject \<times> D3DObject) option"
  getPixelExecutableForCachedOutputLayout :: "Error \<times> D3DObject option"
  getGeometryExecutableForPrimitiveType :: "Error \<times> D3DObject option"

text \<open>
  Modelled from the spec: the members of \<^verbatim>\<open>ProgramD3D\<close> are defined in ProgramD3D.cpp.
  The spec lists its "used-sampler range per stage", its "sampler-to-texture-unit mapping"
  and its "dirty-uniform flags": \<^verbatim>\<open>getUsedSamplerRange\<close> is the number of samplers of
  the stage; \<^verbatim>\<open>updateSamplerMapping\<close> answers \<^verbatim>\<open>WasDirty\<close> when the mapping was dirty
  and leaves it clean; \<^verbatim>\<open>anyShaderUniformsDirty\<close> and \<^verbatim>\<open>areShaderUniformsDirty\<close> read
  the flags and \<^verbatim>\<open>markUniformsClean\<close> clears them.
\<close>

datatype SamplerMapping = WasDirty | WasClean

definition getUsedSamplerRange :: "ProgramD3D \<Rightarrow> ShaderType \<Rightarrow> nat" where
  "getUsedSamplerRange programD3D shaderType = length (samplers programD3D shaderType)"

definition updateSamplerMapping :: "ProgramD3D \<Rightarrow> SamplerMapping \<times> ProgramD3D" where
  "updateSamplerMapping programD3D =
     (if mDirtySamplerMapping programD3D
      then (WasDirty, programD3D\<lparr> mDirtySamplerMapping := False \<rparr>)
      else (WasClean, programD3D))"

definition anyShaderUniformsDirty :: "ProgramD3D \<Rightarrow> bool" where
  "anyShaderUniformsDirty programD3D = (mShaderUniformsDirty programD3D \<noteq> {})"

definition areShaderUniformsDirty :: "ProgramD3D \<Rightarrow> ShaderType \<Rightarrow> bool" where
  "areShaderUniformsDirty programD3D shaderType = (shaderType \<in> mShaderUniformsDirty programD3D)"

definition markUniformsClean :: "ProgramD3D \<Rightarrow> ProgramD3D" where
  "markUniformsClean programD3D = programD3D\<lparr> mShaderUniformsDirty := {} \<rparr>"

text \<open>
  The index data \<^verbatim>\<open>IndexDataManager::prepareIndexData\<close> hands back: the index type, the
  answer of the storage's \<^verbatim>\<open>getBuffer\<close> if the data has a storage, the buffer of its
  index buffer otherwise, and the start offset.
\<close>

record TranslatedIndexData =
  indexType :: GLenum
  index_storage :: "(Error \<times> uintptr_t) option"
  indexBuffer :: uintptr_t
  startOffset :: nat

text \<open>
  The vertex array (\<^verbatim>\<open>gl::VertexArray\<close>, \<^verbatim>\<open>VertexArray11\<close>): the translated
  attributes, which attributes are enabled, the result of \<^verbatim>\<open>syncStateForDraw\<close>, the
  index data prepared for an indexed draw, and for emulated point sprites the result of
  reading the source index buffer.
\<close>

record VertexArray11 =
  getTranslatedAttribs :: "TranslatedAttribute list"
  attribEnabled :: "nat \<Rightarrow> bool"
  syncStateForDraw :: Error
  prepareIndexData :: "Error \<times> TranslatedIndexData"
  srcBuffer_getData :: "Error option"

text \<open>The transform feedback object (\<^verbatim>\<open>TransformFeedback11\<close>).\<close>

record TransformFeedback11 =
  tf_getSerial :: nat
  tf_isDirty :: bool
  tf_getSOBuffers :: "Error \<times> uintptr_t list"
  tf_getSOBufferOffsets :: "nat list"
  tf_getNumSOBuffers :: nat

text \<open>
  The renderer: device capabilities and workarounds; its caches of state objects, each a
  function of the state asked for; its allocator, asked for the four buffers this file
  creates; the mapping of a buffer; the input layout cache; and the vertex data manager
  that stores a current value into its attribute.
\<close>

record Renderer11 =
  presentPathFastEnabled :: bool
  featureLevel_le_9_3 :: bool
  getNativeCaps :: Caps
  mrtPerfWorkaround :: bool
  useInstancedPointSpriteEmulation :: bool
  isES3Capable :: bool
  getReservedVertexUniformBuffers :: nat
  getReservedFragmentUniformBuffers :: nat
  rendererGetBlendState :: "BlendState \<Rightarrow> Error \<times> uintptr_t"
  rendererGetDepthStencilState :: "DepthStencilState \<Rightarrow> Error \<times> uintptr_t"
  rendererGetRasterizerState :: "RasterizerState \<Rightarrow> bool \<Rightarrow> Error \<times> uintptr_t"
  rendererGetSamplerState :: "SamplerState \<Rightarrow> Error \<times> uintptr_t"
  getInputLayout :: "Error \<times> D3DObject option"
  allocateDriverConstantBufferVS :: "Error \<times> D3DObject"
  allocateDriverConstantBufferPS :: "Error \<times> D3DObject"
  allocatePointSpriteVertexBuffer :: "Error \<times> D3DObject"
  allocatePointSpriteIndexBuffer :: "Error \<times> D3DObject"
  mapResource :: "uintptr_t \<Rightarrow> Error"
  storeCurrentValue :: "nat \<Rightarrow> Error \<times> TranslatedAttribute"

text \<open>
  The requests this file makes for a state object of the renderer's caches, with the
  state asked for.
\<close>

datatype RendererRequest =
    GetBlendState BlendState
  | GetDepthStencilState DepthStencilState
  | GetRasterizerState RasterizerState bool
  | GetSamplerState SamplerState

text \<open>
  The context of a draw call: the GL state, the draw framebuffer, the vertex array, the
  transform feedback object, the capabilities and the renderer; the result of
  \<^verbatim>\<open>Context11::triggerDrawCallProgramRecompilation\<close>; and the values of the free
  functions \<^verbatim>\<open>UsePresentPathFast\<close> and \<^verbatim>\<open>GetBlendSampleMask\<close> for this state.
\<close>

record Context =
  getGLState :: State
  getDrawFramebuffer :: Framebuffer
  getVertexArray :: VertexArray11
  getCurrentTransformFeedback :: TransformFeedback11
  getCaps :: Caps
  getRenderer :: Renderer11
  triggerDrawCallProgramRecompilation :: Error
  UsePresentPathFast :: bool
  GetBlendSampleMask :: nat

text \<open>\<^verbatim>\<open>gl::DrawCallParams\<close>.\<close>

record DrawCallParams =
  mode :: GLenum
  firstVertex :: int
  isDrawElements :: bool

subsection \<open>The state of StateManager11\<close>

text \<open>
  Modelled from the spec: the enumeration \<^verbatim>\<open>DirtyBitType\<close> is declared in
  StateManager11.h. Its enumerators are the labels of the switch of \<^verbatim>\<open>updateState\<close>;
  their order, in which a set of dirty bits is iterated, is the "fixed topological
  order" of the spec: render target, viewport, scissor, rasterizer, blend, depth-stencil,
  textures/samplers, program uniforms, driver uniforms, uniform buffers, shaders,
  current-value attributes, transform feedback, vertex buffers and input layout,
  primitive topology.
\<close>

datatype DirtyBitType =
    DIRTY_BIT_RENDER_TARGET
  | DIRTY_BIT_VIEWPORT_STATE
  | DIRTY_BIT_SCISSOR_STATE
  | DIRTY_BIT_RASTERIZER_STATE
  | DIRTY_BIT_BLEND_STATE
  | DIRTY_BIT_DEPTH_STENCIL_STATE
  | DIRTY_BIT_TEXTURE_AND_SAMPLER_STATE
  | DIRTY_BIT_PROGRAM_UNIFORMS
  | DIRTY_BIT_DRIVER_UNIFORMS
  | DIRTY_BIT_PROGRAM_UNIFORM_BUFFERS
  | DIRTY_BIT_SHADERS
  | DIRTY_BIT_CURRENT_VALUE_ATTRIBS
  | DIRTY_BIT_TRANSFORM_FEEDBACK
  | DIRTY_BIT_VERTEX_BUFFERS_AND_INPUT_LAYOUT
  | DIRTY_BIT_PRIMITIVE_TOPOLOGY

definition allDirtyBits :: "DirtyBitType list" where
  "allDirtyBits =
     [DIRTY_BIT_RENDER_TARGET, DIRTY_BIT_VIEWPORT_STATE, DIRTY_BIT_SCISSOR_STATE,
      DIRTY_BIT_RASTERIZER_STATE, DIRTY_BIT_BLEND_STATE, DIRTY_BIT_DEPTH_STENCIL_STATE,
      DIRTY_BIT_TEXTURE_AND_SAMPLER_STATE, DIRTY_BIT_PROGRAM_UNIFORMS,
      DIRTY_BIT_DRIVER_UNIFORMS, DIRTY_BIT_PROGRAM_UNIFORM_BUFFERS, DIRTY_BIT_SHADERS,
      DIRTY_BIT_CURRENT_VALUE_ATTRIBS, DIRTY_BIT_TRANSFORM_FEEDBACK,
      DIRTY_BIT_VERTEX_BUFFERS_AND_INPUT_LAYOUT, DIRTY_BIT_PRIMITIVE_TOPOLOGY]"

definition MAX_VERTEX_ATTRIBS :: nat where
  "MAX_VERTEX_ATTRIBS = 16"

definition IMPLEMENTATION_MAX_VERTEX_SHADER_UNIFORM_BUFFERS :: nat where
  "IMPLEMENTATION_MAX_VERTEX_SHADER_UNIFORM_BUFFERS = 16"

definition IMPLEMENTATION_MAX_FRAGMENT_SHADER_UNIFORM_BUFFERS :: nat where
  "IMPLEMENTATION_MAX_FRAGMENT_SHADER_UNIFORM_BUFFERS = 16"

definition D3D11_SIMULTANEOUS_RENDER_TARGET_COUNT :: nat where
  "D3D11_SIMULTANEOUS_RENDER_TARGET_COUNT = 8"

text \<open>
  The members of the class that the modelled functions read or write, under their
  names; \<open>deviceContext\<close> is the trace of the calls made on
  \<^verbatim>\<open>mRenderer->getDeviceContext()\<close> and \<open>rendererRequests\<close> the trace of the requests
  made to the renderer's state caches. \<open>mCurrentAttributes\<close> is a vector of pointers;
  \<open>None\<close> is a null pointer. \<open>mBindingsVS\<close> and \<open>mBindingsPS\<close> are the buffers the
  \<^verbatim>\<open>ConstantBufferObserver\<close> is bound to.
\<close>

record StateManager11 =
  deviceContext :: "DeviceCall list"
  rendererRequests :: "RendererRequest list"
  mInternalDirtyBits :: "DirtyBitType set"
  mCurBlendState :: BlendState
  mCurBlendColor :: ColorF
  mCurSampleMask :: nat
  mCurDepthStencilState :: DepthStencilState
  mCurStencilRef :: int
  mCurStencilBackRef :: int
  mCurStencilSize :: nat
  mCurDisableDepth :: "bool option"
  mCurDisableStencil :: "bool option"
  mCurRasterState :: RasterizerState
  mCurScissorEnabled :: bool
  mCurScissorRect :: Rectangle
  mCurViewport :: Rectangle
  mCurNear :: real
  mCurFar :: real
  mViewportBounds :: Extents
  mRenderTargetIsDirty :: bool
  mCurPresentPathFastEnabled :: bool
  mCurPresentPathFastColorBufferHeight :: int
  mDirtyCurrentValueAttribs :: "nat set"
  mCurrentValueAttribs :: "TranslatedAttribute list"
  mCurrentInputLayout :: ResourceSerial
  mDirtyVertexBufferRange :: Range
  mCurrentVertexBuffers :: "uintptr_t list"
  mCurrentVertexStrides :: "nat list"
  mCurrentVertexOffsets :: "nat list"
  mCurrentPrimitiveTopology :: D3D11_PRIMITIVE_TOPOLOGY
  mLastAppliedDrawMode :: GLenum
  mCurrentMinimumDrawCount :: int
  mDirtySwizzles :: bool
  mAppliedIB :: uintptr_t
  mAppliedIBFormat :: DXGI_FORMAT
  mAppliedIBOffset :: nat
  mIndexBufferIsDirty :: bool
  mIsMultiviewEnabled :: bool
  mViewportOffsets :: "Offset list"
  mLastFirstVertex :: "int option"
  mCurVertexSRVs :: ViewCache
  mCurPixelSRVs :: ViewCache
  mCurComputeSRVs :: ViewCache
  mNullSRVs :: "uintptr_t list"
  mForceSetVertexSamplerStates :: "bool list"
  mForceSetPixelSamplerStates :: "bool list"
  mForceSetComputeSamplerStates :: "bool list"
  mCurVertexSamplerStates :: "SamplerState list"
  mCurPixelSamplerStates :: "SamplerState list"
  mCurComputeSamplerStates :: "SamplerState list"
  mShaderConstants :: ShaderConstants11
  mAppliedVertexShader :: ResourceSerial
  mAppliedGeometryShader :: ResourceSerial
  mAppliedPixelShader :: ResourceSerial
  mCurrentConstantBufferVS :: "ResourceSerial list"
  mCurrentConstantBufferVSOffset :: "int list"
  mCurrentConstantBufferVSSize :: "int list"
  mCurrentConstantBufferPS :: "ResourceSerial list"
  mCurrentConstantBufferPSOffset :: "int list"
  mCurrentConstantBufferPSSize :: "int list"
  mCurrentGeometryConstantBuffer :: ResourceSerial
  mDriverConstantBufferVS :: "D3DObject option"
  mDriverConstantBufferPS :: "D3DObject option"
  mPointSpriteVertexBuffer :: "D3DObject option"
  mPointSpriteIndexBuffer :: "D3DObject option"
  mAppliedTFSerial :: nat
  mEmptySerial :: nat
  mCurrentAttributes :: "TranslatedAttribute option list"
  mBindingsVS :: "uintptr_t list"
  mBindingsPS :: "uintptr_t list"

text \<open>
  The constructor. \<open>generateSerial\<close> is the serial the renderer hands out for
  \<open>mEmptySerial\<close>. Members the constructor leaves to their own default constructors take
  the defaults of their types: an invalid \<^verbatim>\<open>Optional\<close>, an empty vector, a dirty
  serial and no buffer.
\<close>

definition StateManager11_new :: "nat \<Rightarrow> StateManager11" where
  "StateManager11_new generateSerial =
     \<lparr> deviceContext = [],
       rendererRequests = [],
       mInternalDirtyBits = set allDirtyBits,
       mCurBlendState =
         \<lparr> blend = False, sourceBlendRGB = GL_ONE, destBlendRGB = GL_ZERO,
           sourceBlendAlpha = GL_ONE, destBlendAlpha = GL_ZERO,
           blendEquationRGB = GL_FUNC_ADD, blendEquationAlpha = GL_FUNC_ADD,
           colorMaskRed = True, colorMaskGreen = True, colorMaskBlue = True,
           colorMaskAlpha = True, sampleAlphaToCoverage = False, dither = False \<rparr>,
       mCurBlendColor = \<lparr> red = 0, green = 0, blue = 0, alpha = 0 \<rparr>,
       mCurSampleMask = 0,
       mCurDepthStencilState =
         \<lparr> depthTest = False, depthFunc = GL_LESS, depthMask = True, stencilTest = False,
           stencilFunc = GL_ALWAYS, stencilMask = 1, stencilFail = GL_KEEP,
           stencilPassDepthFail = GL_KEEP, stencilPassDepthPass = GL_KEEP,
           stencilWritemask = - 1, stencilBackFunc = GL_ALWAYS, stencilBackMask = - 1,
           stencilBackFail = GL_KEEP, stencilBackPassDepthFail = GL_KEEP,
           stencilBackPassDepthPass = GL_KEEP, stencilBackWritemask = - 1 \<rparr>,
       mCurStencilRef = 0,
       mCurStencilBackRef = 0,
       mCurStencilSize = 0,
       mCurDisableDepth = None,
       mCurDisableStencil = None,
       mCurRasterState =
         \<lparr> cullFace = False, cullMode = Back, frontFace = GL_CCW, polygonOffsetFill = False,
           polygonOffsetFactor = 0, polygonOffsetUnits = 0, pointDrawMode = False,
           multiSample = False, rasterizerDiscard = False \<rparr>,
       mCurScissorEnabled = False,
       mCurScissorRect = \<lparr> rect_x = 0, rect_y = 0, rect_width = 0, rect_height = 0 \<rparr>,
       mCurViewport = \<lparr> rect_x = 0, rect_y = 0, rect_width = 0, rect_height = 0 \<rparr>,
       mCurNear = 0,
       mCurFar = 0,
       mViewportBounds = \<lparr> ext_width = 0, ext_height = 0, ext_depth = 0 \<rparr>,
       mRenderTargetIsDirty = True,
       mCurPresentPathFastEnabled = False,
       mCurPresentPathFastColorBufferHeight = 0,
       mDirtyCurrentValueAttribs = {..< MAX_VERTEX_ATTRIBS},
       mCurrentValueAttribs = [],
       mCurrentInputLayout = kDirty,
       mDirtyVertexBufferRange = \<lparr> mLow = MAX_VERTEX_ATTRIBS, mHigh = 0 \<rparr>,
       mCurrentVertexBuffers = replicate MAX_VERTEX_ATTRIBS 0,
       mCurrentVertexStrides = replicate MAX_VERTEX_ATTRIBS (2 ^ 32 - 1),
       mCurrentVertexOffsets = replicate MAX_VERTEX_ATTRIBS (2 ^ 32 - 1),
       mCurrentPrimitiveTopology = D3D11_PRIMITIVE_TOPOLOGY_UNDEFINED,
       mLastAppliedDrawMode = GL_INVALID_INDEX,
       mCurrentMinimumDrawCount = 0,
       mDirtySwizzles = False,
       mAppliedIB = 0,
       mAppliedIBFormat = DXGI_FORMAT_UNKNOWN,
       mAppliedIBOffset = 0,
       mIndexBufferIsDirty = False,
       mIsMultiviewEnabled = False,
       mViewportOffsets = [],
       mLastFirstVertex = None,
       mCurVertexSRVs = ViewCache_new,
       mCurPixelSRVs = ViewCache_new,
       mCurComputeSRVs = ViewCache_new,
       mNullSRVs = [],
       mForceSetVertexSamplerStates = [],
       mForceSetPixelSamplerStates = [],
       mForceSetComputeSamplerStates = [],
       mCurVertexSamplerStates = [],
       mCurPixelSamplerStates = [],
       mCurComputeSamplerStates = [],
       mShaderConstants = ShaderConstants11_new,
       mAppliedVertexShader = kDirty,
       mAppliedGeometryShader = kDirty,
       mAppliedPixelShader = kDirty,
       mCurrentConstantBufferVS =
         replicate IMPLEMENTATION_MAX_VERTEX_SHADER_UNIFORM_BUFFERS kDirty,
       mCurrentConstantBufferVSOffset =
         replicate IMPLEMENTATION_MAX_VERTEX_SHADER_UNIFORM_BUFFERS 0,
       mCurrentConstantBufferVSSize =
         replicate IMPLEMENTATION_MAX_VERTEX_SHADER_UNIFORM_BUFFERS 0,
       mCurrentConstantBufferPS =
         replicate IMPLEMENTATION_MAX_FRAGMENT_SHADER_UNIFORM_BUFFERS kDirty,
       mCurrentConstantBufferPSOffset =
         replicate IMPLEMENTATION_MAX_FRAGMENT_SHADER_UNIFORM_BUFFERS 0,
       mCurrentConstantBufferPSSize =
         replicate IMPLEMENTATION_MAX_FRAGMENT_SHADER_UNIFORM_BUFFERS 0,
       mCurrentGeometryConstantBuffer = kDirty,
       mDriverConstantBufferVS = None,
       mDriverConstantBufferPS = None,
       mPointSpriteVertexBuffer = None,
       mPointSpriteIndexBuffer = None,
       mAppliedTFSerial = 0,
       mEmptySerial = generateSerial,
       mCurrentAttributes = [],
       mBindingsVS = replicate IMPLEMENTATION_MAX_VERTEX_SHADER_UNIFORM_BUFFERS 0,
       mBindingsPS = replicate IMPLEMENTATION_MAX_FRAGMENT_SHADER_UNIFORM_BUFFERS 0 \<rparr>"

definition zero_attribute :: TranslatedAttribute where
  "zero_attribute =
     \<lparr> attr_enabled = False, divisor = 0, stride = 0, vertexBuffer = 0, storage = None,
       computeOffset = (NoError, 0) \<rparr>"

text \<open>
  \<^verbatim>\<open>initialize\<close>. \<open>multiview\<close> is \<^verbatim>\<open>extensions.multiview\<close> and
  \<open>vertexDataManagerInitialize\<close> the result of \<^verbatim>\<open>mVertexDataManager.initialize()\<close>.
\<close>

definition initialize ::
    "Caps \<Rightarrow> bool \<Rightarrow> Error \<Rightarrow> StateManager11 \<Rightarrow> Error \<times> StateManager11" where
  "initialize caps multiview vertexDataManagerInitialize s =
     (let s1 = s\<lparr>
            mCurVertexSRVs :=
              ViewCache_initialize (maxVertexTextureImageUnits caps) (mCurVertexSRVs s),
            mCurPixelSRVs := ViewCache_initialize (maxTextureImageUnits caps) (mCurPixelSRVs s),
            mCurComputeSRVs := ViewCache_initialize (maxImageUnits caps) (mCurComputeSRVs s),
            mNullSRVs := resize (maxTextureImageUnits caps) 0 (mNullSRVs s),
            mCurrentValueAttribs :=
              resize (maxVertexAttributes caps) zero_attribute (mCurrentValueAttribs s),
            mForceSetVertexSamplerStates :=
              resize (maxVertexTextureImageUnits caps) True (mForceSetVertexSamplerStates s),
            mForceSetPixelSamplerStates :=
              resize (maxTextureImageUnits caps) True (mForceSetPixelSamplerStates s),
            mForceSetComputeSamplerStates :=
              resize (maxComputeTextureImageUnits caps) True (mForceSetComputeSamplerStates s),
            mCurVertexSamplerStates :=
              resize (maxVertexTextureImageUnits caps) [] (mCurVertexSamplerStates s),
            mCurPixelSamplerStates :=
              resize (maxTextureImageUnits caps) [] (mCurPixelSamplerStates s),
            mCurComputeSamplerStates :=
              resize (maxComputeTextureImageUnits caps) [] (mCurComputeSamplerStates s),
            mShaderConstants := ShaderConstants11_init caps (mShaderConstants s),
            mIsMultiviewEnabled := multiview,
            mViewportOffsets :=
              resize 1 \<lparr> off_x = 0, off_y = 0, off_z = 0 \<rparr> (mViewportOffsets s) \<rparr>
      in (vertexDataManagerInitialize, s1))"

subsection \<open>Shader resource bindings\<close>

text \<open>
  \<^verbatim>\<open>getSRVCache\<close> returns a pointer to the cache of a stage; \<open>setSRVCache\<close> is a write
  through that pointer. \<open>deviceCall\<close> appends a call to the trace.
\<close>

definition getSRVCache :: "ShaderType \<Rightarrow> StateManager11 \<Rightarrow> ViewCache" where
  "getSRVCache shaderType s =
     (case shaderType of
        Vertex \<Rightarrow> mCurVertexSRVs s
      | Fragment \<Rightarrow> mCurPixelSRVs s
      | Compute \<Rightarrow> mCurComputeSRVs s)"

definition setSRVCache :: "ShaderType \<Rightarrow> ViewCache \<Rightarrow> StateManager11 \<Rightarrow> StateManager11" where
  "setSRVCache shaderType c s =
     (case shaderType of
        Vertex \<Rightarrow> s\<lparr> mCurVertexSRVs := c \<rparr>
      | Fragment \<Rightarrow> s\<lparr> mCurPixelSRVs := c \<rparr>
      | Compute \<Rightarrow> s\<lparr> mCurComputeSRVs := c \<rparr>)"

definition deviceCall :: "DeviceCall \<Rightarrow> StateManager11 \<Rightarrow> StateManager11" where
  "deviceCall c s = s\<lparr> deviceContext := deviceContext s @ [c] \<rparr>"

definition setShaderResourceInternal ::
    "ShaderType \<Rightarrow> nat \<Rightarrow> SRVWrapper option \<Rightarrow> StateManager11 \<Rightarrow> StateManager11" where
  "setShaderResourceInternal shaderType resourceSlot srv s =
     (let currentSRVs = getSRVCache shaderType s;
          rec = mCurrentViews currentSRVs ! resourceSlot
      in if view rec \<noteq> (case srv of None \<Rightarrow> 0 | Some w \<Rightarrow> self_addr w)
         then (let srvPtr = (case srv of None \<Rightarrow> None | Some w \<Rightarrow> get w);
                   s1 = deviceCall (SetShaderResources (stage_of shaderType) resourceSlot 1
                                      [ptr_of srvPtr]) s
               in setSRVCache shaderType (ViewCache_update resourceSlot srvPtr currentSRVs) s1)
         else s)"

definition clearSRVs ::
    "ShaderType \<Rightarrow> nat \<Rightarrow> nat \<Rightarrow> StateManager11 \<Rightarrow> Error \<times> StateManager11" where
  "clearSRVs shaderType rangeStart rangeEnd s =
     (if rangeStart = rangeEnd then (NoError, s)
      else
        (let currentSRVs = getSRVCache shaderType s;
             clearRange = \<lparr> mLow = rangeStart,
                            mHigh = min rangeEnd (highestUsed currentSRVs) \<rparr>
         in if Range_empty clearRange then (NoError, s)
            else
              (let s1 = deviceCall
                          (SetShaderResources (stage_of shaderType) (Range_low clearRange)
                             (Range_length clearRange)
                             (take (Range_length clearRange) (mNullSRVs s))) s;
                   cleared = foldl (\<lambda>c samplerIndex. ViewCache_update samplerIndex None c)
                               currentSRVs (Range_elems clearRange)
               in (NoError, setSRVCache shaderType cleared s1))))"

text \<open>
  \<^verbatim>\<open>unsetConflictingSRVs\<close>: the test of one slot, one turn of the loop, and the loop over
  the slots of the cache. \<open>index\<close> is \<open>None\<close> for a null \<^verbatim>\<open>ImageIndex\<close> pointer.
\<close>

definition conflictingSRV :: "uintptr_t \<Rightarrow> ImageIndex option \<Rightarrow> ViewRecord \<Rightarrow> bool" where
  "conflictingSRV res index rec =
     (view rec \<noteq> 0 \<and> resource rec = res \<and>
      (case index of None \<Rightarrow> True | Some i \<Rightarrow> ImageIndexConflictsWithSRV i (desc rec)))"

definition unsetConflictingSRVs_step ::
    "ShaderType \<Rightarrow> uintptr_t \<Rightarrow> ImageIndex option \<Rightarrow> bool \<times> StateManager11 \<Rightarrow> nat
       \<Rightarrow> bool \<times> StateManager11" where
  "unsetConflictingSRVs_step shaderType res index acc resourceIndex =
     (let foundOne = fst acc; s = snd acc;
          rec = mCurrentViews (getSRVCache shaderType s) ! resourceIndex
      in if conflictingSRV res index rec
         then (True, setShaderResourceInternal shaderType resourceIndex None s)
         else (foundOne, s))"

definition unsetConflictingSRVs ::
    "ShaderType \<Rightarrow> uintptr_t \<Rightarrow> ImageIndex option \<Rightarrow> StateManager11
       \<Rightarrow> bool \<times> StateManager11" where
  "unsetConflictingSRVs shaderType res index s =
     foldl (unsetConflictingSRVs_step shaderType res index) (False, s)
       [0 ..< ViewCache_size (getSRVCache shaderType s)]"

definition unsetConflictingAttachmentResources ::
    "FramebufferAttachment \<Rightarrow> uintptr_t \<Rightarrow> StateManager11 \<Rightarrow> StateManager11" where
  "unsetConflictingAttachmentResources attachment res s =
     (if att_type attachment = GL_TEXTURE
      then (let index = getTextureImageIndex attachment;
                s1 = snd (unsetConflictingSRVs Vertex res (Some index) s)
            in snd (unsetConflictingSRVs Fragment res (Some index) s1))
      else if att_type attachment = GL_FRAMEBUFFER_DEFAULT
      then (let s1 = snd (unsetConflictingSRVs Vertex res None s)
            in snd (unsetConflictingSRVs Fragment res None s1))
      else s)"

subsection \<open>syncFramebuffer\<close>

text \<open>
  The test at the head of \<^verbatim>\<open>syncFramebuffer\<close>. The source reads the size through the
  pointer \<^verbatim>\<open>getFirstColorbuffer()\<close> returns without a null check; a default framebuffer
  has a colour buffer.
\<close>

definition zeroSizedDefaultFramebuffer :: "Framebuffer \<Rightarrow> bool" where
  "zeroSizedDefaultFramebuffer framebuffer =
     (fb_id framebuffer = 0 \<and>
      (case getFirstColorbuffer framebuffer of
         Some a \<Rightarrow> ext_width (getSize a) = 0 \<or> ext_height (getSize a) = 0
       | None \<Rightarrow> False))"

text \<open>
  The loop over the colour render targets. Its variables are the array
  \<open>framebufferRTVs\<close>, \<open>appliedRTIndex\<close>, \<open>maxExistingRT\<close> and the state.
\<close>

definition syncFramebuffer_step ::
    "bool \<Rightarrow> nat set \<Rightarrow> Framebuffer
       \<Rightarrow> uintptr_t list \<times> nat \<times> nat \<times> StateManager11 \<Rightarrow> nat
       \<Rightarrow> uintptr_t list \<times> nat \<times> nat \<times> StateManager11" where
  "syncFramebuffer_step skipInactiveRTs activeProgramOutputs framebuffer acc rtIndex =
     (case acc of (framebufferRTVs, appliedRTIndex, maxExistingRT, s) \<Rightarrow>
        (let renderTarget = getCachedColorRenderTargets framebuffer ! rtIndex
         in if skipInactiveRTs \<and>
               (renderTarget = None \<or> getDrawBufferStates framebuffer ! rtIndex = GL_NONE \<or>
                rtIndex \<notin> activeProgramOutputs)
            then acc
            else
              (case renderTarget of
                 Some (rt, attachment) \<Rightarrow>
                   (framebufferRTVs[appliedRTIndex := getRenderTargetView rt],
                    appliedRTIndex + 1,
                    appliedRTIndex + 1,
                    unsetConflictingAttachmentResources attachment (getTexture rt) s)
               | None \<Rightarrow> (framebufferRTVs, appliedRTIndex + 1, maxExistingRT, s))))"

definition syncFramebuffer ::
    "Renderer11 \<Rightarrow> ProgramD3D \<Rightarrow> Framebuffer \<Rightarrow> StateManager11 \<Rightarrow> Error \<times> StateManager11" where
  "syncFramebuffer renderer program framebuffer s =
     (if zeroSizedDefaultFramebuffer framebuffer then (NoError, s)
      else
        (case foldl (syncFramebuffer_step (mrtPerfWorkaround renderer)
                       (getActiveOutputVariables program) framebuffer)
                (replicate D3D11_SIMULTANEOUS_RENDER_TARGET_COUNT 0, 0, 0, s)
                [0 ..< length (getCachedColorRenderTargets framebuffer)] of
           (framebufferRTVs, appliedRTIndex, maxExistingRT, s1) \<Rightarrow>
             (let (framebufferDSV, s2) =
                    (case getCachedDepthStencilRenderTarget framebuffer of
                       Some (rt, attachment) \<Rightarrow>
                         (getDepthStencilView rt,
                          unsetConflictingAttachmentResources attachment (getTexture rt) s1)
                     | None \<Rightarrow> (0, s1))
              in (NoError,
                  deviceCall (OMSetRenderTargets maxExistingRT
                                (take maxExistingRT framebufferRTVs) framebufferDSV) s2))))"

subsection \<open>Invalidation\<close>

definition setDirtyBit :: "DirtyBitType \<Rightarrow> StateManager11 \<Rightarrow> StateManager11" where
  "setDirtyBit b s = s\<lparr> mInternalDirtyBits := insert b (mInternalDirtyBits s) \<rparr>"

definition updateStencilSizeIfChanged :: "bool \<Rightarrow> nat \<Rightarrow> StateManager11 \<Rightarrow> StateManager11" where
  "updateStencilSizeIfChanged depthStencilInitialized stencilSize s =
     (if \<not> depthStencilInitialized \<or> stencilSize \<noteq> mCurStencilSize s
      then setDirtyBit DIRTY_BIT_DEPTH_STENCIL_STATE (s\<lparr> mCurStencilSize := stencilSize \<rparr>)
      else s)"

definition invalidateRenderTarget :: "StateManager11 \<Rightarrow> StateManager11" where
  "invalidateRenderTarget s = s\<lparr> mRenderTargetIsDirty := True \<rparr>"

definition invalidateShaders :: "StateManager11 \<Rightarrow> StateManager11" where
  "invalidateShaders s = setDirtyBit DIRTY_BIT_SHADERS s"

definition invalidateDriverUniforms :: "StateManager11 \<Rightarrow> StateManager11" where
  "invalidateDriverUniforms s = setDirtyBit DIRTY_BIT_DRIVER_UNIFORMS s"

definition invalidateProgramUniforms :: "StateManager11 \<Rightarrow> StateManager11" where
  "invalidateProgramUniforms s = setDirtyBit DIRTY_BIT_PROGRAM_UNIFORMS s"

definition invalidateProgramUniformBuffers :: "StateManager11 \<Rightarrow> StateManager11" where
  "invalidateProgramUniformBuffers s = setDirtyBit DIRTY_BIT_PROGRAM_UNIFORM_BUFFERS s"

definition invalidateInputLayout :: "StateManager11 \<Rightarrow> StateManager11" where
  "invalidateInputLayout s = setDirtyBit DIRTY_BIT_VERTEX_BUFFERS_AND_INPUT_LAYOUT s"

definition invalidateIndexBuffer :: "StateManager11 \<Rightarrow> StateManager11" where
  "invalidateIndexBuffer s = s\<lparr> mIndexBufferIsDirty := True \<rparr>"

definition invalidateSwizzles :: "StateManager11 \<Rightarrow> StateManager11" where
  "invalidateSwizzles s = s\<lparr> mDirtySwizzles := True \<rparr>"

definition invalidateViewport :: "StateManager11 \<Rightarrow> StateManager11" where
  "invalidateViewport s = invalidateDriverUniforms (setDirtyBit DIRTY_BIT_VIEWPORT_STATE s)"

definition invalidateTexturesAndSamplers :: "StateManager11 \<Rightarrow> StateManager11" where
  "invalidateTexturesAndSamplers s =
     invalidateDriverUniforms
       (invalidateSwizzles (setDirtyBit DIRTY_BIT_TEXTURE_AND_SAMPLER_STATE s))"

definition invalidateTransformFeedback :: "StateManager11 \<Rightarrow> StateManager11" where
  "invalidateTransformFeedback s =
     setDirtyBit DIRTY_BIT_PRIMITIVE_TOPOLOGY
       (setDirtyBit DIRTY_BIT_TRANSFORM_FEEDBACK (invalidateShaders s))"

text \<open>\<open>maxVertexAttributes\<close> is \<^verbatim>\<open>mRenderer->getNativeCaps().maxVertexAttributes\<close>.\<close>

definition invalidateVertexBuffer :: "Renderer11 \<Rightarrow> StateManager11 \<Rightarrow> StateManager11" where
  "invalidateVertexBuffer renderer s =
     (let limit = min (maxVertexAttributes (getNativeCaps renderer)) MAX_VERTEX_ATTRIBS;
          s1 = s\<lparr> mDirtyVertexBufferRange := \<lparr> mLow = 0, mHigh = limit \<rparr> \<rparr>
      in setDirtyBit DIRTY_BIT_CURRENT_VALUE_ATTRIBS (invalidateShaders (invalidateInputLayout s1)))"

definition invalidateCurrentValueAttrib :: "nat \<Rightarrow> StateManager11 \<Rightarrow> StateManager11" where
  "invalidateCurrentValueAttrib attribIndex s =
     invalidateShaders
       (invalidateInputLayout
          (setDirtyBit DIRTY_BIT_CURRENT_VALUE_ATTRIBS
             (s\<lparr> mDirtyCurrentValueAttribs := insert attribIndex (mDirtyCurrentValueAttribs s) \<rparr>)))"

definition RESERVED_CONSTANT_BUFFER_SLOT_DEFAULT_UNIFORM_BLOCK :: nat where
  "RESERVED_CONSTANT_BUFFER_SLOT_DEFAULT_UNIFORM_BLOCK = 0"

definition RESERVED_CONSTANT_BUFFER_SLOT_DRIVER :: nat where
  "RESERVED_CONSTANT_BUFFER_SLOT_DRIVER = 1"

definition invalidateConstantBuffer :: "nat \<Rightarrow> StateManager11 \<Rightarrow> StateManager11" where
  "invalidateConstantBuffer slot s =
     (if slot = RESERVED_CONSTANT_BUFFER_SLOT_DRIVER then invalidateDriverUniforms s
      else if slot = RESERVED_CONSTANT_BUFFER_SLOT_DEFAULT_UNIFORM_BLOCK
      then invalidateProgramUniforms s
      else invalidateProgramUniformBuffers s)"

definition invalidateBoundViews :: "StateManager11 \<Rightarrow> StateManager11" where
  "invalidateBoundViews s =
     invalidateRenderTarget
       (s\<lparr> mCurVertexSRVs := ViewCache_clear (mCurVertexSRVs s),
           mCurPixelSRVs := ViewCache_clear (mCurPixelSRVs s) \<rparr>)"

subsection \<open>Framebuffer invalidation\<close>

definition checkPresentPath :: "Context \<Rightarrow> StateManager11 \<Rightarrow> StateManager11" where
  "checkPresentPath context s =
     (if \<not> presentPathFastEnabled (getRenderer context) then s
      else
        (let firstColorAttachment = getFirstColorbuffer (getDrawFramebuffer context);
             presentPathFastActive = UsePresentPathFast context;
             colorBufferHeight =
               (case firstColorAttachment of Some a \<Rightarrow> ext_height (getSize a) | None \<Rightarrow> 0)
         in if mCurPresentPathFastEnabled s \<noteq> presentPathFastActive \<or>
               (presentPathFastActive \<and>
                colorBufferHeight \<noteq> mCurPresentPathFastColorBufferHeight s)
            then invalidateViewport
                   (setDirtyBit DIRTY_BIT_RASTERIZER_STATE
                      (setDirtyBit DIRTY_BIT_SCISSOR_STATE
                         (s\<lparr> mCurPresentPathFastEnabled := presentPathFastActive,
                             mCurPresentPathFastColorBufferHeight := colorBufferHeight \<rparr>)))
            else s))"

definition processFramebufferInvalidation :: "Context \<Rightarrow> StateManager11 \<Rightarrow> StateManager11" where
  "processFramebufferInvalidation context s =
     (if \<not> mRenderTargetIsDirty s then s
      else
        (let s1 = setDirtyBit DIRTY_BIT_BLEND_STATE
                    (invalidateShaders
                       (setDirtyBit DIRTY_BIT_RENDER_TARGET (s\<lparr> mRenderTargetIsDirty := False \<rparr>)));
             fbo = getDrawFramebuffer context;
             disableDepth = (\<not> hasDepth fbo \<and> hasStencil fbo);
             disableStencil = (hasDepth fbo \<and> \<not> hasStencil fbo);
             s2 = (if mCurDisableDepth s1 = None \<or> disableDepth \<noteq> the (mCurDisableDepth s1) \<or>
                      mCurDisableStencil s1 = None \<or>
                      disableStencil \<noteq> the (mCurDisableStencil s1)
                   then (setDirtyBit DIRTY_BIT_DEPTH_STENCIL_STATE s1)
                          \<lparr> mCurDisableDepth := Some disableDepth,
                            mCurDisableStencil := Some disableStencil \<rparr>
                   else s1);
             multiSampleNow = (getCachedSamples fbo \<noteq> 0);
             s3 = (if multiSampleNow \<noteq> multiSample (mCurRasterState s2)
                   then (setDirtyBit DIRTY_BIT_RASTERIZER_STATE s2)
                          \<lparr> mCurRasterState :=
                              (mCurRasterState s2)\<lparr> multiSample := multiSampleNow \<rparr> \<rparr>
                   else s2);
             s4 = checkPresentPath context s3
         in if featureLevel_le_9_3 (getRenderer context)
            then (case getFirstNonNullAttachment fbo of
                    Some firstAttachment \<Rightarrow>
                      (let sz = getSize firstAttachment
                       in if ext_width (mViewportBounds s4) \<noteq> ext_width sz \<or>
                             ext_height (mViewportBounds s4) \<noteq> ext_height sz
                          then invalidateViewport
                                 (s4\<lparr> mViewportBounds :=
                                        \<lparr> ext_width = ext_width sz, ext_height = ext_height sz,
                                          ext_depth = 1 \<rparr> \<rparr>)
                          else s4)
                  | None \<Rightarrow> s4)
            else s4))"

subsection \<open>syncState\<close>

text \<open>
  The enumerators of \<^verbatim>\<open>gl::State::DirtyBitType\<close> that \<^verbatim>\<open>syncState\<close> has a case for;
  \<open>State_DIRTY_BIT_OTHER\<close> stands for the others, which fall to \<^verbatim>\<open>default\<close>.
\<close>

datatype StateDirtyBit =
    State_DIRTY_BIT_BLEND_EQUATIONS
  | State_DIRTY_BIT_BLEND_FUNCS
  | State_DIRTY_BIT_BLEND_ENABLED
  | State_DIRTY_BIT_SAMPLE_ALPHA_TO_COVERAGE_ENABLED
  | State_DIRTY_BIT_DITHER_ENABLED
  | State_DIRTY_BIT_COLOR_MASK
  | State_DIRTY_BIT_BLEND_COLOR
  | State_DIRTY_BIT_DEPTH_MASK
  | State_DIRTY_BIT_DEPTH_TEST_ENABLED
  | State_DIRTY_BIT_DEPTH_FUNC
  | State_DIRTY_BIT_STENCIL_TEST_ENABLED
  | State_DIRTY_BIT_STENCIL_FUNCS_FRONT
  | State_DIRTY_BIT_STENCIL_FUNCS_BACK
  | State_DIRTY_BIT_STENCIL_WRITEMASK_FRONT
  | State_DIRTY_BIT_STENCIL_WRITEMASK_BACK
  | State_DIRTY_BIT_STENCIL_OPS_FRONT
  | State_DIRTY_BIT_STENCIL_OPS_BACK
  | State_DIRTY_BIT_CULL_FACE_ENABLED
  | State_DIRTY_BIT_CULL_FACE
  | State_DIRTY_BIT_FRONT_FACE
  | State_DIRTY_BIT_POLYGON_OFFSET_FILL_ENABLED
  | State_DIRTY_BIT_POLYGON_OFFSET
  | State_DIRTY_BIT_RASTERIZER_DISCARD_ENABLED
  | State_DIRTY_BIT_SCISSOR
  | State_DIRTY_BIT_SCISSOR_TEST_ENABLED
  | State_DIRTY_BIT_DEPTH_RANGE
  | State_DIRTY_BIT_VIEWPORT
  | State_DIRTY_BIT_DRAW_FRAMEBUFFER_BINDING
  | State_DIRTY_BIT_VERTEX_ARRAY_BINDING
  | State_DIRTY_BIT_UNIFORM_BUFFER_BINDINGS
  | State_DIRTY_BIT_TEXTURE_BINDINGS
  | State_DIRTY_BIT_SAMPLER_BINDINGS
  | State_DIRTY_BIT_TRANSFORM_FEEDBACK_BINDING
  | State_DIRTY_BIT_PROGRAM_EXECUTABLE
  | State_DIRTY_BIT_CURRENT_VALUES
  | State_DIRTY_BIT_OTHER

definition setMultiviewWriteToViewportIndex :: "real \<Rightarrow> ShaderConstants11 \<Rightarrow> ShaderConstants11" where
  "setMultiviewWriteToViewportIndex index c =
     c\<lparr> mVertex := (mVertex c)\<lparr> v_multiviewWriteToViewportIndex := index \<rparr>,
        mPixel := (mPixel c)\<lparr> p_multiviewWriteToViewportIndex := index \<rparr>,
        mShaderConstantsDirty := insert Fragment (insert Vertex (mShaderConstantsDirty c)) \<rparr>"

text \<open>
  Modelled from the spec: \<^verbatim>\<open>gl::FramebufferAttachment::GetDefaultViewportOffsetVector\<close>
  (FramebufferAttachment.cpp) gives the offsets of a framebuffer without multiview
  attachments: one viewport rectangle, not displaced.
\<close>

definition GetDefaultViewportOffsetVector :: "Offset list" where
  "GetDefaultViewportOffsetVector = [\<lparr> off_x = 0, off_y = 0, off_z = 0 \<rparr>]"

definition handleMultiviewDrawFramebufferChange ::
    "Context \<Rightarrow> StateManager11 \<Rightarrow> StateManager11" where
  "handleMultiviewDrawFramebufferChange context s =
     (let drawFramebuffer = getDrawFramebuffer context;
          viewportOffsets = (case getViewportOffsets drawFramebuffer of
                               Some offs \<Rightarrow> offs
                             | None \<Rightarrow> GetDefaultViewportOffsetVector);
          s1 = (if mViewportOffsets s \<noteq> viewportOffsets
                then setDirtyBit DIRTY_BIT_SCISSOR_STATE
                       (invalidateViewport (s\<lparr> mViewportOffsets := viewportOffsets \<rparr>))
                else s)
      in if getMultiviewLayout drawFramebuffer = GL_FRAMEBUFFER_MULTIVIEW_SIDE_BY_SIDE_ANGLE
         then s1\<lparr> mShaderConstants := setMultiviewWriteToViewportIndex 1 (mShaderConstants s1) \<rparr>
         else if getMultiviewLayout drawFramebuffer = GL_FRAMEBUFFER_MULTIVIEW_LAYERED_ANGLE
         then s1\<lparr> mShaderConstants := setMultiviewWriteToViewportIndex 0 (mShaderConstants s1) \<rparr>
         else s1)"

text \<open>
  One turn of the loop of \<^verbatim>\<open>syncState\<close>: the switch on the dirty bit. With multiview
  enabled, the case of the program executable also tells the vertex array to adjust its
  attribute divisors, which changes nothing held here.
\<close>

definition syncState_bit :: "Context \<Rightarrow> StateManager11 \<Rightarrow> StateDirtyBit \<Rightarrow> StateManager11" where
  "syncState_bit context s dirtyBit =
     (let state = getGLState context;
          blendState = getBlendState state;
          depthStencil = getDepthStencilState state;
          rasterState = getRasterizerState state;
          curBlend = mCurBlendState s;
          curDS = mCurDepthStencilState s;
          curRaster = mCurRasterState s
      in case dirtyBit of
           State_DIRTY_BIT_BLEND_EQUATIONS \<Rightarrow>
             (if blendEquationRGB blendState \<noteq> blendEquationRGB curBlend \<or>
                 blendEquationAlpha blendState \<noteq> blendEquationAlpha curBlend
              then setDirtyBit DIRTY_BIT_BLEND_STATE s else s)
         | State_DIRTY_BIT_BLEND_FUNCS \<Rightarrow>
             (if sourceBlendRGB blendState \<noteq> sourceBlendRGB curBlend \<or>
                 destBlendRGB blendState \<noteq> destBlendRGB curBlend \<or>
                 sourceBlendAlpha blendState \<noteq> sourceBlendAlpha curBlend \<or>
                 destBlendAlpha blendState \<noteq> destBlendAlpha curBlend
              then setDirtyBit DIRTY_BIT_BLEND_STATE s else s)
         | State_DIRTY_BIT_BLEND_ENABLED \<Rightarrow>
             (if blend blendState \<noteq> blend curBlend
              then setDirtyBit DIRTY_BIT_BLEND_STATE s else s)
         | State_DIRTY_BIT_SAMPLE_ALPHA_TO_COVERAGE_ENABLED \<Rightarrow>
             (if sampleAlphaToCoverage blendState \<noteq> sampleAlphaToCoverage curBlend
              then setDirtyBit DIRTY_BIT_BLEND_STATE s else s)
         | State_DIRTY_BIT_DITHER_ENABLED \<Rightarrow>
             (if dither blendState \<noteq> dither curBlend
              then setDirtyBit DIRTY_BIT_BLEND_STATE s else s)
         | State_DIRTY_BIT_COLOR_MASK \<Rightarrow>
             (if colorMaskRed blendState \<noteq> colorMaskRed curBlend \<or>
                 colorMaskGreen blendState \<noteq> colorMaskGreen curBlend \<or>
                 colorMaskBlue blendState \<noteq> colorMaskBlue curBlend \<or>
                 colorMaskAlpha blendState \<noteq> colorMaskAlpha curBlend
              then setDirtyBit DIRTY_BIT_BLEND_STATE s else s)
         | State_DIRTY_BIT_BLEND_COLOR \<Rightarrow>
             (if getBlendColor state \<noteq> mCurBlendColor s
              then setDirtyBit DIRTY_BIT_BLEND_STATE s else s)
         | State_DIRTY_BIT_DEPTH_MASK \<Rightarrow>
             (if depthMask depthStencil \<noteq> depthMask curDS
              then setDirtyBit DIRTY_BIT_DEPTH_STENCIL_STATE s else s)
         | State_DIRTY_BIT_DEPTH_TEST_ENABLED \<Rightarrow>
             (if depthTest depthStencil \<noteq> depthTest curDS
              then setDirtyBit DIRTY_BIT_DEPTH_STENCIL_STATE s else s)
         | State_DIRTY_BIT_DEPTH_FUNC \<Rightarrow>
             (if depthFunc depthStencil \<noteq> depthFunc curDS
              then setDirtyBit DIRTY_BIT_DEPTH_STENCIL_STATE s else s)
         | State_DIRTY_BIT_STENCIL_TEST_ENABLED \<Rightarrow>
             (if stencilTest depthStencil \<noteq> stencilTest curDS
              then setDirtyBit DIRTY_BIT_DEPTH_STENCIL_STATE s else s)
         | State_DIRTY_BIT_STENCIL_FUNCS_FRONT \<Rightarrow>
             (if stencilFunc depthStencil \<noteq> stencilFunc curDS \<or>
                 stencilMask depthStencil \<noteq> stencilMask curDS \<or>
                 getStencilRef state \<noteq> mCurStencilRef s
              then setDirtyBit DIRTY_BIT_DEPTH_STENCIL_STATE s else s)
         | State_DIRTY_BIT_STENCIL_FUNCS_BACK \<Rightarrow>
             (if stencilBackFunc depthStencil \<noteq> stencilBackFunc curDS \<or>
                 stencilBackMask depthStencil \<noteq> stencilBackMask curDS \<or>
                 getStencilBackRef state \<noteq> mCurStencilBackRef s
              then setDirtyBit DIRTY_BIT_DEPTH_STENCIL_STATE s else s)
         | State_DIRTY_BIT_STENCIL_WRITEMASK_FRONT \<Rightarrow>
             (if stencilWritemask depthStencil \<noteq> stencilWritemask curDS
              then setDirtyBit DIRTY_BIT_DEPTH_STENCIL_STATE s else s)
         | State_DIRTY_BIT_STENCIL_WRITEMASK_BACK \<Rightarrow>
             (if stencilBackWritemask depthStencil \<noteq> stencilBackWritemask curDS
              then setDirtyBit DIRTY_BIT_DEPTH_STENCIL_STATE s else s)
         | State_DIRTY_BIT_STENCIL_OPS_FRONT \<Rightarrow>
             (if stencilFail depthStencil \<noteq> stencilFail curDS \<or>
                 stencilPassDepthFail depthStencil \<noteq> stencilPassDepthFail curDS \<or>
                 stencilPassDepthPass depthStencil \<noteq> stencilPassDepthPass curDS
              then setDirtyBit DIRTY_BIT_DEPTH_STENCIL_STATE s else s)
         | State_DIRTY_BIT_STENCIL_OPS_BACK \<Rightarrow>
             (if stencilBackFail depthStencil \<noteq> stencilBackFail curDS \<or>
                 stencilBackPassDepthFail depthStencil \<noteq> stencilBackPassDepthFail curDS \<or>
                 stencilBackPassDepthPass depthStencil \<noteq> stencilBackPassDepthPass curDS
              then setDirtyBit DIRTY_BIT_DEPTH_STENCIL_STATE s else s)
         | State_DIRTY_BIT_CULL_FACE_ENABLED \<Rightarrow>
             (if cullFace rasterState \<noteq> cullFace curRaster
              then setDirtyBit DIRTY_BIT_PRIMITIVE_TOPOLOGY
                     (setDirtyBit DIRTY_BIT_RASTERIZER_STATE s)
              else s)
         | State_DIRTY_BIT_CULL_FACE \<Rightarrow>
             (if cullMode rasterState \<noteq> cullMode curRaster
              then setDirtyBit DIRTY_BIT_PRIMITIVE_TOPOLOGY
                     (setDirtyBit DIRTY_BIT_RASTERIZER_STATE s)
              else s)
         | State_DIRTY_BIT_FRONT_FACE \<Rightarrow>
             (if frontFace rasterState \<noteq> frontFace curRaster
              then setDirtyBit DIRTY_BIT_PRIMITIVE_TOPOLOGY
                     (setDirtyBit DIRTY_BIT_RASTERIZER_STATE s)
              else s)
         | State_DIRTY_BIT_POLYGON_OFFSET_FILL_ENABLED \<Rightarrow>
             (if polygonOffsetFill rasterState \<noteq> polygonOffsetFill curRaster
              then setDirtyBit DIRTY_BIT_RASTERIZER_STATE s else s)
         | State_DIRTY_BIT_POLYGON_OFFSET \<Rightarrow>
             (if polygonOffsetFactor rasterState \<noteq> polygonOffsetFactor curRaster \<or>
                 polygonOffsetUnits rasterState \<noteq> polygonOffsetUnits curRaster
              then setDirtyBit DIRTY_BIT_RASTERIZER_STATE s else s)
         | State_DIRTY_BIT_RASTERIZER_DISCARD_ENABLED \<Rightarrow>
             (if rasterizerDiscard rasterState \<noteq> rasterizerDiscard curRaster
              then invalidateShaders (setDirtyBit DIRTY_BIT_RASTERIZER_STATE s)
              else s)
         | State_DIRTY_BIT_SCISSOR \<Rightarrow>
             (if getScissor state \<noteq> mCurScissorRect s
              then setDirtyBit DIRTY_BIT_SCISSOR_STATE s else s)
         | State_DIRTY_BIT_SCISSOR_TEST_ENABLED \<Rightarrow>
             (if isScissorTestEnabled state \<noteq> mCurScissorEnabled s
              then setDirtyBit DIRTY_BIT_RASTERIZER_STATE
                     (setDirtyBit DIRTY_BIT_SCISSOR_STATE s)
              else s)
         | State_DIRTY_BIT_DEPTH_RANGE \<Rightarrow>
             (if getNearPlane state \<noteq> mCurNear s \<or> getFarPlane state \<noteq> mCurFar s
              then invalidateViewport s else s)
         | State_DIRTY_BIT_VIEWPORT \<Rightarrow>
             (if getViewport state \<noteq> mCurViewport s then invalidateViewport s else s)
         | State_DIRTY_BIT_DRAW_FRAMEBUFFER_BINDING \<Rightarrow>
             (let s1 = invalidateRenderTarget s
              in if mIsMultiviewEnabled s1
                 then handleMultiviewDrawFramebufferChange context s1 else s1)
         | State_DIRTY_BIT_VERTEX_ARRAY_BINDING \<Rightarrow>
             invalidateIndexBuffer
               ((invalidateVertexBuffer (getRenderer context) s)
                  \<lparr> mDirtyCurrentValueAttribs := {..< MAX_VERTEX_ATTRIBS} \<rparr>)
         | State_DIRTY_BIT_UNIFORM_BUFFER_BINDINGS \<Rightarrow> invalidateProgramUniformBuffers s
         | State_DIRTY_BIT_TEXTURE_BINDINGS \<Rightarrow> invalidateTexturesAndSamplers s
         | State_DIRTY_BIT_SAMPLER_BINDINGS \<Rightarrow> invalidateTexturesAndSamplers s
         | State_DIRTY_BIT_TRANSFORM_FEEDBACK_BINDING \<Rightarrow> invalidateTransformFeedback s
         | State_DIRTY_BIT_PROGRAM_EXECUTABLE \<Rightarrow>
             invalidateDriverUniforms
               (invalidateProgramUniformBuffers
                  (invalidateProgramUniforms
                     (invalidateTexturesAndSamplers
                        (invalidateRenderTarget
                           (invalidateVertexBuffer (getRenderer context)
                              (invalidateShaders
                                 (setDirtyBit DIRTY_BIT_PRIMITIVE_TOPOLOGY s)))))))
         | State_DIRTY_BIT_CURRENT_VALUES \<Rightarrow>
             foldl (\<lambda>s' attribIndex. invalidateCurrentValueAttrib attribIndex s') s
               (getAndResetDirtyCurrentValues state)
         | State_DIRTY_BIT_OTHER \<Rightarrow> s)"

text \<open>\<^verbatim>\<open>syncState\<close>: the dirty bits are given in the order the bit set is iterated.\<close>

definition syncState :: "Context \<Rightarrow> StateDirtyBit list \<Rightarrow> StateManager11 \<Rightarrow> StateManager11" where
  "syncState context dirtyBits s = foldl (syncState_bit context) s dirtyBits"

subsection \<open>Fixed-function state\<close>

definition rendererRequest :: "RendererRequest \<Rightarrow> StateManager11 \<Rightarrow> StateManager11" where
  "rendererRequest r s = s\<lparr> rendererRequests := rendererRequests s @ [r] \<rparr>"

text \<open>
  The blend color \<^verbatim>\<open>syncBlendState\<close> passes to the device: the four floats of
  \<^verbatim>\<open>blendColors\<close>.
\<close>

definition blendColors :: "BlendState \<Rightarrow> ColorF \<Rightarrow> real list" where
  "blendColors blendState blendColor =
     (if sourceBlendRGB blendState \<noteq> GL_CONSTANT_ALPHA \<and>
         sourceBlendRGB blendState \<noteq> GL_ONE_MINUS_CONSTANT_ALPHA \<and>
         destBlendRGB blendState \<noteq> GL_CONSTANT_ALPHA \<and>
         destBlendRGB blendState \<noteq> GL_ONE_MINUS_CONSTANT_ALPHA
      then [red blendColor, green blendColor, blue blendColor, alpha blendColor]
      else [alpha blendColor, alpha blendColor, alpha blendColor, alpha blendColor])"

text \<open>
  \<^verbatim>\<open>syncBlendState\<close>. The key of the blend state cache is derived from the context, the
  framebuffer and the blend state; for the framebuffer of the pass the renderer's answer
  is a function of the blend state.
\<close>

definition syncBlendState ::
    "Renderer11 \<Rightarrow> BlendState \<Rightarrow> ColorF \<Rightarrow> nat \<Rightarrow> StateManager11
       \<Rightarrow> Error \<times> StateManager11" where
  "syncBlendState renderer blendState blendColor sampleMask s =
     (let s1 = rendererRequest (GetBlendState blendState) s;
          (err, dxBlendState) = rendererGetBlendState renderer blendState
      in if err \<noteq> NoError then (err, s1)
         else
           (let s2 = deviceCall (OMSetBlendState dxBlendState
                                   (blendColors blendState blendColor) sampleMask) s1
            in (NoError, s2\<lparr> mCurBlendState := blendState,
                              mCurBlendColor := blendColor,
                              mCurSampleMask := sampleMask \<rparr>)))"

text \<open>
  Modelled from the spec: \<^verbatim>\<open>gl::clamp\<close> and \<^verbatim>\<open>gl::clamp01\<close> (common/mathutil.h) clamp a
  value to the bounds given, the lower bound winning when it is not exceeded.
\<close>

definition gl_clamp :: "'a::linorder \<Rightarrow> 'a \<Rightarrow> 'a \<Rightarrow> 'a" where
  "gl_clamp v lo hi = (if v > lo then (if v > hi then hi else v) else lo)"

definition clamp01 :: "real \<Rightarrow> real" where
  "clamp01 v = gl_clamp v 0 1"

text \<open>
  \<^verbatim>\<open>syncDepthStencilState\<close>. \<open>maxStencil\<close> is the bound the assertions mask with; the
  conditions of the \<^verbatim>\<open>ASSERT\<close>s that precede the request are
  \<open>syncDepthStencilState_asserts\<close>, evaluated as the source does after the current
  state was taken over; \<open>modifiedGLState\<close> is the state the descriptor is requested for.
\<close>

definition maxStencil :: "DepthStencilState \<Rightarrow> nat \<Rightarrow> 32 word" where
  "maxStencil ds stencilSize =
     (if stencilTest ds \<and> stencilSize > 0 then push_bit stencilSize 1 - 1 else 0)"

definition syncDepthStencilState_asserts :: "State \<Rightarrow> StateManager11 \<Rightarrow> bool" where
  "syncDepthStencilState_asserts glState s =
     (let ds = getDepthStencilState glState;
          m = maxStencil ds (mCurStencilSize s)
      in (stencilWritemask ds AND m) = (stencilBackWritemask ds AND m) \<and>
         gl_clamp (getStencilRef glState) 0 (sint m) =
           gl_clamp (getStencilBackRef glState) 0 (sint m) \<and>
         (stencilMask ds AND m) = (stencilBackMask ds AND m) \<and>
         mCurDisableDepth s \<noteq> None \<and> mCurDisableStencil s \<noteq> None)"

definition modifiedGLState :: "DepthStencilState \<Rightarrow> bool \<Rightarrow> bool \<Rightarrow> DepthStencilState" where
  "modifiedGLState ds disableDepth disableStencil =
     (let m1 = (if disableDepth then ds\<lparr> depthTest := False, depthMask := False \<rparr> else ds);
          m2 = (if disableStencil then m1\<lparr> stencilTest := False \<rparr> else m1)
      in if \<not> stencilTest m2
         then m2\<lparr> stencilWritemask := 0, stencilBackWritemask := 0 \<rparr>
         else m2)"

definition syncDepthStencilState ::
    "Renderer11 \<Rightarrow> State \<Rightarrow> StateManager11 \<Rightarrow> Error \<times> StateManager11" where
  "syncDepthStencilState renderer glState s =
     (let s1 = s\<lparr> mCurDepthStencilState := getDepthStencilState glState,
                  mCurStencilRef := getStencilRef glState,
                  mCurStencilBackRef := getStencilBackRef glState \<rparr>;
          modified = modifiedGLState (getDepthStencilState glState)
                       (the (mCurDisableDepth s1)) (the (mCurDisableStencil s1));
          s2 = rendererRequest (GetDepthStencilState modified) s1;
          (err, d3dState) = rendererGetDepthStencilState renderer modified
      in if err \<noteq> NoError then (err, s2)
         else
           (let dxStencilRef = nat (gl_clamp (mCurStencilRef s2) 0 0xFF)
            in (NoError, deviceCall (OMSetDepthStencilState d3dState dxStencilRef) s2)))"

definition syncRasterizerState ::
    "Context \<Rightarrow> DrawCallParams \<Rightarrow> StateManager11 \<Rightarrow> Error \<times> StateManager11" where
  "syncRasterizerState context drawCallParams s =
     (let rasterState = (getRasterizerState (getGLState context))
            \<lparr> pointDrawMode := (mode drawCallParams = GL_POINTS),
              multiSample := multiSample (mCurRasterState s) \<rparr>;
          requested =
            (if mCurPresentPathFastEnabled s
             then (if frontFace rasterState = GL_CCW
                   then rasterState\<lparr> frontFace := GL_CW \<rparr>
                   else rasterState\<lparr> frontFace := GL_CCW \<rparr>)
             else rasterState);
          s1 = rendererRequest (GetRasterizerState requested (mCurScissorEnabled s)) s;
          (err, dxRasterState) =
            rendererGetRasterizerState (getRenderer context) requested (mCurScissorEnabled s)
      in if err \<noteq> NoError then (err, s1)
         else (NoError, (deviceCall (RSSetState dxRasterState) s1)
                          \<lparr> mCurRasterState := rasterState \<rparr>))"

definition syncScissorRectangle :: "Rectangle \<Rightarrow> bool \<Rightarrow> StateManager11 \<Rightarrow> StateManager11" where
  "syncScissorRectangle scissor enabled s =
     (let modifiedScissorY =
            (if mCurPresentPathFastEnabled s
             then mCurPresentPathFastColorBufferHeight s - rect_height scissor - rect_y scissor
             else rect_y scissor);
          s1 = (if enabled
                then (let rectangles =
                            map (\<lambda>off.
                                   (let x = rect_x scissor + off_x off;
                                        y = modifiedScissorY + off_y off
                                    in \<lparr> rc_left = max 0 x, rc_top = max 0 y,
                                         rc_right = x + max 0 (rect_width scissor),
                                         rc_bottom = y + max 0 (rect_height scissor) \<rparr>))
                                (mViewportOffsets s)
                      in deviceCall (RSSetScissorRects (length (mViewportOffsets s)) rectangles) s)
                else s)
      in s1\<lparr> mCurScissorRect := scissor, mCurScissorEnabled := enabled \<rparr>)"

text \<open>
  \<^verbatim>\<open>ShaderConstants11::onViewportChange\<close>. The arithmetic of the source is in \<^verbatim>\<open>float\<close>;
  here it is exact, and a division by a zero width or height gives \<open>0\<close>.
\<close>

definition onViewportChange ::
    "Rectangle \<Rightarrow> D3D11_VIEWPORT \<Rightarrow> bool \<Rightarrow> bool \<Rightarrow> ShaderConstants11 \<Rightarrow> ShaderConstants11" where
  "onViewportChange glViewport dxViewport is9_3 presentPathFast c =
     (let w = real_of_int (rect_width glViewport); h = real_of_int (rect_height glViewport);
          x = real_of_int (rect_x glViewport); y = real_of_int (rect_y glViewport);
          dw = real_of_int (Width dxViewport); dh = real_of_int (Height dxViewport);
          dx = real_of_int (TopLeftX dxViewport); dy = real_of_int (TopLeftY dxViewport);
          viewAdjust = (if is9_3
                        then [((w - dw) + 2 * (x - dx)) / dw, ((h - dh) + 2 * (y - dy)) / dh,
                              w / dw, h / dh]
                        else v_viewAdjust (mVertex c));
          viewCoords = [w * 0.5, h * 0.5, x + (w * 0.5), y + (h * 0.5)];
          zNear = MinDepth dxViewport; zFar = MaxDepth dxViewport;
          viewScale = [1, if presentPathFast then 1 else - 1]
      in c\<lparr> mShaderConstantsDirty := insert Fragment (insert Vertex (mShaderConstantsDirty c)),
            mVertex := (mVertex c)
              \<lparr> v_viewAdjust := viewAdjust,
                v_viewCoords := viewCoords,
                v_depthRange := (v_depthRange (mVertex c))
                                  [0 := zNear, 1 := zFar, 2 := zFar - zNear],
                v_viewScale := viewScale \<rparr>,
            mPixel := (mPixel c)
              \<lparr> p_viewCoords := viewCoords,
                p_depthFront := (p_depthFront (mPixel c))
                                  [0 := (zFar - zNear) * 0.5, 1 := (zNear + zFar) * 0.5],
                p_depthRange := (p_depthRange (mPixel c))
                                  [0 := zNear, 1 := zFar, 2 := zFar - zNear],
                p_viewScale := viewScale \<rparr> \<rparr>)"

text \<open>
  \<^verbatim>\<open>syncViewport\<close>. \<open>viewportBox\<close> is the body of its loop up to the box of the
  rectangle: the clamped top left corner, width and height for one viewport offset.
\<close>

definition viewportBox ::
    "Rectangle \<Rightarrow> int \<Rightarrow> int \<Rightarrow> int \<Rightarrow> int \<Rightarrow> Offset \<Rightarrow> int \<times> int \<times> int \<times> int" where
  "viewportBox viewport dxMinViewportBoundsX dxMinViewportBoundsY dxMaxViewportBoundsX
       dxMaxViewportBoundsY off =
     (let dxViewportTopLeftX = gl_clamp (rect_x viewport + off_x off)
                                 dxMinViewportBoundsX dxMaxViewportBoundsX;
          dxViewportTopLeftY = gl_clamp (rect_y viewport + off_y off)
                                 dxMinViewportBoundsY dxMaxViewportBoundsY;
          dxViewportWidth = gl_clamp (rect_width viewport) 0
                              (dxMaxViewportBoundsX - dxViewportTopLeftX);
          dxViewportHeight = gl_clamp (rect_height viewport) 0
                               (dxMaxViewportBoundsY - dxViewportTopLeftY)
      in (dxViewportTopLeftX, dxViewportTopLeftY, dxViewportWidth, dxViewportHeight))"

definition syncViewport :: "Context \<Rightarrow> StateManager11 \<Rightarrow> StateManager11" where
  "syncViewport context s =
     (let glState = getGLState context;
          framebuffer = getDrawFramebuffer context;
          actualZNear = clamp01 (getNearPlane glState);
          actualZFar = clamp01 (getFarPlane glState);
          is9_3 = featureLevel_le_9_3 (getRenderer context);
          dxMaxViewportBoundsX = (if is9_3 then ext_width (mViewportBounds s)
                                  else int (maxViewportWidth (getCaps context)));
          dxMaxViewportBoundsY = (if is9_3 then ext_height (mViewportBounds s)
                                  else int (maxViewportHeight (getCaps context)));
          dxMinViewportBoundsX = (if is9_3 then 0 else - dxMaxViewportBoundsX);
          dxMinViewportBoundsY = (if is9_3 then 0 else - dxMaxViewportBoundsY);
          viewport = getViewport glState;
          boxes = map (viewportBox viewport dxMinViewportBoundsX dxMinViewportBoundsY
                         dxMaxViewportBoundsX dxMaxViewportBoundsY) (mViewportOffsets s);
          dxViewports =
            map (\<lambda>(dxViewportTopLeftX, dxViewportTopLeftY, dxViewportWidth, dxViewportHeight).
                   \<lparr> TopLeftX = dxViewportTopLeftX,
                     TopLeftY = (if mCurPresentPathFastEnabled s
                                 then mCurPresentPathFastColorBufferHeight s
                                        - dxViewportTopLeftY - dxViewportHeight
                                 else dxViewportTopLeftY),
                     Width = (if getFirstNonNullAttachment framebuffer = None \<and>
                                 (getDefaultWidth framebuffer \<noteq> 0 \<or>
                                  getDefaultHeight framebuffer \<noteq> 0)
                              then min (rect_width viewport) (getDefaultWidth framebuffer)
                              else dxViewportWidth),
                     Height = (if getFirstNonNullAttachment framebuffer = None \<and>
                                  (getDefaultWidth framebuffer \<noteq> 0 \<or>
                                   getDefaultHeight framebuffer \<noteq> 0)
                               then min (rect_height viewport) (getDefaultHeight framebuffer)
                               else dxViewportHeight),
                     MinDepth = actualZNear,
                     MaxDepth = actualZFar \<rparr>)
                boxes;
          s1 = deviceCall (RSSetViewports (length (mViewportOffsets s)) dxViewports) s;
          (lastX, lastY, lastW, lastH) = (if boxes = [] then (0, 0, 0, 0) else last boxes);
          adjustViewport = \<lparr> TopLeftX = lastX, TopLeftY = lastY, Width = lastW, Height = lastH,
                             MinDepth = actualZNear, MaxDepth = actualZFar \<rparr>
      in s1\<lparr> mCurViewport := viewport,
             mCurNear := actualZNear,
             mCurFar := actualZFar,
             mShaderConstants :=
               onViewportChange viewport adjustViewport is9_3 (mCurPresentPathFastEnabled s1)
                 (mShaderConstants s1) \<rparr>)"

subsection \<open>Textures and samplers\<close>

text \<open>
  \<^verbatim>\<open>ANGLE_TRY\<close>: a step that failed ends the function with its error and the state as it
  is; otherwise the rest runs. \<open>forEachTry\<close> is a loop whose body is such a step.
\<close>

definition ANGLE_TRY :: "Error \<times> 's \<Rightarrow> ('s \<Rightarrow> Error \<times> 's) \<Rightarrow> Error \<times> 's" where
  "ANGLE_TRY r k = (if fst r = NoError then k (snd r) else r)"

fun forEachTry :: "('a \<Rightarrow> 's \<Rightarrow> Error \<times> 's) \<Rightarrow> 'a list \<Rightarrow> 's \<Rightarrow> Error \<times> 's" where
  "forEachTry f [] s = (NoError, s)"
| "forEachTry f (x # xs) s = ANGLE_TRY (f x s) (forEachTry f xs)"

definition GL_CLAMP_TO_EDGE :: GLenum where "GL_CLAMP_TO_EDGE = 0x812F"
definition GL_REPEAT :: GLenum where "GL_REPEAT = 0x2901"
definition GL_MIRRORED_REPEAT :: GLenum where "GL_MIRRORED_REPEAT = 0x8370"

definition GetWrapBits :: "GLenum \<Rightarrow> int" where
  "GetWrapBits wrap =
     (if wrap = GL_CLAMP_TO_EDGE then 1
      else if wrap = GL_REPEAT then 2
      else if wrap = GL_MIRRORED_REPEAT then 3
      else 0)"

text \<open>
  The sized integer formats of the switch of \<^verbatim>\<open>updateSamplerMetadata\<close>, by the bit
  depth it records for them (\<open>0\<close> stands for 32 bits).
\<close>

definition integerFormats32 :: "GLenum set" where
  "integerFormats32 = {0x8D82, 0x8D70, 0x8D83, 0x8D71, 0x823B, 0x823C, 0x8235, 0x8236}"

definition integerFormats16 :: "GLenum set" where
  "integerFormats16 = {0x8D88, 0x8D76, 0x8D89, 0x8D77, 0x8239, 0x823A, 0x8233, 0x8234}"

definition integerFormats8 :: "GLenum set" where
  "integerFormats8 = {0x8D8E, 0x8D7C, 0x8D8F, 0x8D7D, 0x8237, 0x8238, 0x8231, 0x8232}"

definition GL_RGB10_A2UI :: GLenum where "GL_RGB10_A2UI = 0x906F"

definition updateSamplerMetadata :: "SamplerMetadata \<Rightarrow> Texture \<Rightarrow> bool \<times> SamplerMetadata" where
  "updateSamplerMetadata data texture =
     (let base = int (tex_getEffectiveBaseLevel texture);
          sizedFormat = tex_sizedInternalFormat texture;
          dirty1 = (baseLevel data \<noteq> base);
          data1 = data\<lparr> baseLevel := base \<rparr>;
          needIntegerTextureMetadata =
            (sizedFormat \<in> integerFormats32 \<or> sizedFormat \<in> integerFormats16 \<or>
             sizedFormat \<in> integerFormats8 \<or> sizedFormat = GL_RGB10_A2UI);
          formatBits = (if sizedFormat \<in> integerFormats32 then 0
                        else if sizedFormat \<in> integerFormats16 then 16
                        else if sizedFormat \<in> integerFormats8 then 8
                        else if sizedFormat = GL_RGB10_A2UI then 10
                        else 0)
      in if needIntegerTextureMetadata
         then (let dirty2 = (dirty1 \<or> internalFormatBits data1 \<noteq> formatBits);
                   data2 = data1\<lparr> internalFormatBits := formatBits \<rparr>;
                   wraps = GetWrapBits (tex_getWrapS texture)
                             OR push_bit 2 (GetWrapBits (tex_getWrapT texture))
                             OR push_bit 4 (GetWrapBits (tex_getWrapR texture))
               in (dirty2 \<or> wrapModes data2 \<noteq> wraps, data2\<lparr> wrapModes := wraps \<rparr>))
         else (dirty1, data1))"

definition onSamplerChange ::
    "ShaderType \<Rightarrow> nat \<Rightarrow> Texture \<Rightarrow> ShaderConstants11 \<Rightarrow> ShaderConstants11" where
  "onSamplerChange shaderType samplerIndex texture c =
     (case shaderType of
        Vertex \<Rightarrow>
          (let (dirty, data) = updateSamplerMetadata (mSamplerMetadataVS c ! samplerIndex) texture;
               c1 = c\<lparr> mSamplerMetadataVS := (mSamplerMetadataVS c)[samplerIndex := data] \<rparr>
           in if dirty then c1\<lparr> mNumActiveVSSamplers := 0 \<rparr> else c1)
      | Fragment \<Rightarrow>
          (let (dirty, data) = updateSamplerMetadata (mSamplerMetadataPS c ! samplerIndex) texture;
               c1 = c\<lparr> mSamplerMetadataPS := (mSamplerMetadataPS c)[samplerIndex := data] \<rparr>
           in if dirty then c1\<lparr> mNumActivePSSamplers := 0 \<rparr> else c1)
      | Compute \<Rightarrow>
          (let (dirty, data) = updateSamplerMetadata (mSamplerMetadataCS c ! samplerIndex) texture;
               c1 = c\<lparr> mSamplerMetadataCS := (mSamplerMetadataCS c)[samplerIndex := data] \<rparr>
           in if dirty then c1\<lparr> mNumActiveCSSamplers := 0 \<rparr> else c1))"

text \<open>
  \<^verbatim>\<open>setSamplerState\<close>, as the release build has it (the check of the storage at its head
  is compiled in debug builds only).
\<close>

definition setSamplerState ::
    "Renderer11 \<Rightarrow> ShaderType \<Rightarrow> nat \<Rightarrow> Texture \<Rightarrow> SamplerState \<Rightarrow> StateManager11
       \<Rightarrow> Error \<times> StateManager11" where
  "setSamplerState renderer type index texture samplerState s =
     (let forceSet = (case type of
                        Fragment \<Rightarrow> mForceSetPixelSamplerStates s ! index
                      | Vertex \<Rightarrow> mForceSetVertexSamplerStates s ! index
                      | Compute \<Rightarrow> mForceSetComputeSamplerStates s ! index);
          cur = (case type of
                   Fragment \<Rightarrow> mCurPixelSamplerStates s ! index
                 | Vertex \<Rightarrow> mCurVertexSamplerStates s ! index
                 | Compute \<Rightarrow> mCurComputeSamplerStates s ! index);
          applied =
            (if forceSet \<or> samplerState \<noteq> cur
             then (let s1 = rendererRequest (GetSamplerState samplerState) s;
                       (err, dxSamplerState) = rendererGetSamplerState renderer samplerState
                   in if err \<noteq> NoError then (err, s1)
                      else
                        (let s2 = deviceCall
                                    (SetSamplers (stage_of type) index 1 [dxSamplerState]) s1
                         in (NoError,
                             (case type of
                                Fragment \<Rightarrow>
                                  s2\<lparr> mCurPixelSamplerStates :=
                                        (mCurPixelSamplerStates s2)[index := samplerState] \<rparr>
                              | Vertex \<Rightarrow>
                                  s2\<lparr> mCurVertexSamplerStates :=
                                        (mCurVertexSamplerStates s2)[index := samplerState] \<rparr>
                              | Compute \<Rightarrow>
                                  s2\<lparr> mCurComputeSamplerStates :=
                                        (mCurComputeSamplerStates s2)[index := samplerState] \<rparr>))))
             else (NoError, s))
      in ANGLE_TRY applied
           (\<lambda>s3.
              (let s4 = (case type of
                           Fragment \<Rightarrow>
                             s3\<lparr> mForceSetPixelSamplerStates :=
                                   (mForceSetPixelSamplerStates s3)[index := False] \<rparr>
                         | Vertex \<Rightarrow>
                             s3\<lparr> mForceSetVertexSamplerStates :=
                                   (mForceSetVertexSamplerStates s3)[index := False] \<rparr>
                         | Compute \<Rightarrow>
                             s3\<lparr> mForceSetComputeSamplerStates :=
                                   (mForceSetComputeSamplerStates s3)[index := False] \<rparr>)
               in (NoError,
                   s4\<lparr> mShaderConstants :=
                         onSamplerChange type index texture (mShaderConstants s4) \<rparr>))))"

text \<open>
  \<^verbatim>\<open>setTexture\<close>. Its callers in this file pass a texture; for a null pointer the slot is
  unbound.
\<close>

definition setTexture ::
    "ShaderType \<Rightarrow> nat \<Rightarrow> Texture option \<Rightarrow> StateManager11 \<Rightarrow> Error \<times> StateManager11" where
  "setTexture type index texture s =
     (case texture of
        None \<Rightarrow> (NoError, setShaderResourceInternal type index None s)
      | Some t \<Rightarrow>
          (if tex_getNativeTexture t \<noteq> NoError then (tex_getNativeTexture t, s)
           else if fst (tex_getSRVForSampler t) \<noteq> NoError then (fst (tex_getSRVForSampler t), s)
           else (NoError,
                 setShaderResourceInternal type index (Some (snd (tex_getSRVForSampler t))) s)))"

text \<open>\<^verbatim>\<open>applyTextures\<close>: the body of its loop for one sampler, and the function.\<close>

definition applyTextures_sampler ::
    "Renderer11 \<Rightarrow> ShaderType \<Rightarrow> nat \<times> SamplerBinding \<Rightarrow> StateManager11
       \<Rightarrow> Error \<times> StateManager11" where
  "applyTextures_sampler renderer shaderType p s =
     (let samplerIndex = fst p; b = snd p
      in case completeTexture b of
           Some texture \<Rightarrow>
             (let samplerState = (case getSampler b of
                                    Some st \<Rightarrow> st
                                  | None \<Rightarrow> tex_getSamplerState texture)
              in ANGLE_TRY (setSamplerState renderer shaderType samplerIndex texture samplerState s)
                   (setTexture shaderType samplerIndex (Some texture)))
         | None \<Rightarrow>
             (let (err, incompleteTexture) = getIncompleteTexture b
              in if err \<noteq> NoError then (err, s)
                 else ANGLE_TRY
                        (setSamplerState renderer shaderType samplerIndex incompleteTexture
                           (tex_getSamplerState incompleteTexture) s)
                        (setTexture shaderType samplerIndex (Some incompleteTexture))))"

definition applyTextures ::
    "Context \<Rightarrow> ProgramD3D \<Rightarrow> ShaderType \<Rightarrow> StateManager11 \<Rightarrow> Error \<times> StateManager11" where
  "applyTextures context programD3D shaderType s =
     (let samplerRange = getUsedSamplerRange programD3D shaderType;
          caps = getCaps context
      in ANGLE_TRY
           (forEachTry (applyTextures_sampler (getRenderer context) shaderType)
              (zip [0 ..< samplerRange] (samplers programD3D shaderType)) s)
           (\<lambda>s1.
              (let samplerCount = (if shaderType = Fragment then maxTextureImageUnits caps
                                   else maxVertexTextureImageUnits caps)
               in clearSRVs shaderType samplerRange samplerCount s1)))"

definition syncTextures ::
    "Context \<Rightarrow> ProgramD3D \<Rightarrow> StateManager11 \<Rightarrow> Error \<times> StateManager11" where
  "syncTextures context programD3D s =
     ANGLE_TRY (applyTextures context programD3D Vertex s)
       (applyTextures context programD3D Fragment)"

text \<open>
  Swizzle generation. It asks the storage of each texture that needs it to regenerate its
  swizzles, which happens outside this file; no member of the state manager is written.
\<close>

definition generateSwizzle :: "Texture option \<Rightarrow> StateManager11 \<Rightarrow> Error \<times> StateManager11" where
  "generateSwizzle texture s =
     (case texture of
        None \<Rightarrow> (NoError, s)
      | Some t \<Rightarrow>
          (if tex_getNativeTexture t \<noteq> NoError then (tex_getNativeTexture t, s)
           else if tex_hasStorage t then (tex_generateSwizzles t, s)
           else (NoError, s)))"

definition generateSwizzlesForShader ::
    "ProgramD3D \<Rightarrow> ShaderType \<Rightarrow> StateManager11 \<Rightarrow> Error \<times> StateManager11" where
  "generateSwizzlesForShader programD3D type s =
     forEachTry
       (\<lambda>b s'. case getSamplerTexture b of
                  Some texture \<Rightarrow>
                    (if tex_swizzleRequired texture then generateSwizzle (Some texture) s'
                     else (NoError, s'))
                | None \<Rightarrow> (NoError, s'))
       (samplers programD3D type) s"

definition generateSwizzles :: "ProgramD3D \<Rightarrow> StateManager11 \<Rightarrow> Error \<times> StateManager11" where
  "generateSwizzles programD3D s =
     ANGLE_TRY (generateSwizzlesForShader programD3D Vertex s)
       (generateSwizzlesForShader programD3D Fragment)"

subsection \<open>Uniforms, driver constants and uniform buffers\<close>

text \<open>
  \<^verbatim>\<open>applyUniforms\<close>. It ends with \<^verbatim>\<open>programD3D->markUniformsClean()\<close>, so it returns the
  program with the state.
\<close>

definition applyUniforms ::
    "ProgramD3D \<Rightarrow> StateManager11 \<Rightarrow> Error \<times> ProgramD3D \<times> StateManager11" where
  "applyUniforms programD3D s =
     (let (e1, vertexConstantBuffer) = vertexUniformStorage_getConstantBuffer programD3D;
          (e2, pixelConstantBuffer) = fragmentUniformStorage_getConstantBuffer programD3D
      in if e1 \<noteq> NoError then (e1, programD3D, s)
         else if e2 \<noteq> NoError then (e2, programD3D, s)
         else
           (let s1 = (if vertexUniformStorage_size programD3D > 0 \<and>
                         areShaderUniformsDirty programD3D Vertex
                      then deviceCall (UpdateSubresource (get_ptr vertexConstantBuffer)) s
                      else s);
                s2 = (if fragmentUniformStorage_size programD3D > 0 \<and>
                         areShaderUniformsDirty programD3D Fragment
                      then deviceCall (UpdateSubresource (get_ptr pixelConstantBuffer)) s1
                      else s1);
                slot = RESERVED_CONSTANT_BUFFER_SLOT_DEFAULT_UNIFORM_BLOCK;
                s3 = (if mCurrentConstantBufferVS s2 ! slot \<noteq> getSerial vertexConstantBuffer
                      then (deviceCall
                              (SetConstantBuffers VS slot 1 [get_ptr vertexConstantBuffer]) s2)
                             \<lparr> mCurrentConstantBufferVS :=
                                 (mCurrentConstantBufferVS s2)
                                   [slot := getSerial vertexConstantBuffer],
                               mCurrentConstantBufferVSOffset :=
                                 (mCurrentConstantBufferVSOffset s2)[slot := 0],
                               mCurrentConstantBufferVSSize :=
                                 (mCurrentConstantBufferVSSize s2)[slot := 0] \<rparr>
                      else s2);
                s4 = (if mCurrentConstantBufferPS s3 ! slot \<noteq> getSerial pixelConstantBuffer
                      then (deviceCall
                              (SetConstantBuffers PS slot 1 [get_ptr pixelConstantBuffer]) s3)
                             \<lparr> mCurrentConstantBufferPS :=
                                 (mCurrentConstantBufferPS s3)
                                   [slot := getSerial pixelConstantBuffer],
                               mCurrentConstantBufferPSOffset :=
                                 (mCurrentConstantBufferPSOffset s3)[slot := 0],
                               mCurrentConstantBufferPSSize :=
                                 (mCurrentConstantBufferPSSize s3)[slot := 0] \<rparr>
                      else s3)
            in (NoError, markUniformsClean programD3D, s4)))"

text \<open>
  \<^verbatim>\<open>applyDriverUniforms\<close>. \<open>updateDriverBuffer\<close> is its call of
  \<^verbatim>\<open>mShaderConstants.updateBuffer\<close> for one stage with the driver constant buffer of
  that stage, which exists by then.
\<close>

definition updateDriverBuffer ::
    "Renderer11 \<Rightarrow> ProgramD3D \<Rightarrow> ShaderType \<Rightarrow> D3DObject option \<Rightarrow> StateManager11
       \<Rightarrow> Error \<times> StateManager11" where
  "updateDriverBuffer renderer programD3D shaderType driverConstantBuffer s =
     (let buf = (case driverConstantBuffer of Some b \<Rightarrow> get_ptr b | None \<Rightarrow> 0);
          (err, c, calls) = updateBuffer (mapResource renderer buf) shaderType
                              (int (getUsedSamplerRange programD3D shaderType)) buf
                              (mShaderConstants s)
      in (err, s\<lparr> mShaderConstants := c, deviceContext := deviceContext s @ calls \<rparr>))"

definition applyDriverUniforms ::
    "Renderer11 \<Rightarrow> ProgramD3D \<Rightarrow> StateManager11 \<Rightarrow> Error \<times> StateManager11" where
  "applyDriverUniforms renderer programD3D s =
     ANGLE_TRY
       (case mDriverConstantBufferVS s of
          None \<Rightarrow>
            (let (err, b) = allocateDriverConstantBufferVS renderer
             in if err \<noteq> NoError then (err, s)
                else (NoError,
                      deviceCall (SetConstantBuffers VS RESERVED_CONSTANT_BUFFER_SLOT_DRIVER 1
                                    [get_ptr b])
                        (s\<lparr> mDriverConstantBufferVS := Some b \<rparr>)))
        | Some b \<Rightarrow> (NoError, s))
       (\<lambda>s1. ANGLE_TRY
          (case mDriverConstantBufferPS s1 of
             None \<Rightarrow>
               (let (err, b) = allocateDriverConstantBufferPS renderer
                in if err \<noteq> NoError then (err, s1)
                   else (NoError,
                         deviceCall (SetConstantBuffers PS RESERVED_CONSTANT_BUFFER_SLOT_DRIVER 1
                                       [get_ptr b])
                           (s1\<lparr> mDriverConstantBufferPS := Some b \<rparr>)))
           | Some b \<Rightarrow> (NoError, s1))
          (\<lambda>s2. ANGLE_TRY
             (updateDriverBuffer renderer programD3D Vertex (mDriverConstantBufferVS s2) s2)
             (\<lambda>s3. ANGLE_TRY
                (updateDriverBuffer renderer programD3D Fragment (mDriverConstantBufferPS s3) s3)
                (\<lambda>s4.
                   (if isES3Capable renderer
                    then (let ps = (case mDriverConstantBufferPS s4 of
                                      Some b \<Rightarrow> b
                                    | None \<Rightarrow> \<lparr> getSerial = kEmpty, get_ptr = 0 \<rparr>)
                          in if mCurrentGeometryConstantBuffer s4 \<noteq> getSerial ps
                             then (NoError,
                                   (deviceCall (SetConstantBuffers GS 0 1 [get_ptr ps]) s4)
                                     \<lparr> mCurrentGeometryConstantBuffer := getSerial ps \<rparr>)
                             else (NoError, s4))
                    else (NoError, s4))))))"

text \<open>
  \<^verbatim>\<open>syncUniformBuffers\<close>: the body of each of its two loops for one entry of the uniform
  buffer cache, and the function. The cached serial, offset and size are compared at
  \<open>bufferIndex\<close> and written at \<open>appliedIndex\<close>, as in the source.
\<close>

definition syncUniformBuffers_vertex ::
    "nat \<Rightarrow> nat \<times> UniformBufferBinding \<Rightarrow> StateManager11 \<Rightarrow> Error \<times> StateManager11" where
  "syncUniformBuffers_vertex reservedVertex p s =
     (let bufferIndex = fst p; b = snd p
      in if ub_binding b = - 1 then (NoError, s)
         else if ub_buffer b = 0 then (NoError, s)
         else
           (case ub_getConstantBufferRange b of
              (err, constantBuffer, firstConstant, numConstants) \<Rightarrow>
                (if err \<noteq> NoError then (err, s)
                 else if mCurrentConstantBufferVS s ! bufferIndex = getSerial constantBuffer \<and>
                         mCurrentConstantBufferVSOffset s ! bufferIndex = ub_getOffset b \<and>
                         mCurrentConstantBufferVSSize s ! bufferIndex = ub_getSize b
                 then (NoError, s)
                 else
                   (let appliedIndex = reservedVertex + bufferIndex;
                        s1 = (if firstConstant \<noteq> 0 \<and> ub_getSize b \<noteq> 0
                              then deviceCall
                                     (SetConstantBuffers1 VS appliedIndex (get_ptr constantBuffer)
                                        firstConstant numConstants) s
                              else deviceCall
                                     (SetConstantBuffers VS appliedIndex 1
                                        [get_ptr constantBuffer]) s)
                    in (NoError,
                        s1\<lparr> mCurrentConstantBufferVS :=
                              (mCurrentConstantBufferVS s1)
                                [appliedIndex := getSerial constantBuffer],
                            mCurrentConstantBufferVSOffset :=
                              (mCurrentConstantBufferVSOffset s1)[appliedIndex := ub_getOffset b],
                            mCurrentConstantBufferVSSize :=
                              (mCurrentConstantBufferVSSize s1)[appliedIndex := ub_getSize b],
                            mBindingsVS := (mBindingsVS s1)[bufferIndex := ub_buffer b] \<rparr>)))))"

definition syncUniformBuffers_fragment ::
    "nat \<Rightarrow> nat \<times> UniformBufferBinding \<Rightarrow> StateManager11 \<Rightarrow> Error \<times> StateManager11" where
  "syncUniformBuffers_fragment reservedFragment p s =
     (let bufferIndex = fst p; b = snd p
      in if ub_binding b = - 1 then (NoError, s)
         else if ub_buffer b = 0 then (NoError, s)
         else
           (case ub_getConstantBufferRange b of
              (err, constantBuffer, firstConstant, numConstants) \<Rightarrow>
                (if err \<noteq> NoError then (err, s)
                 else if mCurrentConstantBufferPS s ! bufferIndex = getSerial constantBuffer \<and>
                         mCurrentConstantBufferPSOffset s ! bufferIndex = ub_getOffset b \<and>
                         mCurrentConstantBufferPSSize s ! bufferIndex = ub_getSize b
                 then (NoError, s)
                 else
                   (let appliedIndex = reservedFragment + bufferIndex;
                        s1 = (if firstConstant \<noteq> 0 \<and> ub_getSize b \<noteq> 0
                              then deviceCall
                                     (SetConstantBuffers1 PS appliedIndex (get_ptr constantBuffer)
                                        firstConstant numConstants) s
                              else deviceCall
                                     (SetConstantBuffers PS appliedIndex 1
                                        [get_ptr constantBuffer]) s)
                    in (NoError,
                        s1\<lparr> mCurrentConstantBufferPS :=
                              (mCurrentConstantBufferPS s1)
                                [appliedIndex := getSerial constantBuffer],
                            mCurrentConstantBufferPSOffset :=
                              (mCurrentConstantBufferPSOffset s1)[appliedIndex := ub_getOffset b],
                            mCurrentConstantBufferPSSize :=
                              (mCurrentConstantBufferPSSize s1)[appliedIndex := ub_getSize b],
                            mBindingsPS := (mBindingsPS s1)[bufferIndex := ub_buffer b] \<rparr>)))))"

definition syncUniformBuffers ::
    "Context \<Rightarrow> ProgramD3D \<Rightarrow> StateManager11 \<Rightarrow> Error \<times> StateManager11" where
  "syncUniformBuffers context programD3D s =
     (let reservedVertex = getReservedVertexUniformBuffers (getRenderer context);
          reservedFragment = getReservedFragmentUniformBuffers (getRenderer context);
          vertexUniformBuffers = getVertexUniformBufferCache programD3D;
          fragmentUniformBuffers = getFragmentUniformBufferCache programD3D;
          s1 = s\<lparr> mBindingsVS := replicate (length (mBindingsVS s)) 0,
                  mBindingsPS := replicate (length (mBindingsPS s)) 0 \<rparr>
      in ANGLE_TRY
           (forEachTry (syncUniformBuffers_vertex reservedVertex)
              (zip [0 ..< length vertexUniformBuffers] vertexUniformBuffers) s1)
           (forEachTry (syncUniformBuffers_fragment reservedFragment)
              (zip [0 ..< length fragmentUniformBuffers] fragmentUniformBuffers)))"

subsection \<open>Shaders\<close>

text \<open>A shader pointer is \<open>None\<close> when null; its serial is then \<^verbatim>\<open>ResourceSerial(0)\<close>.\<close>

definition serialOf :: "D3DObject option \<Rightarrow> ResourceSerial" where
  "serialOf shader = (case shader of Some sh \<Rightarrow> getSerial sh | None \<Rightarrow> 0)"

definition shaderPtr :: "D3DObject option \<Rightarrow> uintptr_t" where
  "shaderPtr shader = (case shader of Some sh \<Rightarrow> get_ptr sh | None \<Rightarrow> 0)"

definition setVertexShader :: "D3DObject option \<Rightarrow> StateManager11 \<Rightarrow> StateManager11" where
  "setVertexShader shader s =
     (if serialOf shader \<noteq> mAppliedVertexShader s
      then invalidateShaders
             ((deviceCall (SetShader VS (shaderPtr shader)) s)
                \<lparr> mAppliedVertexShader := serialOf shader \<rparr>)
      else s)"

definition setGeometryShader :: "D3DObject option \<Rightarrow> StateManager11 \<Rightarrow> StateManager11" where
  "setGeometryShader shader s =
     (if serialOf shader \<noteq> mAppliedGeometryShader s
      then invalidateShaders
             ((deviceCall (SetShader GS (shaderPtr shader)) s)
                \<lparr> mAppliedGeometryShader := serialOf shader \<rparr>)
      else s)"

definition setPixelShader :: "D3DObject option \<Rightarrow> StateManager11 \<Rightarrow> StateManager11" where
  "setPixelShader shader s =
     (if serialOf shader \<noteq> mAppliedPixelShader s
      then invalidateShaders
             ((deviceCall (SetShader PS (shaderPtr shader)) s)
                \<lparr> mAppliedPixelShader := serialOf shader \<rparr>)
      else s)"

definition setDrawShaders ::
    "D3DObject option \<Rightarrow> D3DObject option \<Rightarrow> D3DObject option \<Rightarrow> StateManager11
       \<Rightarrow> StateManager11" where
  "setDrawShaders vertexShader geometryShader pixelShader s =
     setPixelShader pixelShader (setGeometryShader geometryShader (setVertexShader vertexShader s))"

text \<open>
  \<^verbatim>\<open>syncProgram\<close>. The vertex executable answers with its vertex shader and its
  stream-out shader.
\<close>

definition syncProgram ::
    "Context \<Rightarrow> ProgramD3D \<Rightarrow> StateManager11 \<Rightarrow> Error \<times> StateManager11" where
  "syncProgram context programD3D s =
     (let (e1, vertexExe) = getVertexExecutableForCachedInputLayout programD3D;
          (e2, pixelExe) = getPixelExecutableForCachedOutputLayout programD3D;
          (e3, geometryExe) = getGeometryExecutableForPrimitiveType programD3D
      in if triggerDrawCallProgramRecompilation context \<noteq> NoError
         then (triggerDrawCallProgramRecompilation context, s)
         else if e1 \<noteq> NoError then (e1, s)
         else if e2 \<noteq> NoError then (e2, s)
         else if e3 \<noteq> NoError then (e3, s)
         else
           (let glState = getGLState context;
                vertexShader = map_option fst vertexExe;
                pixelShader = (if \<not> rasterizerDiscard (getRasterizerState glState)
                               then pixelExe else None);
                geometryShader = (if isTransformFeedbackActiveUnpaused glState
                                  then map_option snd vertexExe
                                  else geometryExe);
                s1 = setDrawShaders vertexShader geometryShader pixelShader s
            in (NoError,
                s1\<lparr> mInternalDirtyBits := mInternalDirtyBits s1 - {DIRTY_BIT_SHADERS} \<rparr>)))"

subsection \<open>Vertex input\<close>

definition syncCurrentValueAttribs_attrib ::
    "Context \<Rightarrow> nat \<Rightarrow> StateManager11 \<Rightarrow> Error \<times> StateManager11" where
  "syncCurrentValueAttribs_attrib context attribIndex s =
     (if attribEnabled (getVertexArray context) attribIndex then (NoError, s)
      else
        (let (err, stored) = storeCurrentValue (getRenderer context) attribIndex
         in (err,
             s\<lparr> mCurrentValueAttribs := (mCurrentValueAttribs s)[attribIndex := stored],
                mDirtyVertexBufferRange :=
                  Range_extend attribIndex (mDirtyVertexBufferRange s) \<rparr>)))"

definition syncCurrentValueAttribs ::
    "Context \<Rightarrow> ProgramD3D \<Rightarrow> StateManager11 \<Rightarrow> Error \<times> StateManager11" where
  "syncCurrentValueAttribs context programD3D s =
     (let dirtyActiveAttribs = filter (\<lambda>i. i \<in> mDirtyCurrentValueAttribs s)
                                 (getActiveAttribLocationsMask programD3D)
      in if dirtyActiveAttribs = [] then (NoError, s)
         else forEachTry (syncCurrentValueAttribs_attrib context) dirtyActiveAttribs
                (s\<lparr> mDirtyCurrentValueAttribs :=
                       mDirtyCurrentValueAttribs s - set dirtyActiveAttribs \<rparr>))"

definition setInputLayoutInternal ::
    "D3DObject option \<Rightarrow> StateManager11 \<Rightarrow> bool \<times> StateManager11" where
  "setInputLayoutInternal inputLayout s =
     (case inputLayout of
        None \<Rightarrow>
          (if mCurrentInputLayout s \<noteq> kEmpty
           then (True, (deviceCall (IASetInputLayout 0) s)\<lparr> mCurrentInputLayout := kEmpty \<rparr>)
           else (False, s))
      | Some l \<Rightarrow>
          (if getSerial l \<noteq> mCurrentInputLayout s
           then (True, (deviceCall (IASetInputLayout (get_ptr l)) s)
                         \<lparr> mCurrentInputLayout := getSerial l \<rparr>)
           else (False, s)))"

definition queueVertexBufferChange ::
    "nat \<Rightarrow> uintptr_t \<Rightarrow> nat \<Rightarrow> nat \<Rightarrow> StateManager11 \<Rightarrow> bool \<times> StateManager11" where
  "queueVertexBufferChange bufferIndex buffer vertexStride vertexOffset s =
     (if buffer \<noteq> mCurrentVertexBuffers s ! bufferIndex \<or>
         vertexStride \<noteq> mCurrentVertexStrides s ! bufferIndex \<or>
         vertexOffset \<noteq> mCurrentVertexOffsets s ! bufferIndex
      then (True,
            s\<lparr> mDirtyVertexBufferRange := Range_extend bufferIndex (mDirtyVertexBufferRange s),
               mCurrentVertexBuffers := (mCurrentVertexBuffers s)[bufferIndex := buffer],
               mCurrentVertexStrides := (mCurrentVertexStrides s)[bufferIndex := vertexStride],
               mCurrentVertexOffsets := (mCurrentVertexOffsets s)[bufferIndex := vertexOffset] \<rparr>)
      else (False, s))"

definition applyVertexBufferChanges :: "StateManager11 \<Rightarrow> StateManager11" where
  "applyVertexBufferChanges s =
     (if Range_empty (mDirtyVertexBufferRange s) then s
      else
        (let start = Range_low (mDirtyVertexBufferRange s);
             n = Range_length (mDirtyVertexBufferRange s)
         in (deviceCall
               (IASetVertexBuffers start n
                  (take n (drop start (mCurrentVertexBuffers s)))
                  (take n (drop start (mCurrentVertexStrides s)))
                  (take n (drop start (mCurrentVertexOffsets s)))) s)
              \<lparr> mDirtyVertexBufferRange := \<lparr> mLow = MAX_VERTEX_ATTRIBS, mHigh = 0 \<rparr> \<rparr>))"

definition syncIndexBuffer ::
    "uintptr_t \<Rightarrow> DXGI_FORMAT \<Rightarrow> nat \<Rightarrow> StateManager11 \<Rightarrow> bool \<times> StateManager11" where
  "syncIndexBuffer buffer indexFormat off s =
     (if buffer \<noteq> mAppliedIB s \<or> indexFormat \<noteq> mAppliedIBFormat s \<or> off \<noteq> mAppliedIBOffset s
      then (True,
            (deviceCall (IASetIndexBuffer buffer indexFormat off) s)
              \<lparr> mAppliedIB := buffer, mAppliedIBFormat := indexFormat,
                mAppliedIBOffset := off \<rparr>)
      else (False, s))"

definition applyIndexBuffer :: "Context \<Rightarrow> StateManager11 \<Rightarrow> Error \<times> StateManager11" where
  "applyIndexBuffer context s =
     (if \<not> mIndexBufferIsDirty s then (NoError, s)
      else
        (let (err, indexInfo) = prepareIndexData (getVertexArray context)
         in if err \<noteq> NoError then (err, s)
            else
              (let bufferFormat = (if indexType indexInfo = GL_UNSIGNED_INT
                                   then DXGI_FORMAT_R32_UINT else DXGI_FORMAT_R16_UINT);
                   (err2, buffer) = (case index_storage indexInfo of
                                       Some r \<Rightarrow> r
                                     | None \<Rightarrow> (NoError, indexBuffer indexInfo))
               in if err2 \<noteq> NoError then (err2, s)
                  else (NoError,
                        (snd (syncIndexBuffer buffer bufferFormat (startOffset indexInfo) s))
                          \<lparr> mIndexBufferIsDirty := False \<rparr>))))"

text \<open>
  \<^verbatim>\<open>SortAttributesByLayout\<close> fills \<open>sortedAttributesOut\<close>, and the array of semantic
  indices that only the input layout cache reads. \<^verbatim>\<open>FindFirstNonInstanced\<close> scans for
  the first attribute of divisor zero.
\<close>

definition SortAttributesByLayout ::
    "ProgramD3D \<Rightarrow> TranslatedAttribute list \<Rightarrow> TranslatedAttribute list
       \<Rightarrow> TranslatedAttribute option list" where
  "SortAttributesByLayout program vertexArrayAttribs currentValueAttribs =
     foldl (\<lambda>sortedAttributesOut locationIndex.
              (let d3dSemantic = getAttribLocationToD3DSemantics program locationIndex;
                   resized = (if length sortedAttributesOut \<le> d3dSemantic
                              then resize (d3dSemantic + 1) None sortedAttributesOut
                              else sortedAttributesOut);
                   arrayAttrib = vertexArrayAttribs ! locationIndex
               in if attr_enabled arrayAttrib
                  then resized[d3dSemantic := Some arrayAttrib]
                  else resized[d3dSemantic := Some (currentValueAttribs ! locationIndex)]))
       [] (getActiveAttribLocationsMask program)"

fun FindFirstNonInstanced_from :: "nat \<Rightarrow> TranslatedAttribute option list \<Rightarrow> nat option" where
  "FindFirstNonInstanced_from index [] = None"
| "FindFirstNonInstanced_from index (a # as) =
     (if divisor (the a) = 0 then Some index else FindFirstNonInstanced_from (index + 1) as)"

definition FindFirstNonInstanced :: "TranslatedAttribute option list \<Rightarrow> nat option" where
  "FindFirstNonInstanced currentAttributes = FindFirstNonInstanced_from 0 currentAttributes"

text \<open>
  \<^verbatim>\<open>applyVertexBuffers\<close>: the buffer, stride and offset its loop queues for one
  attribute index, and the function. \<open>kPointSpriteVertexStride\<close> is five floats.
\<close>

definition kPointSpriteVertexStride :: nat where
  "kPointSpriteVertexStride = 20"

definition applyVertexBuffers_attrib ::
    "Context \<Rightarrow> DrawCallParams \<Rightarrow> bool \<Rightarrow> nat \<Rightarrow> nat \<Rightarrow> StateManager11
       \<Rightarrow> Error \<times> StateManager11" where
  "applyVertexBuffers_attrib context drawCallParams instancedPointSpritesActive reservedBuffers
       attribIndex s =
     (let bufferIndex = reservedBuffers + attribIndex
      in if attribIndex < length (mCurrentAttributes s)
         then
           (let attrib = the (mCurrentAttributes s ! attribIndex);
                (e1, buffer) =
                  (case storage attrib of
                     None \<Rightarrow> (NoError, vertexBuffer attrib)
                   | Some (getBuffer, getEmulatedIndexedBuffer) \<Rightarrow>
                       (if instancedPointSpritesActive \<and> isDrawElements drawCallParams
                        then (case srcBuffer_getData (getVertexArray context) of
                                Some e \<Rightarrow> (if e \<noteq> NoError then (e, 0)
                                           else getEmulatedIndexedBuffer)
                              | None \<Rightarrow> getEmulatedIndexedBuffer)
                        else getBuffer));
                (e2, vertexOffset) = computeOffset attrib
            in if e1 \<noteq> NoError then (e1, s)
               else if e2 \<noteq> NoError then (e2, s)
               else (NoError,
                     snd (queueVertexBufferChange bufferIndex buffer (stride attrib)
                            vertexOffset s)))
         else (NoError, snd (queueVertexBufferChange bufferIndex 0 0 0 s)))"

definition applyVertexBuffers ::
    "Context \<Rightarrow> ProgramD3D \<Rightarrow> DrawCallParams \<Rightarrow> StateManager11 \<Rightarrow> Error \<times> StateManager11" where
  "applyVertexBuffers context programD3D drawCallParams s =
     (let programUsesInstancedPointSprites =
            (usesPointSize programD3D \<and> usesInstancedPointSpriteEmulation programD3D);
          instancedPointSpritesActive =
            (programUsesInstancedPointSprites \<and> mode drawCallParams = GL_POINTS);
          reservedBuffers = (if programUsesInstancedPointSprites then 1 else 0);
          renderer = getRenderer context
      in ANGLE_TRY
           (forEachTry
              (applyVertexBuffers_attrib context drawCallParams instancedPointSpritesActive
                 reservedBuffers)
              [0 ..< MAX_VERTEX_ATTRIBS - reservedBuffers] s)
           (\<lambda>s1.
              ANGLE_TRY
                (if programUsesInstancedPointSprites
                 then
                   ANGLE_TRY
                     (case mPointSpriteVertexBuffer s1 of
                        None \<Rightarrow>
                          (let (err, b) = allocatePointSpriteVertexBuffer renderer
                           in if err \<noteq> NoError then (err, s1)
                              else (NoError, s1\<lparr> mPointSpriteVertexBuffer := Some b \<rparr>))
                      | Some b \<Rightarrow> (NoError, s1))
                     (\<lambda>s2.
                        (let pointSpriteStride =
                               (if instancedPointSpritesActive
                                then kPointSpriteVertexStride else 0);
                             s3 = snd (queueVertexBufferChange 0
                                         (shaderPtr (mPointSpriteVertexBuffer s2))
                                         pointSpriteStride 0 s2)
                         in ANGLE_TRY
                              (case mPointSpriteIndexBuffer s3 of
                                 None \<Rightarrow>
                                   (let (err, b) = allocatePointSpriteIndexBuffer renderer
                                    in if err \<noteq> NoError then (err, s3)
                                       else (NoError, s3\<lparr> mPointSpriteIndexBuffer := Some b \<rparr>))
                               | Some b \<Rightarrow> (NoError, s3))
                              (\<lambda>s4.
                                 (if instancedPointSpritesActive
                                  then (NoError,
                                        snd (syncIndexBuffer
                                               (shaderPtr (mPointSpriteIndexBuffer s4))
                                               DXGI_FORMAT_R16_UINT 0 s4))
                                  else (NoError, s4)))))
                 else (NoError, s1))
                (\<lambda>s5. (NoError, applyVertexBufferChanges s5))))"

definition swapFirst :: "nat \<Rightarrow> 'a list \<Rightarrow> 'a list" where
  "swapFirst index xs = xs[0 := xs ! index, index := xs ! 0]"

definition syncVertexBuffersAndInputLayout ::
    "Context \<Rightarrow> ProgramD3D \<Rightarrow> DrawCallParams \<Rightarrow> StateManager11 \<Rightarrow> Error \<times> StateManager11" where
  "syncVertexBuffersAndInputLayout context programD3D drawCallParams s =
     (let sorted = SortAttributesByLayout programD3D
                     (getTranslatedAttribs (getVertexArray context)) (mCurrentValueAttribs s);
          currentAttributes =
            (if featureLevel_le_9_3 (getRenderer context) \<and> sorted \<noteq> [] \<and>
                divisor (the (sorted ! 0)) > 0
             then (case FindFirstNonInstanced sorted of
                     Some index \<Rightarrow> swapFirst index sorted
                   | None \<Rightarrow> sorted)
             else sorted);
          s1 = s\<lparr> mCurrentAttributes := currentAttributes \<rparr>;
          (err, inputLayout) = getInputLayout (getRenderer context)
      in if err \<noteq> NoError then (err, s1)
         else applyVertexBuffers context programD3D drawCallParams
                (snd (setInputLayoutInternal inputLayout s1)))"

subsection \<open>Transform feedback and primitive topology\<close>

definition syncTransformFeedbackBuffers ::
    "Context \<Rightarrow> StateManager11 \<Rightarrow> Error \<times> StateManager11" where
  "syncTransformFeedbackBuffers context s =
     (if \<not> isTransformFeedbackActiveUnpaused (getGLState context)
      then (if mAppliedTFSerial s \<noteq> mEmptySerial s
            then (NoError,
                  (deviceCall (SOSetTargets 0 [] []) s)\<lparr> mAppliedTFSerial := mEmptySerial s \<rparr>)
            else (NoError, s))
      else
        (let tf11 = getCurrentTransformFeedback context
         in if mAppliedTFSerial s = tf_getSerial tf11 \<and> \<not> tf_isDirty tf11 then (NoError, s)
            else
              (let (err, soBuffers) = tf_getSOBuffers tf11
               in if err \<noteq> NoError then (err, s)
                  else (NoError,
                        (deviceCall (SOSetTargets (tf_getNumSOBuffers tf11) soBuffers
                                       (tf_getSOBufferOffsets tf11)) s)
                          \<lparr> mAppliedTFSerial := tf_getSerial tf11 \<rparr>))))"

definition setPrimitiveTopologyInternal ::
    "D3D11_PRIMITIVE_TOPOLOGY \<Rightarrow> StateManager11 \<Rightarrow> bool \<times> StateManager11" where
  "setPrimitiveTopologyInternal primitiveTopology s =
     (if primitiveTopology \<noteq> mCurrentPrimitiveTopology s
      then (True,
            (deviceCall (IASetPrimitiveTopology primitiveTopology) s)
              \<lparr> mCurrentPrimitiveTopology := primitiveTopology \<rparr>)
      else (False, s))"

definition CullsEverything :: "State \<Rightarrow> bool" where
  "CullsEverything glState =
     (cullFace (getRasterizerState glState) \<and>
      cullMode (getRasterizerState glState) = FrontAndBack)"

definition GLsizei_max :: int where
  "GLsizei_max = 2 ^ 31 - 1"

definition syncPrimitiveTopology ::
    "Renderer11 \<Rightarrow> State \<Rightarrow> ProgramD3D \<Rightarrow> GLenum \<Rightarrow> StateManager11 \<Rightarrow> StateManager11" where
  "syncPrimitiveTopology renderer glState programD3D currentDrawMode s =
     (let minCount = (if CullsEverything glState then GLsizei_max else 3)
      in if currentDrawMode = GL_POINTS
         then
           (if \<not> usesPointSize programD3D \<and> \<not> isTransformFeedbackActiveUnpaused glState
            then s\<lparr> mCurrentMinimumDrawCount := GLsizei_max \<rparr>
            else
              snd (setPrimitiveTopologyInternal
                     (if usesPointSize programD3D \<and> useInstancedPointSpriteEmulation renderer
                      then D3D11_PRIMITIVE_TOPOLOGY_TRIANGLELIST
                      else D3D11_PRIMITIVE_TOPOLOGY_POINTLIST)
                     (s\<lparr> mCurrentMinimumDrawCount := 1 \<rparr>)))
         else if currentDrawMode = GL_LINES
         then snd (setPrimitiveTopologyInternal D3D11_PRIMITIVE_TOPOLOGY_LINELIST
                     (s\<lparr> mCurrentMinimumDrawCount := 2 \<rparr>))
         else if currentDrawMode = GL_LINE_LOOP \<or> currentDrawMode = GL_LINE_STRIP
         then snd (setPrimitiveTopologyInternal D3D11_PRIMITIVE_TOPOLOGY_LINESTRIP
                     (s\<lparr> mCurrentMinimumDrawCount := 2 \<rparr>))
         else if currentDrawMode = GL_TRIANGLES \<or> currentDrawMode = GL_TRIANGLE_FAN
         then snd (setPrimitiveTopologyInternal D3D11_PRIMITIVE_TOPOLOGY_TRIANGLELIST
                     (s\<lparr> mCurrentMinimumDrawCount := minCount \<rparr>))
         else if currentDrawMode = GL_TRIANGLE_STRIP
         then snd (setPrimitiveTopologyInternal D3D11_PRIMITIVE_TOPOLOGY_TRIANGLESTRIP
                     (s\<lparr> mCurrentMinimumDrawCount := minCount \<rparr>))
         else snd (setPrimitiveTopologyInternal D3D11_PRIMITIVE_TOPOLOGY_UNDEFINED s))"

subsection \<open>updateState\<close>

text \<open>
  The switch of the loop that drains the dirty bits: the synchronizer of one dirty bit,
  on the program and the state manager.
\<close>

definition syncDirtyBit ::
    "Context \<Rightarrow> DrawCallParams \<Rightarrow> nat \<Rightarrow> DirtyBitType \<Rightarrow> ProgramD3D \<times> StateManager11
       \<Rightarrow> Error \<times> ProgramD3D \<times> StateManager11" where
  "syncDirtyBit context drawCallParams sampleMask dirtyBit w =
     (let programD3D = fst w; s = snd w;
          glState = getGLState context;
          keep = (\<lambda>r. (fst r, programD3D, snd r))
      in case dirtyBit of
           DIRTY_BIT_RENDER_TARGET \<Rightarrow>
             keep (syncFramebuffer (getRenderer context) programD3D
                     (getDrawFramebuffer context) s)
         | DIRTY_BIT_VIEWPORT_STATE \<Rightarrow> (NoError, programD3D, syncViewport context s)
         | DIRTY_BIT_SCISSOR_STATE \<Rightarrow>
             (NoError, programD3D,
              syncScissorRectangle (getScissor glState) (isScissorTestEnabled glState) s)
         | DIRTY_BIT_RASTERIZER_STATE \<Rightarrow> keep (syncRasterizerState context drawCallParams s)
         | DIRTY_BIT_BLEND_STATE \<Rightarrow>
             keep (syncBlendState (getRenderer context) (getBlendState glState)
                     (getBlendColor glState) sampleMask s)
         | DIRTY_BIT_DEPTH_STENCIL_STATE \<Rightarrow>
             keep (syncDepthStencilState (getRenderer context) glState s)
         | DIRTY_BIT_TEXTURE_AND_SAMPLER_STATE \<Rightarrow> keep (syncTextures context programD3D s)
         | DIRTY_BIT_PROGRAM_UNIFORMS \<Rightarrow> applyUniforms programD3D s
         | DIRTY_BIT_DRIVER_UNIFORMS \<Rightarrow>
             keep (applyDriverUniforms (getRenderer context) programD3D s)
         | DIRTY_BIT_PROGRAM_UNIFORM_BUFFERS \<Rightarrow> keep (syncUniformBuffers context programD3D s)
         | DIRTY_BIT_SHADERS \<Rightarrow> keep (syncProgram context programD3D s)
         | DIRTY_BIT_CURRENT_VALUE_ATTRIBS \<Rightarrow>
             keep (syncCurrentValueAttribs context programD3D s)
         | DIRTY_BIT_TRANSFORM_FEEDBACK \<Rightarrow> keep (syncTransformFeedbackBuffers context s)
         | DIRTY_BIT_VERTEX_BUFFERS_AND_INPUT_LAYOUT \<Rightarrow>
             keep (syncVertexBuffersAndInputLayout context programD3D drawCallParams s)
         | DIRTY_BIT_PRIMITIVE_TOPOLOGY \<Rightarrow>
             (NoError, programD3D,
              syncPrimitiveTopology (getRenderer context) glState programD3D
                (mode drawCallParams) s))"

text \<open>
  The part of \<^verbatim>\<open>updateState\<close> before the dirty bits are copied: it resolves what was
  deferred to the draw call and marks what the draw call itself changes.
\<close>

definition updateState_prepare ::
    "Context \<Rightarrow> DrawCallParams \<Rightarrow> ProgramD3D \<times> StateManager11
       \<Rightarrow> Error \<times> ProgramD3D \<times> StateManager11" where
  "updateState_prepare context drawCallParams w =
     (let s1 = processFramebufferInvalidation context (snd w);
          (mapping, programD3D) = updateSamplerMapping (fst w);
          s2 = (if mapping = WasDirty then invalidateTexturesAndSamplers s1 else s1);
          s3 = (if anyShaderUniformsDirty programD3D
                then setDirtyBit DIRTY_BIT_PROGRAM_UNIFORMS s2 else s2);
          swizzled = (if mDirtySwizzles s3
                      then ANGLE_TRY (generateSwizzles programD3D s3)
                             (\<lambda>s'. (NoError, s'\<lparr> mDirtySwizzles := False \<rparr>))
                      else (NoError, s3))
      in if fst swizzled \<noteq> NoError then (fst swizzled, programD3D, snd swizzled)
         else if markAttachmentsDirty (getDrawFramebuffer context) \<noteq> NoError
         then (markAttachmentsDirty (getDrawFramebuffer context), programD3D, snd swizzled)
         else
           (let s4 = snd swizzled;
                sampleMask = GetBlendSampleMask context;
                s5 = (if sampleMask \<noteq> mCurSampleMask s4
                      then setDirtyBit DIRTY_BIT_BLEND_STATE s4 else s4);
                s6 = (if mLastFirstVertex s5 = None \<or>
                         the (mLastFirstVertex s5) \<noteq> firstVertex drawCallParams
                      then invalidateInputLayout
                             (s5\<lparr> mLastFirstVertex := Some (firstVertex drawCallParams) \<rparr>)
                      else s5)
            in if syncStateForDraw (getVertexArray context) \<noteq> NoError
               then (syncStateForDraw (getVertexArray context), programD3D, s6)
               else
                 (let indexed = (if isDrawElements drawCallParams
                                 then applyIndexBuffer context s6 else (NoError, s6))
                  in if fst indexed \<noteq> NoError then (fst indexed, programD3D, snd indexed)
                     else
                       (let s7 = snd indexed;
                            s8 = (if mLastAppliedDrawMode s7 \<noteq> mode drawCallParams
                                  then
                                    (let s' = setDirtyBit DIRTY_BIT_PRIMITIVE_TOPOLOGY
                                                (s7\<lparr> mLastAppliedDrawMode :=
                                                       mode drawCallParams \<rparr>)
                                     in if (mode drawCallParams = GL_POINTS) \<noteq>
                                             pointDrawMode (mCurRasterState s')
                                        then invalidateShaders
                                               (setDirtyBit DIRTY_BIT_RASTERIZER_STATE s')
                                        else s')
                                  else s7)
                        in (NoError, programD3D, s8)))))"

text \<open>
  \<^verbatim>\<open>updateState\<close>: after the preparation the dirty bits are copied and reset, and the
  copy is drained in the order of the enumeration. The function ends with the assertion
  that no dirty bit is set.
\<close>

definition updateState ::
    "Context \<Rightarrow> DrawCallParams \<Rightarrow> ProgramD3D \<times> StateManager11
       \<Rightarrow> Error \<times> ProgramD3D \<times> StateManager11" where
  "updateState context drawCallParams w =
     ANGLE_TRY (updateState_prepare context drawCallParams w)
       (\<lambda>w1.
          (let dirtyBitsCopy = mInternalDirtyBits (snd w1);
               w2 = (fst w1, (snd w1)\<lparr> mInternalDirtyBits := {} \<rparr>)
           in forEachTry (syncDirtyBit context drawCallParams (GetBlendSampleMask context))
                (filter (\<lambda>b. b \<in> dirtyBitsCopy) allDirtyBits) w2))"

section \<open>Notions used in the statements, and example data\<close>

text \<open>The slots a call of \<^verbatim>\<open>SetShaderResources\<close> covers.\<close>

definition shaderResourceSlots :: "DeviceCall \<Rightarrow> nat set" where
  "shaderResourceSlots c =
     (case c of SetShaderResources st start n views \<Rightarrow> {start ..< start + n} | _ \<Rightarrow> {})"

text \<open>
  A device with eight fragment texture units and four vertex texture units, the state
  manager as constructed and initialised for it, and some views.
\<close>

definition exampleCaps :: Caps where
  "exampleCaps = \<lparr> maxVertexTextureImageUnits = 4, maxTextureImageUnits = 8,
     maxComputeTextureImageUnits = 4, maxImageUnits = 4, maxVertexAttributes = 16,
     maxViewportWidth = 16384, maxViewportHeight = 16384, maxDrawBuffers = 8 \<rparr>"

definition initialState :: StateManager11 where
  "initialState = snd (initialize exampleCaps False NoError (StateManager11_new 1))"

definition exampleDesc :: D3D11_SHADER_RESOURCE_VIEW_DESC where
  "exampleDesc = \<lparr> ViewDimension = D3D11_SRV_DIMENSION_TEXTURE2D, MostDetailedMip = 0,
     MipLevels = 1, FirstArraySlice = 0, ArraySize = 0 \<rparr>"

definition exampleView :: "uintptr_t \<Rightarrow> uintptr_t \<Rightarrow> ID3D11View" where
  "exampleView p r = \<lparr> ptr = p, GetResource = r, GetDesc = exampleDesc \<rparr>"

definition exampleSRV :: "uintptr_t \<Rightarrow> uintptr_t \<Rightarrow> SRVWrapper" where
  "exampleSRV p r = \<lparr> self_addr = p + 1, get = Some (exampleView p r) \<rparr>"

text \<open>The fragment slots 0 to 3 bound, one after the other, and the cache operations made.\<close>

definition fourBound :: StateManager11 where
  "fourBound =
     setShaderResourceInternal Fragment 3 (Some (exampleSRV 400 40))
       (setShaderResourceInternal Fragment 2 (Some (exampleSRV 300 30))
         (setShaderResourceInternal Fragment 1 (Some (exampleSRV 200 20))
           (setShaderResourceInternal Fragment 0 (Some (exampleSRV 100 10)) initialState)))"

definition fourBoundOps :: "ViewCacheOp list" where
  "fourBoundOps = [Update 0 (Some (exampleView 100 10)), Update 1 (Some (exampleView 200 20)),
                   Update 2 (Some (exampleView 300 30)), Update 3 (Some (exampleView 400 40))]"


text \<open>
  The header of a stage in the constants, as \<^verbatim>\<open>updateBuffer\<close> copies it, and the
  constants as initialised for the example device.
\<close>

definition stageHeader :: "ShaderType \<Rightarrow> ShaderConstants11 \<Rightarrow> ConstantsHeader" where
  "stageHeader shaderType c =
     (case shaderType of
        Vertex \<Rightarrow> VertexHeader (mVertex c)
      | Fragment \<Rightarrow> PixelHeader (mPixel c)
      | Compute \<Rightarrow> ComputeHeader (mCompute c))"

definition exampleConstants :: ShaderConstants11 where
  "exampleConstants = ShaderConstants11_init exampleCaps ShaderConstants11_new"

text \<open>A renderer whose caches and allocations all succeed.\<close>

definition exampleRenderer :: Renderer11 where
  "exampleRenderer = \<lparr> presentPathFastEnabled = False, featureLevel_le_9_3 = False,
     getNativeCaps = exampleCaps, mrtPerfWorkaround = False,
     useInstancedPointSpriteEmulation = False, isES3Capable = True,
     getReservedVertexUniformBuffers = 2, getReservedFragmentUniformBuffers = 2,
     rendererGetBlendState = (\<lambda>b. (NoError, 7)),
     rendererGetDepthStencilState = (\<lambda>d. (NoError, 8)),
     rendererGetRasterizerState = (\<lambda>r e. (NoError, 9)),
     rendererGetSamplerState = (\<lambda>k. (NoError, 10)),
     getInputLayout = (NoError, None),
     allocateDriverConstantBufferVS = (NoError, \<lparr> getSerial = 21, get_ptr = 55 \<rparr>),
     allocateDriverConstantBufferPS = (NoError, \<lparr> getSerial = 22, get_ptr = 56 \<rparr>),
     allocatePointSpriteVertexBuffer = (NoError, \<lparr> getSerial = 23, get_ptr = 57 \<rparr>),
     allocatePointSpriteIndexBuffer = (NoError, \<lparr> getSerial = 24, get_ptr = 58 \<rparr>),
     mapResource = (\<lambda>p. NoError),
     storeCurrentValue = (\<lambda>i. (NoError, zero_attribute)) \<rparr>"

text \<open>A GL state: blending with constant factors absent, depth test on, stencil test off.\<close>

definition exampleBlendState :: BlendState where
  "exampleBlendState = \<lparr> blend = True, sourceBlendRGB = GL_ONE, destBlendRGB = GL_ZERO,
     sourceBlendAlpha = GL_ONE, destBlendAlpha = GL_ZERO, blendEquationRGB = GL_FUNC_ADD,
     blendEquationAlpha = GL_FUNC_ADD, colorMaskRed = True, colorMaskGreen = True,
     colorMaskBlue = True, colorMaskAlpha = True, sampleAlphaToCoverage = False,
     dither = True \<rparr>"

definition exampleBlendColor :: ColorF where
  "exampleBlendColor = \<lparr> red = 0, green = 1 / 2, blue = 1, alpha = 1 / 4 \<rparr>"

definition exampleDepthStencilState :: DepthStencilState where
  "exampleDepthStencilState = \<lparr> depthTest = True, depthFunc = GL_LESS, depthMask = True,
     stencilTest = True, stencilFunc = GL_ALWAYS, stencilMask = 0xFF, stencilFail = GL_KEEP,
     stencilPassDepthFail = GL_KEEP, stencilPassDepthPass = GL_KEEP, stencilWritemask = 0xFF,
     stencilBackFunc = GL_ALWAYS, stencilBackMask = 0xFF, stencilBackFail = GL_KEEP,
     stencilBackPassDepthFail = GL_KEEP, stencilBackPassDepthPass = GL_KEEP,
     stencilBackWritemask = 0xFF \<rparr>"

definition exampleRasterizerState :: RasterizerState where
  "exampleRasterizerState = \<lparr> cullFace = False, cullMode = Back, frontFace = GL_CCW,
     polygonOffsetFill = False, polygonOffsetFactor = 0, polygonOffsetUnits = 0,
     pointDrawMode = False, multiSample = False, rasterizerDiscard = False \<rparr>"

definition exampleGLState :: State where
  "exampleGLState = \<lparr> getBlendState = exampleBlendState, getBlendColor = exampleBlendColor,
     getDepthStencilState = exampleDepthStencilState, getStencilRef = 0, getStencilBackRef = 0,
     getRasterizerState = exampleRasterizerState,
     getScissor = \<lparr> rect_x = 0, rect_y = 0, rect_width = 64, rect_height = 64 \<rparr>,
     isScissorTestEnabled = False, getNearPlane = 0, getFarPlane = 1,
     getViewport = \<lparr> rect_x = 0, rect_y = 0, rect_width = 64, rect_height = 64 \<rparr>,
     isTransformFeedbackActiveUnpaused = False, getAndResetDirtyCurrentValues = [] \<rparr>"

text \<open>
  Attachments and framebuffers: a texture attachment of a given size, a renderbuffer
  attachment, a render target, a user framebuffer with one colour attachment, and the
  default framebuffer with a colour buffer of a given size.
\<close>

definition exampleIndex :: ImageIndex where
  "exampleIndex = \<lparr> index_type = TextureType_2D, mipIndex = 0, layerIndex = 0 \<rparr>"

definition exampleAttachment :: "GLenum \<Rightarrow> int \<Rightarrow> int \<Rightarrow> FramebufferAttachment" where
  "exampleAttachment t w h =
     \<lparr> att_type = t, getSize = \<lparr> ext_width = w, ext_height = h, ext_depth = 1 \<rparr>,
       getTextureImageIndex = exampleIndex \<rparr>"

definition exampleRenderTarget :: "uintptr_t \<Rightarrow> uintptr_t \<Rightarrow> RenderTarget11" where
  "exampleRenderTarget v r =
     \<lparr> getRenderTargetView = v, getDepthStencilView = 0, getTexture = r, getSamples = 0 \<rparr>"

definition exampleFramebuffer :: "nat \<Rightarrow> FramebufferAttachment \<Rightarrow> uintptr_t \<Rightarrow> Framebuffer" where
  "exampleFramebuffer i a r =
     \<lparr> fb_id = i, getFirstColorbuffer = Some a, getFirstNonNullAttachment = Some a,
       getCachedColorRenderTargets = [Some (exampleRenderTarget 500 r, a)],
       getDrawBufferStates = [GL_BACK],
       getCachedDepthStencilRenderTarget = None, hasDepth = False, hasStencil = True,
       getCachedSamples = 0, getDefaultWidth = 0, getDefaultHeight = 0,
       getViewportOffsets = None, getMultiviewLayout = GL_NONE,
       getFirstRenderTarget = Some (exampleRenderTarget 500 r), markAttachmentsDirty = NoError \<rparr>"

text \<open>
  A vertex array without attributes, an inactive transform feedback object, and a program
  without samplers, attributes or uniform buffers, as it is after linking.
\<close>

definition exampleVertexArray :: VertexArray11 where
  "exampleVertexArray = \<lparr> getTranslatedAttribs = replicate 16 zero_attribute,
     attribEnabled = (\<lambda>i. False), syncStateForDraw = NoError,
     prepareIndexData = (NoError, \<lparr> indexType = GL_UNSIGNED_INT, index_storage = None,
                                     indexBuffer = 70, startOffset = 0 \<rparr>),
     srcBuffer_getData = None \<rparr>"

definition exampleTransformFeedback :: TransformFeedback11 where
  "exampleTransformFeedback = \<lparr> tf_getSerial = 0, tf_isDirty = False,
     tf_getSOBuffers = (NoError, []), tf_getSOBufferOffsets = [], tf_getNumSOBuffers = 0 \<rparr>"

definition exampleProgram :: ProgramD3D where
  "exampleProgram = \<lparr> mDirtySamplerMapping = True, mShaderUniformsDirty = {Vertex, Fragment},
     samplers = (\<lambda>st. []), getActiveOutputVariables = {0},
     getActiveAttribLocationsMask = [], getAttribLocationToD3DSemantics = (\<lambda>i. i),
     usesPointSize = False, usesInstancedPointSpriteEmulation = False,
     vertexUniformStorage_size = 16,
     vertexUniformStorage_getConstantBuffer = (NoError, \<lparr> getSerial = 31, get_ptr = 61 \<rparr>),
     fragmentUniformStorage_size = 16,
     fragmentUniformStorage_getConstantBuffer = (NoError, \<lparr> getSerial = 32, get_ptr = 62 \<rparr>),
     getVertexUniformBufferCache = [], getFragmentUniformBufferCache = [],
     getVertexExecutableForCachedInputLayout =
       (NoError, Some (\<lparr> getSerial = 41, get_ptr = 81 \<rparr>, \<lparr> getSerial = 42, get_ptr = 82 \<rparr>)),
     getPixelExecutableForCachedOutputLayout = (NoError, Some \<lparr> getSerial = 43, get_ptr = 83 \<rparr>),
     getGeometryExecutableForPrimitiveType = (NoError, None) \<rparr>"

text \<open>The context of a draw to a framebuffer, and a draw of triangles from vertex 0.\<close>

definition exampleContext :: "Framebuffer \<Rightarrow> Context" where
  "exampleContext fb = \<lparr> getGLState = exampleGLState, getDrawFramebuffer = fb,
     getVertexArray = exampleVertexArray,
     getCurrentTransformFeedback = exampleTransformFeedback, getCaps = exampleCaps,
     getRenderer = exampleRenderer, triggerDrawCallProgramRecompilation = NoError,
     UsePresentPathFast = False, GetBlendSampleMask = 0xFFFFFFFF \<rparr>"

definition exampleDraw :: DrawCallParams where
  "exampleDraw = \<lparr> mode = GL_TRIANGLES, firstVertex = 0, isDrawElements = False \<rparr>"

text \<open>
  The program after its sampler mapping and uniforms were applied, and the state manager
  as a first draw of triangles from vertex 0 leaves its bookkeeping for the next pass.
\<close>

definition linkedProgram :: ProgramD3D where
  "linkedProgram = exampleProgram\<lparr> mDirtySamplerMapping := False, mShaderUniformsDirty := {} \<rparr>"

definition drawnState :: StateManager11 where
  "drawnState = initialState\<lparr> mInternalDirtyBits := {}, mRenderTargetIsDirty := False,
     mCurSampleMask := 0xFFFFFFFF, mLastFirstVertex := Some 0,
     mLastAppliedDrawMode := GL_TRIANGLES \<rparr>"



text \<open>
  A record of a view cache conflicts with a bound attachment when it holds a view of the
  resource of the attachment, and the attachment is a texture whose image index conflicts
  with the description of the view, or is the default framebuffer.
\<close>

definition attachmentConflicts :: "FramebufferAttachment \<Rightarrow> uintptr_t \<Rightarrow> ViewRecord \<Rightarrow> bool" where
  "attachmentConflicts a res rec =
     (view rec \<noteq> 0 \<and> resource rec = res \<and>
      ((att_type a = GL_TEXTURE \<and>
        ImageIndexConflictsWithSRV (getTextureImageIndex a) (desc rec)) \<or>
       att_type a = GL_FRAMEBUFFER_DEFAULT))"

text \<open>
  What no notification of \<^verbatim>\<open>syncState\<close> undoes: dirty bits that are set, the cached
  rasterizer state, a full set of dirty current value attributes, a dirty index buffer.
\<close>

definition notificationKeeps :: "StateManager11 \<Rightarrow> StateManager11 \<Rightarrow> bool" where
  "notificationKeeps s s' =
     (mInternalDirtyBits s \<subseteq> mInternalDirtyBits s' \<and>
      mCurRasterState s' = mCurRasterState s \<and>
      ({..< MAX_VERTEX_ATTRIBS} \<subseteq> mDirtyCurrentValueAttribs s \<longrightarrow>
         {..< MAX_VERTEX_ATTRIBS} \<subseteq> mDirtyCurrentValueAttribs s') \<and>
      (mIndexBufferIsDirty s \<longrightarrow> mIndexBufferIsDirty s'))"


definition unbound :: "ViewRecord \<Rightarrow> ViewRecord" where
  "unbound rec = rec\<lparr> view := 0, resource := 0 \<rparr>"

definition unbindIf :: "(ViewRecord \<Rightarrow> bool) \<Rightarrow> ViewRecord \<Rightarrow> ViewRecord" where
  "unbindIf P rec = (if P rec then unbound rec else rec)"

definition unbindCalls :: "ShaderType \<Rightarrow> (ViewRecord \<Rightarrow> bool) \<Rightarrow> ViewRecord list \<Rightarrow> DeviceCall list" where
  "unbindCalls st P views =
     map (\<lambda>i. SetShaderResources (stage_of st) i 1 [0])
       (filter (\<lambda>i. P (views ! i)) [0 ..< length views])"


definition anyConflict :: "(FramebufferAttachment \<times> uintptr_t) list \<Rightarrow> ViewRecord \<Rightarrow> bool" where
  "anyConflict atts rec = (\<exists>p \<in> set atts. attachmentConflicts (fst p) (snd p) rec)"

text \<open>
  The members that steer a pass: the internal dirty bits, the flags that
  \<^verbatim>\<open>updateState\<close> tests before the drain, and the values it compares with the draw call.
  \<open>passFlags\<close> is \<open>passControl\<close> without the dirty bits.
\<close>

definition passControl ::
    "StateManager11 \<Rightarrow> (DirtyBitType set \<times> bool \<times> bool \<times> bool) \<times> (int option \<times> GLenum \<times> nat)" where
  "passControl s =
     ((mInternalDirtyBits s, mRenderTargetIsDirty s, mDirtySwizzles s, mIndexBufferIsDirty s),
      (mLastFirstVertex s, mLastAppliedDrawMode s, mCurSampleMask s))"

definition passFlags ::
    "StateManager11 \<Rightarrow> (bool \<times> bool \<times> bool) \<times> (int option \<times> GLenum \<times> nat)" where
  "passFlags s =
     ((mRenderTargetIsDirty s, mDirtySwizzles s, mIndexBufferIsDirty s),
      (mLastFirstVertex s, mLastAppliedDrawMode s, mCurSampleMask s))"

text \<open>
  A program and state manager are settled for a context and a draw call when a pass has
  nothing to do for them; \<open>draining\<close> is what holds in the drain of a pass while the dirty
  bits \<open>bs\<close> are still to be synchronized.
\<close>

definition settled :: "Context \<Rightarrow> DrawCallParams \<Rightarrow> ProgramD3D \<times> StateManager11 \<Rightarrow> bool" where
  "settled context drawCallParams w =
     (mInternalDirtyBits (snd w) = {} \<and>
      \<not> mRenderTargetIsDirty (snd w) \<and>
      \<not> mDirtySwizzles (snd w) \<and>
      \<not> mDirtySamplerMapping (fst w) \<and>
      mShaderUniformsDirty (fst w) = {} \<and>
      mCurSampleMask (snd w) = GetBlendSampleMask context \<and>
      mLastFirstVertex (snd w) = Some (firstVertex drawCallParams) \<and>
      mLastAppliedDrawMode (snd w) = mode drawCallParams \<and>
      (isDrawElements drawCallParams \<longrightarrow> \<not> mIndexBufferIsDirty (snd w)) \<and>
      markAttachmentsDirty (getDrawFramebuffer context) = NoError \<and>
      syncStateForDraw (getVertexArray context) = NoError)"

definition draining ::
    "Context \<Rightarrow> DrawCallParams \<Rightarrow> DirtyBitType list \<Rightarrow> ProgramD3D \<times> StateManager11 \<Rightarrow> bool" where
  "draining context drawCallParams bs w =
     (mInternalDirtyBits (snd w) = {} \<and>
      \<not> mRenderTargetIsDirty (snd w) \<and>
      \<not> mDirtySwizzles (snd w) \<and>
      \<not> mDirtySamplerMapping (fst w) \<and>
      (mShaderUniformsDirty (fst w) = {} \<or> DIRTY_BIT_PROGRAM_UNIFORMS \<in> set bs) \<and>
      (mCurSampleMask (snd w) = GetBlendSampleMask context \<or> DIRTY_BIT_BLEND_STATE \<in> set bs) \<and>
      mLastFirstVertex (snd w) = Some (firstVertex drawCallParams) \<and>
      mLastAppliedDrawMode (snd w) = mode drawCallParams \<and>
      (isDrawElements drawCallParams \<longrightarrow> \<not> mIndexBufferIsDirty (snd w)))"
section \<open>The view cache and the clearing of shader resource slots\<close>

lemma ViewCache_scan_le: "ViewCache_scan views h \<le> h"
proof (induction views h rule: ViewCache_scan.induct)
  case (1 views h)
  show ?case
  proof (cases "h - 1 > 0 \<and> view (views ! (h - 1)) = 0")
    case True
    with 1 have "ViewCache_scan views (h - 1) \<le> h - 1" by simp
    with True show ?thesis by (subst ViewCache_scan.simps) simp
  next
    case False
    then show ?thesis by (subst ViewCache_scan.simps) auto
  qed
qed

lemma ViewCache_update_highest_le:
  assumes "mHighestUsedView c \<le> b" and "v \<noteq> None \<Longrightarrow> i < b"
  shows "mHighestUsedView (ViewCache_update i v c) \<le> b"
proof (cases v)
  case None
  have "ViewCache_scan views (mHighestUsedView c) \<le> b" for views
    using ViewCache_scan_le [of views "mHighestUsedView c"] assms(1) by linarith
  with None assms(1) show ?thesis
    by (simp add: ViewCache_update_def Let_def)
next
  case (Some w)
  with assms show ?thesis by (simp add: ViewCache_update_def)
qed

lemma ViewCache_clear_highest_le:
  "mHighestUsedView c \<le> b \<Longrightarrow> mHighestUsedView (ViewCache_clear c) \<le> b"
  by (simp add: ViewCache_clear_def)

lemma ViewCache_run_highest_le:
  assumes "mHighestUsedView c \<le> b"
    and "\<And>i w. Update i (Some w) \<in> set ops \<Longrightarrow> i < b"
  shows "mHighestUsedView (ViewCache_run ops c) \<le> b"
  using assms
proof (induction ops arbitrary: c)
  case Nil
  then show ?case by (simp add: ViewCache_run_def)
next
  case (Cons op ops)
  have step: "mHighestUsedView (ViewCache_apply op c) \<le> b"
  proof (cases op)
    case (Update i v)
    have "v \<noteq> None \<Longrightarrow> i < b"
      using Cons.prems(2) [of i] Update by auto
    then have "mHighestUsedView (ViewCache_update i v c) \<le> b"
      using Cons.prems(1) by (rule ViewCache_update_highest_le [rotated])
    with Update show ?thesis by simp
  next
    case Clear
    with Cons.prems(1) show ?thesis by (simp add: ViewCache_clear_highest_le)
  qed
  have "mHighestUsedView (ViewCache_run ops (ViewCache_apply op c)) \<le> b"
  proof (rule Cons.IH [OF step])
    fix i w
    assume "Update i (Some w) \<in> set ops"
    then show "i < b" using Cons.prems(2) [of i w] by simp
  qed
  then show ?case by (simp add: ViewCache_run_def)
qed

lemma ViewCache_initialize_highest [simp]:
  "mHighestUsedView (ViewCache_initialize n c) = mHighestUsedView c"
  by (simp add: ViewCache_initialize_def)

lemma deviceContext_setSRVCache [simp]:
  "deviceContext (setSRVCache st c s) = deviceContext s"
  by (cases st) (simp_all add: setSRVCache_def)

lemma deviceContext_deviceCall [simp]:
  "deviceContext (deviceCall c s) = deviceContext s @ [c]"
  by (simp add: deviceCall_def)

lemma clearSRVs_calls:
  "deviceContext (snd (clearSRVs st rangeStart rangeEnd s)) =
     deviceContext s @
       (if rangeStart < min rangeEnd (highestUsed (getSRVCache st s))
        then [SetShaderResources (stage_of st) rangeStart
                (min rangeEnd (highestUsed (getSRVCache st s)) - rangeStart)
                (take (min rangeEnd (highestUsed (getSRVCache st s)) - rangeStart) (mNullSRVs s))]
        else [])"
  by (auto simp: clearSRVs_def Let_def Range_empty_def Range_length_def Range_low_def)

lemma clearSRVs_NoError: "fst (clearSRVs st rangeStart rangeEnd s) = NoError"
  by (simp add: clearSRVs_def Let_def)

lemmas example_defs = fourBound_def fourBoundOps_def exampleSRV_def exampleView_def exampleDesc_def
  initialState_def exampleCaps_def initialize_def StateManager11_new_def ViewCache_initialize_def
  ViewCache_new_def resize_def setShaderResourceInternal_def getSRVCache_def setSRVCache_def
  deviceCall_def ViewCache_update_def ViewCache_run_def zero_record_def zero_desc_def stage_of_def
  ptr_of_def highestUsed_def

lemma fb_cache: "getSRVCache Fragment fourBound = ViewCache_run fourBoundOps (ViewCache_initialize 8 ViewCache_new)"
  by (simp add: example_defs)

lemma fb_ops: "\<forall>i w. Update i (Some w) \<in> set fourBoundOps \<longrightarrow> i < 4"
  by (simp add: fourBoundOps_def)

lemma fb_hi: "highestUsed (getSRVCache Fragment fourBound) = 4" by (simp add: example_defs)
lemma fb_null: "mNullSRVs fourBound = replicate 8 0" by (simp add: example_defs)
lemma fb_dc: "deviceContext fourBound = [PSSetShaderResources 0 1 [100], PSSetShaderResources 1 1 [200], PSSetShaderResources 2 1 [300], PSSetShaderResources 3 1 [400]]" by (simp add: example_defs)

text \<open>
  Claim C4 (minimal clear range). For every shader stage and \<open>rangeStart \<le> rangeEnd\<close>,
  \<^verbatim>\<open>clearSRVs\<close> succeeds and adds to the calls made on the device at most one call: none
  when the range \<open>[rangeStart, min rangeEnd highestUsed)\<close> is empty, and otherwise one
  \<^verbatim>\<open>SetShaderResources\<close> call of the stage that starts at \<open>rangeStart\<close> and covers
  exactly that range with null views. In particular, when the cache of the stage was
  reached from an initialised cache by operations that bound views at slots below 4 only,
  clearing the slots \<open>0..N\<close> touches slots within \<open>[0, 4)\<close> only.
\<close>

theorem clearSRVs_minimal_range:
  assumes "rangeStart \<le> rangeEnd"
  shows "fst (clearSRVs shaderType rangeStart rangeEnd s) = NoError \<and>
         deviceContext (snd (clearSRVs shaderType rangeStart rangeEnd s)) =
           deviceContext s @
             (if rangeStart < min rangeEnd (highestUsed (getSRVCache shaderType s))
              then [SetShaderResources (stage_of shaderType) rangeStart
                      (min rangeEnd (highestUsed (getSRVCache shaderType s)) - rangeStart)
                      (take (min rangeEnd (highestUsed (getSRVCache shaderType s)) - rangeStart)
                         (mNullSRVs s))]
              else []) \<and>
         (\<forall>ops n N.
            getSRVCache shaderType s = ViewCache_run ops (ViewCache_initialize n ViewCache_new) \<and>
            (\<forall>i w. Update i (Some w) \<in> set ops \<longrightarrow> i < 4) \<longrightarrow>
            (\<forall>c \<in> set (drop (length (deviceContext s))
                          (deviceContext (snd (clearSRVs shaderType 0 N s)))).
               shaderResourceSlots c \<subseteq> {0 ..< 4}))"
proof (intro conjI allI impI)
  show "fst (clearSRVs shaderType rangeStart rangeEnd s) = NoError"
    by (rule clearSRVs_NoError)
next
  show "deviceContext (snd (clearSRVs shaderType rangeStart rangeEnd s)) =
           deviceContext s @
             (if rangeStart < min rangeEnd (highestUsed (getSRVCache shaderType s))
              then [SetShaderResources (stage_of shaderType) rangeStart
                      (min rangeEnd (highestUsed (getSRVCache shaderType s)) - rangeStart)
                      (take (min rangeEnd (highestUsed (getSRVCache shaderType s)) - rangeStart)
                         (mNullSRVs s))]
              else [])"
    by (rule clearSRVs_calls)
next
  fix ops n N
  assume h: "getSRVCache shaderType s = ViewCache_run ops (ViewCache_initialize n ViewCache_new) \<and>
            (\<forall>i w. Update i (Some w) \<in> set ops \<longrightarrow> i < 4)"
  have "mHighestUsedView (ViewCache_run ops (ViewCache_initialize n ViewCache_new)) \<le> 4"
    using h by (intro ViewCache_run_highest_le) (auto simp: ViewCache_new_def)
  with h have le: "highestUsed (getSRVCache shaderType s) \<le> 4"
    by (simp add: highestUsed_def)
  show "\<forall>c \<in> set (drop (length (deviceContext s))
                          (deviceContext (snd (clearSRVs shaderType 0 N s)))).
               shaderResourceSlots c \<subseteq> {0 ..< 4}"
    using le by (auto simp: clearSRVs_calls shaderResourceSlots_def)
qed


theorem clearSRVs_minimal_range_witness:
  "(0::nat) \<le> 8 \<and>
   deviceContext (snd (clearSRVs Fragment 0 8 fourBound)) =
     deviceContext fourBound @ [PSSetShaderResources 0 4 (replicate 4 0)] \<and>
   shaderResourceSlots (PSSetShaderResources 0 4 (replicate 4 0)) \<subseteq> {0 ..< 4}"
proof -
  have le: "(0::nat) \<le> 8" by simp
  note t = clearSRVs_minimal_range [OF le, of Fragment fourBound]
  have a: "deviceContext (snd (clearSRVs Fragment 0 8 fourBound)) =
     deviceContext fourBound @ [PSSetShaderResources 0 4 (replicate 4 0)]"
    using t by (simp add: fb_hi fb_null stage_of_def)
  have b: "\<forall>c \<in> set (drop (length (deviceContext fourBound))
                  (deviceContext (snd (clearSRVs Fragment 0 8 fourBound)))).
      shaderResourceSlots c \<subseteq> {0 ..< 4}"
    using t fb_cache fb_ops by blast
  have c: "shaderResourceSlots (PSSetShaderResources 0 4 (replicate 4 0)) \<subseteq> {0 ..< 4}"
    using b unfolding a by simp
  from le a c show ?thesis by blast
qed

text \<open>
  Claim C10 (highest-used invariant of the view cache): the claim is that every slot at or
  above \<open>highestUsed\<close> is unoccupied and that \<open>highestUsed\<close> is zero only when no slot is
  occupied. The unbinding branch of \<^verbatim>\<open>ViewCache::update\<close> breaks it: its loop stops with
  the counter on the index of the occupied slot it found, not one past it. On a cache of
  two slots, binding slot 0, binding slot 1 and unbinding slot 1 leaves \<open>highestUsed\<close> at 0
  while slot 0 is occupied.
\<close>

theorem ViewCache_highestUsed_below_occupied_slot:
  "highestUsed (ViewCache_run [Update 0 (Some (exampleView 100 10)),
                               Update 1 (Some (exampleView 200 20)),
                               Update 1 None]
                  (ViewCache_initialize 2 ViewCache_new)) = 0 \<and>
   occupied (ViewCache_run [Update 0 (Some (exampleView 100 10)),
                            Update 1 (Some (exampleView 200 20)),
                            Update 1 None]
               (ViewCache_initialize 2 ViewCache_new)) 0"
  by (simp add: ViewCache_run_def ViewCache_update_def ViewCache_initialize_def ViewCache_new_def
        highestUsed_def occupied_def ViewCache_size_def zero_record_def exampleView_def
        ViewCache_scan.simps)


section \<open>The driver constant buffers\<close>

lemma updateBuffer_uploads:
  "uploads (updateBuffer mapResult st n b c) =
     (if (st \<in> mShaderConstantsDirty c \<or> numActiveSamplers st c < n) \<and> mapResult = NoError
      then [WriteDiscard b (stageHeader st c) (take (nat n) (samplerMetadata st c))]
      else [])"
  by (cases st)
     (auto simp: uploads_def updateBuffer_def numActiveSamplers_def stageHeader_def
        samplerMetadata_def)

lemma updateBuffer_state:
  "numActiveSamplers st (fst (snd (updateBuffer mapResult st n b c))) = n \<and>
   st \<notin> mShaderConstantsDirty (fst (snd (updateBuffer mapResult st n b c))) \<and>
   samplerMetadata st (fst (snd (updateBuffer mapResult st n b c))) = samplerMetadata st c \<and>
   stageHeader st (fst (snd (updateBuffer mapResult st n b c))) = stageHeader st c"
  by (cases st)
     (auto simp: updateBuffer_def numActiveSamplers_def stageHeader_def samplerMetadata_def)

lemma take_eq_map_nth: "k \<le> length xs \<Longrightarrow> take k xs = map ((!) xs) [0 ..< k]"
  by (simp add: list_eq_iff_nth_eq)

lemma updateBuffer_result:
  "fst (updateBuffer mapResult st n b c) =
     (if st \<in> mShaderConstantsDirty c \<or> numActiveSamplers st c < n then mapResult else NoError)"
  by (cases st) (auto simp: updateBuffer_def numActiveSamplers_def)

lemmas constants_defs = exampleConstants_def ShaderConstants11_init_def ShaderConstants11_new_def
  exampleCaps_def resize_def

lemma exampleConstants_metadata:
  "samplerMetadata Fragment exampleConstants = replicate 8 zero_metadata"
  by (simp add: constants_defs samplerMetadata_def)

text \<open>
  Claim C3 (widening-only re-upload of the sampler metadata), as amended. A call of
  \<^verbatim>\<open>updateBuffer\<close> has an upload due when the dirty flag of the stage is set or the
  sampler count the stage has recorded is below the count asked for. It returns the result
  of mapping the buffer when an upload is due and success otherwise, and it writes the
  driver constant buffer exactly when an upload is due and the mapping succeeds. A call
  that returns success records the count it was asked for, whether it wrote or not. After
  such a call for \<open>K\<close> samplers a call for \<open>K - 1\<close> writes nothing, and a call for \<open>K + 1\<close>
  whose mapping succeeds makes one write, of the header of the stage and of the sampler
  metadata at the indices \<open>0\<close> to \<open>K\<close>.
\<close>

theorem updateBuffer_widening_only:
  "fst (updateBuffer mapResult shaderType numSamplers driverConstantBuffer c) =
     (if shaderType \<in> mShaderConstantsDirty c \<or> numActiveSamplers shaderType c < numSamplers
      then mapResult else NoError) \<and>
   (uploads (updateBuffer mapResult shaderType numSamplers driverConstantBuffer c) \<noteq> [] \<longleftrightarrow>
      (shaderType \<in> mShaderConstantsDirty c \<or> numActiveSamplers shaderType c < numSamplers) \<and>
      mapResult = NoError) \<and>
   (fst (updateBuffer mapResult shaderType numSamplers driverConstantBuffer c) = NoError \<longrightarrow>
      numActiveSamplers shaderType
        (fst (snd (updateBuffer mapResult shaderType numSamplers driverConstantBuffer c))) =
        numSamplers) \<and>
   (\<forall>K c1. fst (updateBuffer mapResult' shaderType K driverConstantBuffer c) = NoError \<and>
      c1 = fst (snd (updateBuffer mapResult' shaderType K driverConstantBuffer c)) \<longrightarrow>
      uploads (updateBuffer mapResult shaderType (K - 1) driverConstantBuffer c1) = [] \<and>
      (0 \<le> K \<and> nat (K + 1) \<le> length (samplerMetadata shaderType c) \<longrightarrow>
         uploads (updateBuffer NoError shaderType (K + 1) driverConstantBuffer c1) =
           [WriteDiscard driverConstantBuffer (stageHeader shaderType c)
              (map ((!) (samplerMetadata shaderType c)) [0 ..< nat (K + 1)])]))"
proof (intro conjI allI impI)
  show "fst (updateBuffer mapResult shaderType numSamplers driverConstantBuffer c) =
     (if shaderType \<in> mShaderConstantsDirty c \<or> numActiveSamplers shaderType c < numSamplers
      then mapResult else NoError)"
    by (rule updateBuffer_result)
next
  show "uploads (updateBuffer mapResult shaderType numSamplers driverConstantBuffer c) \<noteq> [] \<longleftrightarrow>
      (shaderType \<in> mShaderConstantsDirty c \<or> numActiveSamplers shaderType c < numSamplers) \<and>
      mapResult = NoError"
    by (simp add: updateBuffer_uploads)
next
  show "numActiveSamplers shaderType
        (fst (snd (updateBuffer mapResult shaderType numSamplers driverConstantBuffer c))) =
        numSamplers"
    using updateBuffer_state [of shaderType mapResult numSamplers driverConstantBuffer c]
    by simp
next
  fix K c1
  assume "fst (updateBuffer mapResult' shaderType K driverConstantBuffer c) = NoError \<and>
      c1 = fst (snd (updateBuffer mapResult' shaderType K driverConstantBuffer c))"
  hence c1: "c1 = fst (snd (updateBuffer mapResult' shaderType K driverConstantBuffer c))"
    by simp
  show "uploads (updateBuffer mapResult shaderType (K - 1) driverConstantBuffer c1) = []"
    using updateBuffer_state [of shaderType mapResult' K driverConstantBuffer c] c1
    by (simp add: updateBuffer_uploads)
next
  fix K c1
  assume "fst (updateBuffer mapResult' shaderType K driverConstantBuffer c) = NoError \<and>
      c1 = fst (snd (updateBuffer mapResult' shaderType K driverConstantBuffer c))"
    and k: "0 \<le> K \<and> nat (K + 1) \<le> length (samplerMetadata shaderType c)"
  hence c1: "c1 = fst (snd (updateBuffer mapResult' shaderType K driverConstantBuffer c))"
    by simp
  show "uploads (updateBuffer NoError shaderType (K + 1) driverConstantBuffer c1) =
           [WriteDiscard driverConstantBuffer (stageHeader shaderType c)
              (map ((!) (samplerMetadata shaderType c)) [0 ..< nat (K + 1)])]"
    using updateBuffer_state [of shaderType mapResult' K driverConstantBuffer c] c1 k
    by (simp add: updateBuffer_uploads take_eq_map_nth)
qed

theorem updateBuffer_widening_only_witness:
  "fst (updateBuffer NoError Fragment 2 55 exampleConstants) = NoError \<and>
   uploads (updateBuffer NoError Fragment 2 55 exampleConstants) \<noteq> [] \<and>
   numActiveSamplers Fragment (fst (snd (updateBuffer NoError Fragment 2 55 exampleConstants))) = 2 \<and>
   uploads (updateBuffer NoError Fragment 1 55
              (fst (snd (updateBuffer NoError Fragment 2 55 exampleConstants)))) = [] \<and>
   uploads (updateBuffer NoError Fragment 3 55
              (fst (snd (updateBuffer NoError Fragment 2 55 exampleConstants)))) =
     [WriteDiscard 55 (stageHeader Fragment exampleConstants) (replicate 3 zero_metadata)] \<and>
   fst (updateBuffer (GLError 0x0505) Fragment 2 55 exampleConstants) = GLError 0x0505"
proof -
  note t = updateBuffer_widening_only [of NoError Fragment 2 55 exampleConstants NoError]
  note tf = updateBuffer_widening_only
              [of "GLError 0x0505" Fragment 2 55 exampleConstants NoError]
  have dirty: "Fragment \<in> mShaderConstantsDirty exampleConstants"
    by (simp add: constants_defs)
  have ok: "fst (updateBuffer NoError Fragment 2 55 exampleConstants) = NoError"
    using t dirty by simp
  have a: "uploads (updateBuffer NoError Fragment 2 55 exampleConstants) \<noteq> []"
    using t dirty by blast
  have n: "numActiveSamplers Fragment
             (fst (snd (updateBuffer NoError Fragment 2 55 exampleConstants))) = 2"
    using t ok by blast
  have len: "(0::int) \<le> 2 \<and> nat (2 + 1) \<le> length (samplerMetadata Fragment exampleConstants)"
    by (simp add: exampleConstants_metadata)
  have b: "uploads (updateBuffer NoError Fragment (2 - 1) 55
              (fst (snd (updateBuffer NoError Fragment 2 55 exampleConstants)))) = []"
    using t ok by blast
  have c: "uploads (updateBuffer NoError Fragment (2 + 1) 55
              (fst (snd (updateBuffer NoError Fragment 2 55 exampleConstants)))) =
     [WriteDiscard 55 (stageHeader Fragment exampleConstants)
        (map ((!) (samplerMetadata Fragment exampleConstants)) [0 ..< nat (2 + 1)])]"
    using t ok len by blast
  have m: "map ((!) (samplerMetadata Fragment exampleConstants)) [0 ..< nat (2 + 1)] =
           replicate 3 zero_metadata"
    by (simp add: exampleConstants_metadata map_replicate_const list_eq_iff_nth_eq)
  have f: "fst (updateBuffer (GLError 0x0505) Fragment 2 55 exampleConstants) = GLError 0x0505"
    using tf dirty by simp
  from ok a n b c m f show ?thesis by simp
qed

text \<open>
  The claim as it stands fails twice. With the dirty flag of the vertex stage set and a
  mapping that fails, nothing is written. And the count compared is the one the last call
  recorded, not the one last uploaded: after an upload for three samplers and a call for
  two, which writes nothing, a call for three writes again with the dirty flag clear.
\<close>

theorem updateBuffer_claim_counterexample:
  "Vertex \<in> mShaderConstantsDirty ShaderConstants11_new \<and>
   uploads (updateBuffer (GLError 0x0505) Vertex 0 55 ShaderConstants11_new) = [] \<and>
   uploads (updateBuffer NoError Fragment 3 55 exampleConstants) =
     [WriteDiscard 55 (stageHeader Fragment exampleConstants) (replicate 3 zero_metadata)] \<and>
   uploads (updateBuffer NoError Fragment 2 55
              (fst (snd (updateBuffer NoError Fragment 3 55 exampleConstants)))) = [] \<and>
   Fragment \<notin> mShaderConstantsDirty
      (fst (snd (updateBuffer NoError Fragment 2 55
                   (fst (snd (updateBuffer NoError Fragment 3 55 exampleConstants)))))) \<and>
   uploads (updateBuffer NoError Fragment 3 55
              (fst (snd (updateBuffer NoError Fragment 2 55
                           (fst (snd (updateBuffer NoError Fragment 3 55 exampleConstants))))))) =
     [WriteDiscard 55 (stageHeader Fragment exampleConstants) (replicate 3 zero_metadata)]"
  by (simp add: uploads_def updateBuffer_def ShaderConstants11_new_def constants_defs
        stageHeader_def zero_metadata_def)

section \<open>Blend state\<close>

lemma rendererRequest_deviceContext [simp]:
  "deviceContext (rendererRequest r s) = deviceContext s"
  by (simp add: rendererRequest_def)

text \<open>
  Claim C7 (blend colour passed to the device), as amended. When the renderer has a blend
  state object for the state, \<^verbatim>\<open>syncBlendState\<close> makes one call of \<^verbatim>\<open>OMSetBlendState\<close>.
  The blend colour it passes is the alpha of the logical blend colour in all four
  channels if the source or the destination factor of the colour channels is
  \<^verbatim>\<open>GL_CONSTANT_ALPHA\<close> or \<^verbatim>\<open>GL_ONE_MINUS_CONSTANT_ALPHA\<close>, and the logical blend colour
  unchanged otherwise.
\<close>

theorem syncBlendState_blend_color:
  assumes "rendererGetBlendState renderer blendState = (NoError, dxBlendState)"
  shows "syncBlendState renderer blendState blendColor sampleMask s =
           (NoError, snd (syncBlendState renderer blendState blendColor sampleMask s)) \<and>
         deviceContext (snd (syncBlendState renderer blendState blendColor sampleMask s)) =
           deviceContext s @
           [OMSetBlendState dxBlendState
              (if sourceBlendRGB blendState = GL_CONSTANT_ALPHA \<or>
                  sourceBlendRGB blendState = GL_ONE_MINUS_CONSTANT_ALPHA \<or>
                  destBlendRGB blendState = GL_CONSTANT_ALPHA \<or>
                  destBlendRGB blendState = GL_ONE_MINUS_CONSTANT_ALPHA
               then [alpha blendColor, alpha blendColor, alpha blendColor, alpha blendColor]
               else [red blendColor, green blendColor, blue blendColor, alpha blendColor])
              sampleMask]"
  using assms by (simp add: syncBlendState_def blendColors_def Let_def)

theorem syncBlendState_blend_color_witness:
  "rendererGetBlendState exampleRenderer (exampleBlendState\<lparr> destBlendRGB := GL_CONSTANT_ALPHA \<rparr>)
     = (NoError, 7) \<and>
   deviceContext (snd (syncBlendState exampleRenderer
       (exampleBlendState\<lparr> destBlendRGB := GL_CONSTANT_ALPHA \<rparr>) exampleBlendColor 0xFFFFFFFF
       initialState)) =
     deviceContext initialState @ [OMSetBlendState 7 [1 / 4, 1 / 4, 1 / 4, 1 / 4] 0xFFFFFFFF]"
proof -
  have h: "rendererGetBlendState exampleRenderer
             (exampleBlendState\<lparr> destBlendRGB := GL_CONSTANT_ALPHA \<rparr>) = (NoError, 7)"
    by (simp add: exampleRenderer_def)
  show ?thesis
    using syncBlendState_blend_color [OF h, of exampleBlendColor "0xFFFFFFFF" initialState] h
    by (simp add: exampleBlendState_def exampleBlendColor_def)
qed

text \<open>
  The factors of the alpha channel are not looked at: with \<^verbatim>\<open>GL_CONSTANT_ALPHA\<close> as the
  source factor of the alpha channel only, the colour is passed unchanged.
\<close>

theorem syncBlendState_alpha_factor_counterexample:
  "sourceBlendAlpha (exampleBlendState\<lparr> sourceBlendAlpha := GL_CONSTANT_ALPHA \<rparr>)
     = GL_CONSTANT_ALPHA \<and>
   deviceContext (snd (syncBlendState exampleRenderer
       (exampleBlendState\<lparr> sourceBlendAlpha := GL_CONSTANT_ALPHA \<rparr>) exampleBlendColor
       0xFFFFFFFF initialState)) =
     deviceContext initialState @ [OMSetBlendState 7 [0, 1 / 2, 1, 1 / 4] 0xFFFFFFFF]"
  by (simp add: syncBlendState_def blendColors_def Let_def exampleRenderer_def
        exampleBlendState_def exampleBlendColor_def GL_ONE_def GL_ZERO_def GL_CONSTANT_ALPHA_def
        GL_ONE_MINUS_CONSTANT_ALPHA_def)

section \<open>Depth stencil state\<close>

lemma setDirtyBit_flags [simp]:
  "mCurDisableDepth (setDirtyBit b s) = mCurDisableDepth s"
  "mCurDisableStencil (setDirtyBit b s) = mCurDisableStencil s"
  by (simp_all add: setDirtyBit_def)

lemma invalidateViewport_flags [simp]:
  "mCurDisableDepth (invalidateViewport s) = mCurDisableDepth s"
  "mCurDisableStencil (invalidateViewport s) = mCurDisableStencil s"
  by (simp_all add: invalidateViewport_def invalidateDriverUniforms_def)

lemma checkPresentPath_flags [simp]:
  "mCurDisableDepth (checkPresentPath context s) = mCurDisableDepth s"
  "mCurDisableStencil (checkPresentPath context s) = mCurDisableStencil s"
  by (simp_all add: checkPresentPath_def Let_def)

lemma processFramebufferInvalidation_flags:
  assumes "mRenderTargetIsDirty s"
  shows "mCurDisableDepth (processFramebufferInvalidation context s) =
           Some (hasStencil (getDrawFramebuffer context) \<and> \<not> hasDepth (getDrawFramebuffer context)) \<and>
         mCurDisableStencil (processFramebufferInvalidation context s) =
           Some (hasDepth (getDrawFramebuffer context) \<and> \<not> hasStencil (getDrawFramebuffer context))"
proof -
  define s1 where "s1 = setDirtyBit DIRTY_BIT_BLEND_STATE
                    (invalidateShaders
                       (setDirtyBit DIRTY_BIT_RENDER_TARGET (s\<lparr> mRenderTargetIsDirty := False \<rparr>)))"
  define fbo where "fbo = getDrawFramebuffer context"
  define s2 where "s2 = (if mCurDisableDepth s1 = None \<or> (\<not> hasDepth fbo \<and> hasStencil fbo) \<noteq> the (mCurDisableDepth s1) \<or>
                      mCurDisableStencil s1 = None \<or>
                      (hasDepth fbo \<and> \<not> hasStencil fbo) \<noteq> the (mCurDisableStencil s1)
                   then (setDirtyBit DIRTY_BIT_DEPTH_STENCIL_STATE s1)
                          \<lparr> mCurDisableDepth := Some (\<not> hasDepth fbo \<and> hasStencil fbo),
                            mCurDisableStencil := Some (hasDepth fbo \<and> \<not> hasStencil fbo) \<rparr>
                   else s1)"
  have f2: "mCurDisableDepth s2 = Some (hasStencil fbo \<and> \<not> hasDepth fbo) \<and>
            mCurDisableStencil s2 = Some (hasDepth fbo \<and> \<not> hasStencil fbo)"
    unfolding s2_def by (cases "mCurDisableDepth s1"; cases "mCurDisableStencil s1"; auto)
  define s3 where "s3 = (if (getCachedSamples fbo \<noteq> 0) \<noteq> multiSample (mCurRasterState s2)
                   then (setDirtyBit DIRTY_BIT_RASTERIZER_STATE s2)
                          \<lparr> mCurRasterState :=
                              (mCurRasterState s2)\<lparr> multiSample := (getCachedSamples fbo \<noteq> 0) \<rparr> \<rparr>
                   else s2)"
  have f3: "mCurDisableDepth s3 = mCurDisableDepth s2 \<and> mCurDisableStencil s3 = mCurDisableStencil s2"
    unfolding s3_def by simp
  define s4 where "s4 = checkPresentPath context s3"
  have f4: "mCurDisableDepth s4 = mCurDisableDepth s2 \<and> mCurDisableStencil s4 = mCurDisableStencil s2"
    unfolding s4_def using f3 by simp
  have eq: "processFramebufferInvalidation context s =
       (if featureLevel_le_9_3 (getRenderer context)
            then (case getFirstNonNullAttachment fbo of
                    Some firstAttachment \<Rightarrow>
                      (let sz = getSize firstAttachment
                       in if ext_width (mViewportBounds s4) \<noteq> ext_width sz \<or>
                             ext_height (mViewportBounds s4) \<noteq> ext_height sz
                          then invalidateViewport
                                 (s4\<lparr> mViewportBounds :=
                                        \<lparr> ext_width = ext_width sz, ext_height = ext_height sz,
                                          ext_depth = 1 \<rparr> \<rparr>)
                          else s4)
                  | None \<Rightarrow> s4)
            else s4)"
    using assms unfolding processFramebufferInvalidation_def Let_def s4_def s3_def s2_def s1_def fbo_def
    by simp
  show ?thesis
    unfolding eq using f4 f2 unfolding fbo_def
    by (simp add: Let_def split: option.splits)
qed

lemma modifiedGLState_props:
  "(disableDepth \<longrightarrow> \<not> depthTest (modifiedGLState ds disableDepth disableStencil) \<and>
                     \<not> depthMask (modifiedGLState ds disableDepth disableStencil)) \<and>
   (disableStencil \<longrightarrow> \<not> stencilTest (modifiedGLState ds disableDepth disableStencil)) \<and>
   (\<not> stencilTest (modifiedGLState ds disableDepth disableStencil) \<longrightarrow>
      stencilWritemask (modifiedGLState ds disableDepth disableStencil) = 0 \<and>
      stencilBackWritemask (modifiedGLState ds disableDepth disableStencil) = 0)"
  by (simp add: modifiedGLState_def Let_def)

lemma syncDepthStencilState_requests:
  "rendererRequests (snd (syncDepthStencilState renderer glState s)) =
     rendererRequests s @
     [GetDepthStencilState (modifiedGLState (getDepthStencilState glState)
         (the (mCurDisableDepth s)) (the (mCurDisableStencil s)))]"
  by (simp add: syncDepthStencilState_def Let_def rendererRequest_def deviceCall_def
        split: prod.splits)

text \<open>
  Claim C8 (override flags of the depth stencil state). Under the conditions the source
  asserts, \<^verbatim>\<open>syncDepthStencilState\<close> asks the renderer for one descriptor \<open>d\<close>: depth test
  and depth writes are off in \<open>d\<close> when the flag \<open>mCurDisableDepth\<close> is set, the stencil test
  is off when \<open>mCurDisableStencil\<close> is set, and both stencil writemasks are zero when the
  stencil test of \<open>d\<close> is off. When the render target is dirty,
  \<^verbatim>\<open>processFramebufferInvalidation\<close> leaves the first flag at "stencil but no depth" and
  the second at "depth but no stencil" of the draw framebuffer.
\<close>

theorem syncDepthStencilState_overrides:
  "(syncDepthStencilState_asserts glState s \<longrightarrow>
     (\<exists>d. rendererRequests (snd (syncDepthStencilState renderer glState s)) =
            rendererRequests s @ [GetDepthStencilState d] \<and>
          (mCurDisableDepth s = Some True \<longrightarrow> \<not> depthTest d \<and> \<not> depthMask d) \<and>
          (mCurDisableStencil s = Some True \<longrightarrow> \<not> stencilTest d) \<and>
          (\<not> stencilTest d \<longrightarrow> stencilWritemask d = 0 \<and> stencilBackWritemask d = 0))) \<and>
   (mRenderTargetIsDirty s \<longrightarrow>
      mCurDisableDepth (processFramebufferInvalidation context s) =
        Some (hasStencil (getDrawFramebuffer context) \<and> \<not> hasDepth (getDrawFramebuffer context)) \<and>
      mCurDisableStencil (processFramebufferInvalidation context s) =
        Some (hasDepth (getDrawFramebuffer context) \<and> \<not> hasStencil (getDrawFramebuffer context)))"
proof (intro conjI impI)
  assume "syncDepthStencilState_asserts glState s"
  let ?d = "modifiedGLState (getDepthStencilState glState)
              (the (mCurDisableDepth s)) (the (mCurDisableStencil s))"
  have "rendererRequests (snd (syncDepthStencilState renderer glState s)) =
          rendererRequests s @ [GetDepthStencilState ?d]"
    by (rule syncDepthStencilState_requests)
  moreover have "mCurDisableDepth s = Some True \<longrightarrow> \<not> depthTest ?d \<and> \<not> depthMask ?d"
    using modifiedGLState_props [of "the (mCurDisableDepth s)"] by auto
  moreover have "mCurDisableStencil s = Some True \<longrightarrow> \<not> stencilTest ?d"
    using modifiedGLState_props [of _ _ "the (mCurDisableStencil s)"] by auto
  moreover have "\<not> stencilTest ?d \<longrightarrow> stencilWritemask ?d = 0 \<and> stencilBackWritemask ?d = 0"
    using modifiedGLState_props by blast
  ultimately show "\<exists>d. rendererRequests (snd (syncDepthStencilState renderer glState s)) =
            rendererRequests s @ [GetDepthStencilState d] \<and>
          (mCurDisableDepth s = Some True \<longrightarrow> \<not> depthTest d \<and> \<not> depthMask d) \<and>
          (mCurDisableStencil s = Some True \<longrightarrow> \<not> stencilTest d) \<and>
          (\<not> stencilTest d \<longrightarrow> stencilWritemask d = 0 \<and> stencilBackWritemask d = 0)"
    by blast
qed (simp_all add: processFramebufferInvalidation_flags)


theorem syncDepthStencilState_overrides_witness:
  "mRenderTargetIsDirty initialState \<and>
   mCurDisableDepth (processFramebufferInvalidation
       (exampleContext (exampleFramebuffer 1 (exampleAttachment GL_TEXTURE 64 64) 50))
       initialState) = Some True \<and>
   mCurDisableStencil (processFramebufferInvalidation
       (exampleContext (exampleFramebuffer 1 (exampleAttachment GL_TEXTURE 64 64) 50))
       initialState) = Some False \<and>
   syncDepthStencilState_asserts exampleGLState
     (processFramebufferInvalidation
        (exampleContext (exampleFramebuffer 1 (exampleAttachment GL_TEXTURE 64 64) 50))
        initialState) \<and>
   (\<exists>d. rendererRequests (snd (syncDepthStencilState exampleRenderer exampleGLState
            (processFramebufferInvalidation
               (exampleContext (exampleFramebuffer 1 (exampleAttachment GL_TEXTURE 64 64) 50))
               initialState))) =
         rendererRequests (processFramebufferInvalidation
            (exampleContext (exampleFramebuffer 1 (exampleAttachment GL_TEXTURE 64 64) 50))
            initialState) @ [GetDepthStencilState d] \<and>
        \<not> depthTest d \<and> \<not> depthMask d)"
proof -
  let ?ctx = "exampleContext (exampleFramebuffer 1 (exampleAttachment GL_TEXTURE 64 64) 50)"
  let ?s = "processFramebufferInvalidation ?ctx initialState"
  have dirty: "mRenderTargetIsDirty initialState"
    by (simp add: initialState_def initialize_def StateManager11_new_def)
  have fb: "hasStencil (getDrawFramebuffer ?ctx) \<and> \<not> hasDepth (getDrawFramebuffer ?ctx)"
    by (simp add: exampleContext_def exampleFramebuffer_def)
  note t0 = syncDepthStencilState_overrides [of exampleGLState initialState exampleRenderer ?ctx]
  have flags: "mCurDisableDepth ?s = Some True \<and> mCurDisableStencil ?s = Some False"
    using t0 dirty fb by simp
  have asserts: "syncDepthStencilState_asserts exampleGLState ?s"
    using flags
    by (simp add: syncDepthStencilState_asserts_def Let_def exampleGLState_def
          exampleDepthStencilState_def)
  note t1 = syncDepthStencilState_overrides [of exampleGLState ?s exampleRenderer ?ctx]
  have req: "\<exists>d. rendererRequests (snd (syncDepthStencilState exampleRenderer exampleGLState ?s)) =
         rendererRequests ?s @ [GetDepthStencilState d] \<and> \<not> depthTest d \<and> \<not> depthMask d"
    using t1 asserts flags by blast
  from dirty flags asserts req show ?thesis by blast
qed

section \<open>Notifications\<close>

lemma keeps_refl [simp]: "notificationKeeps s s"
  by (simp add: notificationKeeps_def)

lemma keeps_trans: "notificationKeeps s s1 \<Longrightarrow> notificationKeeps s1 s2 \<Longrightarrow> notificationKeeps s s2"
  by (auto simp: notificationKeeps_def)

lemma keeps_setDirtyBit: "notificationKeeps s s1 \<Longrightarrow> notificationKeeps s (setDirtyBit b s1)"
  by (auto simp: notificationKeeps_def setDirtyBit_def)

lemma keeps_invalidateShaders:
  "notificationKeeps s s1 \<Longrightarrow> notificationKeeps s (invalidateShaders s1)"
  by (simp add: invalidateShaders_def keeps_setDirtyBit)

lemma keeps_invalidateDriverUniforms:
  "notificationKeeps s s1 \<Longrightarrow> notificationKeeps s (invalidateDriverUniforms s1)"
  by (simp add: invalidateDriverUniforms_def keeps_setDirtyBit)

lemma keeps_invalidateProgramUniforms:
  "notificationKeeps s s1 \<Longrightarrow> notificationKeeps s (invalidateProgramUniforms s1)"
  by (simp add: invalidateProgramUniforms_def keeps_setDirtyBit)

lemma keeps_invalidateProgramUniformBuffers:
  "notificationKeeps s s1 \<Longrightarrow> notificationKeeps s (invalidateProgramUniformBuffers s1)"
  by (simp add: invalidateProgramUniformBuffers_def keeps_setDirtyBit)

lemma keeps_invalidateInputLayout:
  "notificationKeeps s s1 \<Longrightarrow> notificationKeeps s (invalidateInputLayout s1)"
  by (simp add: invalidateInputLayout_def keeps_setDirtyBit)

lemma keeps_invalidateViewport:
  "notificationKeeps s s1 \<Longrightarrow> notificationKeeps s (invalidateViewport s1)"
  by (simp add: invalidateViewport_def keeps_setDirtyBit keeps_invalidateDriverUniforms)

lemma keeps_invalidateIndexBuffer:
  "notificationKeeps s s1 \<Longrightarrow> notificationKeeps s (invalidateIndexBuffer s1)"
  by (auto simp: notificationKeeps_def invalidateIndexBuffer_def)

lemma keeps_invalidateRenderTarget:
  "notificationKeeps s s1 \<Longrightarrow> notificationKeeps s (invalidateRenderTarget s1)"
  by (auto simp: notificationKeeps_def invalidateRenderTarget_def)

lemma keeps_invalidateSwizzles:
  "notificationKeeps s s1 \<Longrightarrow> notificationKeeps s (invalidateSwizzles s1)"
  by (auto simp: notificationKeeps_def invalidateSwizzles_def)

lemma keeps_invalidateTexturesAndSamplers:
  "notificationKeeps s s1 \<Longrightarrow> notificationKeeps s (invalidateTexturesAndSamplers s1)"
  by (simp add: invalidateTexturesAndSamplers_def keeps_setDirtyBit keeps_invalidateSwizzles
        keeps_invalidateDriverUniforms)

lemma keeps_invalidateTransformFeedback:
  "notificationKeeps s s1 \<Longrightarrow> notificationKeeps s (invalidateTransformFeedback s1)"
  by (simp add: invalidateTransformFeedback_def keeps_setDirtyBit keeps_invalidateShaders)

lemma keeps_field_update:
  "notificationKeeps s s1 \<Longrightarrow>
   notificationKeeps s (s1\<lparr> mDirtyVertexBufferRange := r \<rparr>) \<and>
   notificationKeeps s (s1\<lparr> mViewportOffsets := v \<rparr>) \<and>
   notificationKeeps s (s1\<lparr> mShaderConstants := c \<rparr>)"
  by (auto simp: notificationKeeps_def)

lemma keeps_invalidateVertexBuffer:
  "notificationKeeps s s1 \<Longrightarrow> notificationKeeps s (invalidateVertexBuffer renderer s1)"
  by (simp add: invalidateVertexBuffer_def Let_def keeps_setDirtyBit keeps_invalidateShaders
        keeps_invalidateInputLayout keeps_field_update)

lemma keeps_invalidateCurrentValueAttrib:
  "notificationKeeps s s1 \<Longrightarrow> notificationKeeps s (invalidateCurrentValueAttrib i s1)"
proof -
  assume k: "notificationKeeps s s1"
  have "notificationKeeps s
          (s1\<lparr> mDirtyCurrentValueAttribs := insert i (mDirtyCurrentValueAttribs s1) \<rparr>)"
    using k by (auto simp: notificationKeeps_def)
  thus ?thesis
    by (simp add: invalidateCurrentValueAttrib_def keeps_setDirtyBit keeps_invalidateShaders
          keeps_invalidateInputLayout)
qed

lemma keeps_currentValues:
  "notificationKeeps s s1 \<Longrightarrow>
   notificationKeeps s (foldl (\<lambda>s' attribIndex. invalidateCurrentValueAttrib attribIndex s') s1 xs)"
  by (induction xs arbitrary: s1) (simp_all add: keeps_invalidateCurrentValueAttrib)

lemma keeps_handleMultiview:
  "notificationKeeps s s1 \<Longrightarrow>
   notificationKeeps s (handleMultiviewDrawFramebufferChange context s1)"
  by (simp add: handleMultiviewDrawFramebufferChange_def Let_def keeps_setDirtyBit
        keeps_invalidateViewport keeps_field_update)

lemmas keeps_intros = keeps_setDirtyBit keeps_invalidateShaders keeps_invalidateDriverUniforms
  keeps_invalidateProgramUniforms keeps_invalidateProgramUniformBuffers
  keeps_invalidateInputLayout keeps_invalidateViewport keeps_invalidateIndexBuffer
  keeps_invalidateRenderTarget keeps_invalidateSwizzles keeps_invalidateTexturesAndSamplers
  keeps_invalidateTransformFeedback keeps_invalidateVertexBuffer keeps_currentValues
  keeps_handleMultiview

lemma keeps_vertexArrayBinding:
  "notificationKeeps s s1 \<Longrightarrow>
   notificationKeeps s
     (invalidateIndexBuffer
        ((invalidateVertexBuffer renderer s1)\<lparr> mDirtyCurrentValueAttribs := {..< MAX_VERTEX_ATTRIBS} \<rparr>))"
proof -
  assume "notificationKeeps s s1"
  hence "notificationKeeps s (invalidateVertexBuffer renderer s1)"
    by (rule keeps_invalidateVertexBuffer)
  hence "notificationKeeps s
           ((invalidateVertexBuffer renderer s1)\<lparr> mDirtyCurrentValueAttribs := {..< MAX_VERTEX_ATTRIBS} \<rparr>)"
    by (simp add: notificationKeeps_def)
  thus ?thesis by (rule keeps_invalidateIndexBuffer)
qed

lemma keeps_syncState_bit: "notificationKeeps s (syncState_bit context s dirtyBit)"
  by (cases dirtyBit)
     (simp_all add: syncState_bit_def Let_def keeps_intros keeps_vertexArrayBinding)

lemma keeps_syncState: "notificationKeeps s (syncState context dirtyBits s)"
  unfolding syncState_def
proof (induction dirtyBits arbitrary: s)
  case Nil
  show ?case by simp
next
  case (Cons b bs)
  have "notificationKeeps s (syncState_bit context s b)" by (rule keeps_syncState_bit)
  moreover have "notificationKeeps (syncState_bit context s b)
                   (foldl (syncState_bit context) (syncState_bit context s b) bs)"
    by (rule Cons.IH)
  ultimately show ?case by (simp add: keeps_trans)
qed

lemma syncState_append:
  "syncState context (xs @ ys) s = syncState context ys (syncState context xs s)"
  by (simp add: syncState_def)

lemma syncState_Cons:
  "syncState context (b # bs) s = syncState context bs (syncState_bit context s b)"
  by (simp add: syncState_def)

lemma discard_bit:
  "rasterizerDiscard (getRasterizerState (getGLState context)) \<noteq>
     rasterizerDiscard (mCurRasterState s) \<Longrightarrow>
   {DIRTY_BIT_RASTERIZER_STATE, DIRTY_BIT_SHADERS} \<subseteq>
     mInternalDirtyBits (syncState_bit context s State_DIRTY_BIT_RASTERIZER_DISCARD_ENABLED)"
  by (simp add: syncState_bit_def Let_def invalidateShaders_def setDirtyBit_def)

lemma vertexArray_bit:
  "{DIRTY_BIT_VERTEX_BUFFERS_AND_INPUT_LAYOUT, DIRTY_BIT_CURRENT_VALUE_ATTRIBS} \<subseteq>
     mInternalDirtyBits (syncState_bit context s State_DIRTY_BIT_VERTEX_ARRAY_BINDING) \<and>
   {..< MAX_VERTEX_ATTRIBS} \<subseteq>
     mDirtyCurrentValueAttribs (syncState_bit context s State_DIRTY_BIT_VERTEX_ARRAY_BINDING) \<and>
   mIndexBufferIsDirty (syncState_bit context s State_DIRTY_BIT_VERTEX_ARRAY_BINDING)"
  by (simp add: syncState_bit_def Let_def invalidateIndexBuffer_def invalidateVertexBuffer_def
        invalidateShaders_def invalidateInputLayout_def setDirtyBit_def)

text \<open>
  Claim C6 (dirty cascade). In a call of \<^verbatim>\<open>syncState\<close>, whatever other notifications it
  carries: a rasterizer discard notification with a value that differs from the cached
  one leaves the dirty bits of the rasterizer state and of the shaders set; a vertex
  array binding notification leaves the dirty bits of the vertex buffers and of the
  current value attributes set, every current value attribute marked, and the index
  buffer dirty.
\<close>

theorem syncState_dirty_cascade:
  "(State_DIRTY_BIT_RASTERIZER_DISCARD_ENABLED \<in> set dirtyBits \<and>
    rasterizerDiscard (getRasterizerState (getGLState context)) \<noteq>
      rasterizerDiscard (mCurRasterState s) \<longrightarrow>
      {DIRTY_BIT_RASTERIZER_STATE, DIRTY_BIT_SHADERS} \<subseteq>
        mInternalDirtyBits (syncState context dirtyBits s)) \<and>
   (State_DIRTY_BIT_VERTEX_ARRAY_BINDING \<in> set dirtyBits \<longrightarrow>
      {DIRTY_BIT_VERTEX_BUFFERS_AND_INPUT_LAYOUT, DIRTY_BIT_CURRENT_VALUE_ATTRIBS} \<subseteq>
        mInternalDirtyBits (syncState context dirtyBits s) \<and>
      {..< MAX_VERTEX_ATTRIBS} \<subseteq> mDirtyCurrentValueAttribs (syncState context dirtyBits s) \<and>
      mIndexBufferIsDirty (syncState context dirtyBits s))"
proof (rule conjI; rule impI)
  assume a: "State_DIRTY_BIT_RASTERIZER_DISCARD_ENABLED \<in> set dirtyBits \<and>
    rasterizerDiscard (getRasterizerState (getGLState context)) \<noteq>
      rasterizerDiscard (mCurRasterState s)"
  then obtain xs ys where split: "dirtyBits = xs @ [State_DIRTY_BIT_RASTERIZER_DISCARD_ENABLED] @ ys"
    by (metis append_Cons append_Nil split_list)
  let ?s1 = "syncState context xs s"
  let ?s2 = "syncState_bit context ?s1 State_DIRTY_BIT_RASTERIZER_DISCARD_ENABLED"
  have "notificationKeeps s ?s1" by (rule keeps_syncState)
  hence "mCurRasterState ?s1 = mCurRasterState s" by (simp add: notificationKeeps_def)
  with a have "{DIRTY_BIT_RASTERIZER_STATE, DIRTY_BIT_SHADERS} \<subseteq> mInternalDirtyBits ?s2"
    using discard_bit [of "context" ?s1] by simp
  moreover have "notificationKeeps ?s2 (syncState context ys ?s2)" by (rule keeps_syncState)
  moreover have "syncState context dirtyBits s = syncState context ys ?s2"
    by (simp add: split syncState_append syncState_Cons)
  ultimately show "{DIRTY_BIT_RASTERIZER_STATE, DIRTY_BIT_SHADERS} \<subseteq>
        mInternalDirtyBits (syncState context dirtyBits s)"
    unfolding notificationKeeps_def by auto
next
  assume "State_DIRTY_BIT_VERTEX_ARRAY_BINDING \<in> set dirtyBits"
  then obtain xs ys where split: "dirtyBits = xs @ [State_DIRTY_BIT_VERTEX_ARRAY_BINDING] @ ys"
    by (metis append_Cons append_Nil split_list)
  let ?s2 = "syncState_bit context (syncState context xs s) State_DIRTY_BIT_VERTEX_ARRAY_BINDING"
  note v = vertexArray_bit [of "context" "syncState context xs s"]
  have k: "notificationKeeps ?s2 (syncState context ys ?s2)" by (rule keeps_syncState)
  have e: "syncState context dirtyBits s = syncState context ys ?s2"
    by (simp add: split syncState_append syncState_Cons)
  show "{DIRTY_BIT_VERTEX_BUFFERS_AND_INPUT_LAYOUT, DIRTY_BIT_CURRENT_VALUE_ATTRIBS} \<subseteq>
        mInternalDirtyBits (syncState context dirtyBits s) \<and>
      {..< MAX_VERTEX_ATTRIBS} \<subseteq> mDirtyCurrentValueAttribs (syncState context dirtyBits s) \<and>
      mIndexBufferIsDirty (syncState context dirtyBits s)"
    unfolding e using v k unfolding notificationKeeps_def by blast
qed

theorem syncState_dirty_cascade_witness:
  "State_DIRTY_BIT_RASTERIZER_DISCARD_ENABLED \<in>
     set [State_DIRTY_BIT_RASTERIZER_DISCARD_ENABLED, State_DIRTY_BIT_VERTEX_ARRAY_BINDING] \<and>
   rasterizerDiscard (getRasterizerState (getGLState
       ((exampleContext (exampleFramebuffer 1 (exampleAttachment GL_TEXTURE 64 64) 50))
          \<lparr> getGLState := exampleGLState
              \<lparr> getRasterizerState := exampleRasterizerState\<lparr> rasterizerDiscard := True \<rparr> \<rparr> \<rparr>)))
     \<noteq> rasterizerDiscard (mCurRasterState (initialState\<lparr> mInternalDirtyBits := {} \<rparr>)) \<and>
   State_DIRTY_BIT_VERTEX_ARRAY_BINDING \<in>
     set [State_DIRTY_BIT_RASTERIZER_DISCARD_ENABLED, State_DIRTY_BIT_VERTEX_ARRAY_BINDING] \<and>
   {DIRTY_BIT_RASTERIZER_STATE, DIRTY_BIT_SHADERS, DIRTY_BIT_VERTEX_BUFFERS_AND_INPUT_LAYOUT,
    DIRTY_BIT_CURRENT_VALUE_ATTRIBS} \<subseteq>
     mInternalDirtyBits (syncState
       ((exampleContext (exampleFramebuffer 1 (exampleAttachment GL_TEXTURE 64 64) 50))
          \<lparr> getGLState := exampleGLState
              \<lparr> getRasterizerState := exampleRasterizerState\<lparr> rasterizerDiscard := True \<rparr> \<rparr> \<rparr>)
       [State_DIRTY_BIT_RASTERIZER_DISCARD_ENABLED, State_DIRTY_BIT_VERTEX_ARRAY_BINDING]
       (initialState\<lparr> mInternalDirtyBits := {} \<rparr>)) \<and>
   mIndexBufferIsDirty (syncState
       ((exampleContext (exampleFramebuffer 1 (exampleAttachment GL_TEXTURE 64 64) 50))
          \<lparr> getGLState := exampleGLState
              \<lparr> getRasterizerState := exampleRasterizerState\<lparr> rasterizerDiscard := True \<rparr> \<rparr> \<rparr>)
       [State_DIRTY_BIT_RASTERIZER_DISCARD_ENABLED, State_DIRTY_BIT_VERTEX_ARRAY_BINDING]
       (initialState\<lparr> mInternalDirtyBits := {} \<rparr>))"
proof -
  let ?ctx = "(exampleContext (exampleFramebuffer 1 (exampleAttachment GL_TEXTURE 64 64) 50))
          \<lparr> getGLState := exampleGLState
              \<lparr> getRasterizerState := exampleRasterizerState\<lparr> rasterizerDiscard := True \<rparr> \<rparr> \<rparr>"
  let ?s = "initialState\<lparr> mInternalDirtyBits := {} \<rparr>"
  let ?bits = "[State_DIRTY_BIT_RASTERIZER_DISCARD_ENABLED, State_DIRTY_BIT_VERTEX_ARRAY_BINDING]"
  have h1: "State_DIRTY_BIT_RASTERIZER_DISCARD_ENABLED \<in> set ?bits" by simp
  have h2: "rasterizerDiscard (getRasterizerState (getGLState ?ctx)) \<noteq>
            rasterizerDiscard (mCurRasterState ?s)"
    by (simp add: initialState_def initialize_def StateManager11_new_def)
  have h3: "State_DIRTY_BIT_VERTEX_ARRAY_BINDING \<in> set ?bits" by simp
  note t = syncState_dirty_cascade [of ?bits ?ctx ?s]
  have c1: "{DIRTY_BIT_RASTERIZER_STATE, DIRTY_BIT_SHADERS} \<subseteq>
              mInternalDirtyBits (syncState ?ctx ?bits ?s)"
    using t h1 h2 by blast
  have c2: "{DIRTY_BIT_VERTEX_BUFFERS_AND_INPUT_LAYOUT, DIRTY_BIT_CURRENT_VALUE_ATTRIBS} \<subseteq>
              mInternalDirtyBits (syncState ?ctx ?bits ?s) \<and>
            mIndexBufferIsDirty (syncState ?ctx ?bits ?s)"
    using t h3 by blast
  from h1 h2 h3 c1 c2 show ?thesis by blast
qed

section \<open>Render targets against shader inputs\<close>

lemma getSRVCache_setSRVCache [simp]:
  "getSRVCache st (setSRVCache st' c s) = (if st = st' then c else getSRVCache st s)"
  by (cases st; cases st') (simp_all add: getSRVCache_def setSRVCache_def)

lemma getSRVCache_deviceCall [simp]: "getSRVCache st (deviceCall c s) = getSRVCache st s"
  by (cases st) (simp_all add: getSRVCache_def deviceCall_def)







lemma unbindIf_False [simp]: "map (unbindIf (\<lambda>rec. False)) views = views"
  by (rule map_idI) (simp add: unbindIf_def)

lemma unbindCalls_False [simp]: "unbindCalls st (\<lambda>rec. False) views = []"
  by (simp add: unbindCalls_def)






lemma attachmentConflicts_unbound [simp]: "\<not> attachmentConflicts a res (unbound rec)"
  by (simp add: attachmentConflicts_def unbound_def)





lemma anyConflict_Nil [simp]: "anyConflict [] = (\<lambda>r. False)"
  by (rule ext) (simp add: anyConflict_def)










lemma take_one_rtv: "take (Suc 0) ((replicate 8 (0::nat))[0 := v]) = [v]"
  by (simp add: eval_nat_numeral)





section \<open>The pass\<close>

lemma pc_update:
  "passControl (s\<lparr> deviceContext := v0 \<rparr>) = passControl s"
  "passControl (s\<lparr> rendererRequests := v1 \<rparr>) = passControl s"
  "passControl (s\<lparr> mCurBlendState := v2 \<rparr>) = passControl s"
  "passControl (s\<lparr> mCurBlendColor := v3 \<rparr>) = passControl s"
  "passControl (s\<lparr> mCurDepthStencilState := v4 \<rparr>) = passControl s"
  "passControl (s\<lparr> mCurStencilRef := v5 \<rparr>) = passControl s"
  "passControl (s\<lparr> mCurStencilBackRef := v6 \<rparr>) = passControl s"
  "passControl (s\<lparr> mCurRasterState := v7 \<rparr>) = passControl s"
  "passControl (s\<lparr> mCurScissorEnabled := v8 \<rparr>) = passControl s"
  "passControl (s\<lparr> mCurScissorRect := v9 \<rparr>) = passControl s"
  "passControl (s\<lparr> mCurViewport := v10 \<rparr>) = passControl s"
  "passControl (s\<lparr> mCurNear := v11 \<rparr>) = passControl s"
  "passControl (s\<lparr> mCurFar := v12 \<rparr>) = passControl s"
  "passControl (s\<lparr> mDirtyCurrentValueAttribs := v13 \<rparr>) = passControl s"
  "passControl (s\<lparr> mCurrentValueAttribs := v14 \<rparr>) = passControl s"
  "passControl (s\<lparr> mCurrentInputLayout := v15 \<rparr>) = passControl s"
  "passControl (s\<lparr> mDirtyVertexBufferRange := v16 \<rparr>) = passControl s"
  "passControl (s\<lparr> mCurrentVertexBuffers := v17 \<rparr>) = passControl s"
  "passControl (s\<lparr> mCurrentVertexStrides := v18 \<rparr>) = passControl s"
  "passControl (s\<lparr> mCurrentVertexOffsets := v19 \<rparr>) = passControl s"
  "passControl (s\<lparr> mCurrentPrimitiveTopology := v20 \<rparr>) = passControl s"
  "passControl (s\<lparr> mCurrentMinimumDrawCount := v21 \<rparr>) = passControl s"
  "passControl (s\<lparr> mAppliedIB := v22 \<rparr>) = passControl s"
  "passControl (s\<lparr> mAppliedIBFormat := v23 \<rparr>) = passControl s"
  "passControl (s\<lparr> mAppliedIBOffset := v24 \<rparr>) = passControl s"
  "passControl (s\<lparr> mCurVertexSRVs := v25 \<rparr>) = passControl s"
  "passControl (s\<lparr> mCurPixelSRVs := v26 \<rparr>) = passControl s"
  "passControl (s\<lparr> mCurComputeSRVs := v27 \<rparr>) = passControl s"
  "passControl (s\<lparr> mForceSetVertexSamplerStates := v28 \<rparr>) = passControl s"
  "passControl (s\<lparr> mForceSetPixelSamplerStates := v29 \<rparr>) = passControl s"
  "passControl (s\<lparr> mForceSetComputeSamplerStates := v30 \<rparr>) = passControl s"
  "passControl (s\<lparr> mCurVertexSamplerStates := v31 \<rparr>) = passControl s"
  "passControl (s\<lparr> mCurPixelSamplerStates := v32 \<rparr>) = passControl s"
  "passControl (s\<lparr> mCurComputeSamplerStates := v33 \<rparr>) = passControl s"
  "passControl (s\<lparr> mShaderConstants := v34 \<rparr>) = passControl s"
  "passControl (s\<lparr> mAppliedVertexShader := v35 \<rparr>) = passControl s"
  "passControl (s\<lparr> mAppliedGeometryShader := v36 \<rparr>) = passControl s"
  "passControl (s\<lparr> mAppliedPixelShader := v37 \<rparr>) = passControl s"
  "passControl (s\<lparr> mCurrentConstantBufferVS := v38 \<rparr>) = passControl s"
  "passControl (s\<lparr> mCurrentConstantBufferVSOffset := v39 \<rparr>) = passControl s"
  "passControl (s\<lparr> mCurrentConstantBufferVSSize := v40 \<rparr>) = passControl s"
  "passControl (s\<lparr> mCurrentConstantBufferPS := v41 \<rparr>) = passControl s"
  "passControl (s\<lparr> mCurrentConstantBufferPSOffset := v42 \<rparr>) = passControl s"
  "passControl (s\<lparr> mCurrentConstantBufferPSSize := v43 \<rparr>) = passControl s"
  "passControl (s\<lparr> mCurrentGeometryConstantBuffer := v44 \<rparr>) = passControl s"
  "passControl (s\<lparr> mDriverConstantBufferVS := v45 \<rparr>) = passControl s"
  "passControl (s\<lparr> mDriverConstantBufferPS := v46 \<rparr>) = passControl s"
  "passControl (s\<lparr> mPointSpriteVertexBuffer := v47 \<rparr>) = passControl s"
  "passControl (s\<lparr> mPointSpriteIndexBuffer := v48 \<rparr>) = passControl s"
  "passControl (s\<lparr> mAppliedTFSerial := v49 \<rparr>) = passControl s"
  "passControl (s\<lparr> mCurrentAttributes := v50 \<rparr>) = passControl s"
  "passControl (s\<lparr> mBindingsVS := v51 \<rparr>) = passControl s"
  "passControl (s\<lparr> mBindingsPS := v52 \<rparr>) = passControl s"
  by (simp_all add: passControl_def)

lemma pc_ANGLE_TRY:
  assumes "passControl (snd r) = c"
    and "\<And>s'. passControl (snd (k s')) = passControl s'"
  shows "passControl (snd (ANGLE_TRY r k)) = c"
  using assms by (simp add: ANGLE_TRY_def)

lemma pc_forEachTry:
  assumes "\<And>x s'. passControl (snd (f x s')) = passControl s'"
  shows "passControl (snd (forEachTry f xs s)) = passControl s"
proof (induction xs arbitrary: s)
  case Nil
  show ?case by simp
next
  case (Cons x xs)
  show ?case
    by (simp add: ANGLE_TRY_def assms Cons.IH)
qed

lemma pc_deviceCall [simp]: "passControl (deviceCall c s) = passControl s"
  by (simp add: deviceCall_def pc_update)

lemma pc_rendererRequest [simp]: "passControl (rendererRequest r s) = passControl s"
  by (simp add: rendererRequest_def pc_update)

lemma pc_setSRVCache [simp]: "passControl (setSRVCache st c s) = passControl s"
  by (cases st) (simp_all add: setSRVCache_def pc_update)

lemma pc_setShaderResourceInternal [simp]:
  "passControl (setShaderResourceInternal st i srv s) = passControl s"
  by (simp add: setShaderResourceInternal_def Let_def)

lemma pc_clearSRVs [simp]: "passControl (snd (clearSRVs st a b s)) = passControl s"
  by (simp add: clearSRVs_def Let_def)

lemma pc_unsetConflictingSRVs_fold:
  "passControl (snd (foldl (unsetConflictingSRVs_step st res index) acc xs)) =
     passControl (snd acc)"
  by (induction xs arbitrary: acc) (simp_all add: unsetConflictingSRVs_step_def Let_def)

lemma pc_unsetConflictingSRVs [simp]:
  "passControl (snd (unsetConflictingSRVs st res index s)) = passControl s"
  by (simp add: unsetConflictingSRVs_def pc_unsetConflictingSRVs_fold)

lemma pc_unsetConflictingAttachmentResources [simp]:
  "passControl (unsetConflictingAttachmentResources a res s) = passControl s"
  by (simp add: unsetConflictingAttachmentResources_def Let_def)

lemma pc_syncFramebuffer_fold:
  "passControl (snd (snd (snd (foldl (syncFramebuffer_step skip outs fb) acc xs)))) =
     passControl (snd (snd (snd acc)))"
proof (induction xs arbitrary: acc)
  case Nil
  show ?case by simp
next
  case (Cons x xs)
  have "passControl (snd (snd (snd (syncFramebuffer_step skip outs fb acc x)))) =
        passControl (snd (snd (snd acc)))"
    by (cases acc) (simp add: syncFramebuffer_step_def Let_def split: option.splits prod.splits)
  thus ?case by (simp add: Cons.IH)
qed

lemma pc_syncFramebuffer [simp]:
  "passControl (snd (syncFramebuffer renderer program fb s)) = passControl s"
proof -
  let ?acc = "foldl (syncFramebuffer_step (mrtPerfWorkaround renderer)
                       (getActiveOutputVariables program) fb)
                (replicate D3D11_SIMULTANEOUS_RENDER_TARGET_COUNT 0, 0, 0, s)
                [0 ..< length (getCachedColorRenderTargets fb)]"
  have "passControl (snd (snd (snd ?acc))) = passControl s"
    by (simp add: pc_syncFramebuffer_fold)
  thus ?thesis
    by (cases ?acc)
       (simp add: syncFramebuffer_def Let_def split: option.splits prod.splits)
qed

lemma pc_syncViewport [simp]: "passControl (syncViewport context s) = passControl s"
  by (simp add: syncViewport_def Let_def pc_update split: prod.splits)

lemma pc_syncScissorRectangle [simp]:
  "passControl (syncScissorRectangle scissor enabled s) = passControl s"
  by (simp add: syncScissorRectangle_def Let_def pc_update)

lemma pc_syncRasterizerState [simp]:
  "passControl (snd (syncRasterizerState context drawCallParams s)) = passControl s"
  by (simp add: syncRasterizerState_def Let_def pc_update split: prod.splits)

lemma pc_syncDepthStencilState [simp]:
  "passControl (snd (syncDepthStencilState renderer glState s)) = passControl s"
  by (simp add: syncDepthStencilState_def Let_def pc_update split: prod.splits)

lemma pc_syncBlendState:
  "passControl (snd (syncBlendState renderer blendState blendColor sampleMask s)) =
     (if fst (syncBlendState renderer blendState blendColor sampleMask s) = NoError
      then (fst (passControl s),
            (mLastFirstVertex s, mLastAppliedDrawMode s, sampleMask))
      else passControl s)"
  by (simp add: syncBlendState_def Let_def passControl_def rendererRequest_def deviceCall_def
        split: prod.splits)

lemma pc_setSamplerState [simp]:
  "passControl (snd (setSamplerState renderer type index texture samplerState s)) =
     passControl s"
proof -
  have applied: "passControl (snd
      (if c then (let s1 = rendererRequest (GetSamplerState samplerState) s;
                       (err, dxSamplerState) = rendererGetSamplerState renderer samplerState
                   in if err \<noteq> NoError then (err, s1)
                      else
                        (let s2 = deviceCall
                                    (SetSamplers (stage_of type) index 1 [dxSamplerState]) s1
                         in (NoError,
                             (case type of
                                Fragment \<Rightarrow>
                                  s2\<lparr> mCurPixelSamplerStates :=
                                        (mCurPixelSamplerStates s2)[index := samplerState] \<rparr>
                              | Vertex \<Rightarrow>
                                  s2\<lparr> mCurVertexSamplerStates :=
                                        (mCurVertexSamplerStates s2)[index := samplerState] \<rparr>
                              | Compute \<Rightarrow>
                                  s2\<lparr> mCurComputeSamplerStates :=
                                        (mCurComputeSamplerStates s2)[index := samplerState] \<rparr>))))
             else (NoError, s))) = passControl s" for c
    by (cases type) (simp_all add: Let_def pc_update split: prod.splits)
  show ?thesis
    unfolding setSamplerState_def Let_def
    apply (rule pc_ANGLE_TRY)
     apply (rule applied [unfolded Let_def])
    apply (cases type)
      apply (simp_all add: pc_update)
    done
qed

lemma pc_setTexture [simp]:
  "passControl (snd (setTexture type index texture s)) = passControl s"
  by (simp add: setTexture_def split: option.splits)

lemma pc_applyTextures_sampler [simp]:
  "passControl (snd (applyTextures_sampler renderer shaderType p s)) = passControl s"
  by (simp add: applyTextures_sampler_def Let_def ANGLE_TRY_def split: option.splits prod.splits)

lemma pc_applyTextures [simp]:
  "passControl (snd (applyTextures context programD3D shaderType s)) = passControl s"
  by (simp add: applyTextures_def Let_def ANGLE_TRY_def pc_forEachTry)

lemma pc_syncTextures [simp]:
  "passControl (snd (syncTextures context programD3D s)) = passControl s"
  by (simp add: syncTextures_def ANGLE_TRY_def)

lemma pc_generateSwizzle [simp]:
  "snd (generateSwizzle texture s) = s"
  by (simp add: generateSwizzle_def split: option.splits)

lemma generateSwizzlesForShader_state [simp]:
  "snd (generateSwizzlesForShader programD3D type s) = s"
proof -
  have "snd (forEachTry
       (\<lambda>b s'. case getSamplerTexture b of
                  Some texture \<Rightarrow>
                    (if tex_swizzleRequired texture then generateSwizzle (Some texture) s'
                     else (NoError, s'))
                | None \<Rightarrow> (NoError, s')) xs s) = s" for xs
    by (induction xs) (simp_all add: ANGLE_TRY_def split: option.splits)
  thus ?thesis by (simp add: generateSwizzlesForShader_def)
qed

lemma generateSwizzles_state [simp]: "snd (generateSwizzles programD3D s) = s"
  by (simp add: generateSwizzles_def ANGLE_TRY_def)

lemma pc_applyUniforms [simp]:
  "passControl (snd (snd (applyUniforms programD3D s))) = passControl s"
  by (simp add: applyUniforms_def Let_def pc_update split: prod.splits)

lemma pc_updateDriverBuffer [simp]:
  "passControl (snd (updateDriverBuffer renderer programD3D shaderType b s)) = passControl s"
  by (simp add: updateDriverBuffer_def Let_def pc_update split: prod.splits)

lemma pc_applyDriverUniforms [simp]:
  "passControl (snd (applyDriverUniforms renderer programD3D s)) = passControl s"
  unfolding applyDriverUniforms_def
  apply (rule pc_ANGLE_TRY)
   apply (simp add: pc_update split: option.splits prod.splits)
  apply (rule pc_ANGLE_TRY)
   apply (simp add: pc_update split: option.splits prod.splits)
  apply (rule pc_ANGLE_TRY)
   apply simp
  apply (rule pc_ANGLE_TRY)
   apply simp
  apply (simp add: Let_def pc_update)
  done

lemma pc_syncUniformBuffers_vertex [simp]:
  "passControl (snd (syncUniformBuffers_vertex r p s)) = passControl s"
  by (simp add: syncUniformBuffers_vertex_def Let_def pc_update split: prod.splits)

lemma pc_syncUniformBuffers_fragment [simp]:
  "passControl (snd (syncUniformBuffers_fragment r p s)) = passControl s"
  by (simp add: syncUniformBuffers_fragment_def Let_def pc_update split: prod.splits)

lemma pc_syncUniformBuffers [simp]:
  "passControl (snd (syncUniformBuffers context programD3D s)) = passControl s"
  by (simp add: syncUniformBuffers_def Let_def ANGLE_TRY_def pc_forEachTry pc_update)

lemma pc_syncCurrentValueAttribs_attrib [simp]:
  "passControl (snd (syncCurrentValueAttribs_attrib context i s)) = passControl s"
  by (simp add: syncCurrentValueAttribs_attrib_def Let_def pc_update split: prod.splits)

lemma pc_syncCurrentValueAttribs [simp]:
  "passControl (snd (syncCurrentValueAttribs context programD3D s)) = passControl s"
  by (simp add: syncCurrentValueAttribs_def Let_def pc_forEachTry pc_update)

lemma pc_setInputLayoutInternal [simp]:
  "passControl (snd (setInputLayoutInternal l s)) = passControl s"
  by (simp add: setInputLayoutInternal_def pc_update split: option.splits)

lemma pc_queueVertexBufferChange [simp]:
  "passControl (snd (queueVertexBufferChange i b st off s)) = passControl s"
  by (simp add: queueVertexBufferChange_def pc_update)

lemma pc_applyVertexBufferChanges [simp]:
  "passControl (applyVertexBufferChanges s) = passControl s"
  by (simp add: applyVertexBufferChanges_def Let_def pc_update)

lemma pc_syncIndexBuffer [simp]:
  "passControl (snd (syncIndexBuffer b f off s)) = passControl s"
  by (simp add: syncIndexBuffer_def pc_update)

lemma pc_applyVertexBuffers_attrib [simp]:
  "passControl (snd (applyVertexBuffers_attrib context dp a r i s)) = passControl s"
  by (simp add: applyVertexBuffers_attrib_def Let_def split: prod.splits)

lemma pc_applyVertexBuffers [simp]:
  "passControl (snd (applyVertexBuffers context programD3D drawCallParams s)) = passControl s"
  unfolding applyVertexBuffers_def Let_def
  apply (rule pc_ANGLE_TRY)
   apply (simp add: pc_forEachTry)
  apply (rule pc_ANGLE_TRY)
   apply (simp add: ANGLE_TRY_def pc_update split: option.splits prod.splits)
  apply simp
  done

lemma pc_syncVertexBuffersAndInputLayout [simp]:
  "passControl (snd (syncVertexBuffersAndInputLayout context programD3D drawCallParams s)) =
     passControl s"
  by (simp add: syncVertexBuffersAndInputLayout_def Let_def pc_update split: prod.splits)

lemma pc_syncTransformFeedbackBuffers [simp]:
  "passControl (snd (syncTransformFeedbackBuffers context s)) = passControl s"
  by (simp add: syncTransformFeedbackBuffers_def Let_def pc_update split: prod.splits)

lemma pc_setPrimitiveTopologyInternal [simp]:
  "passControl (snd (setPrimitiveTopologyInternal t s)) = passControl s"
  by (simp add: setPrimitiveTopologyInternal_def pc_update)

lemma pc_syncPrimitiveTopology [simp]:
  "passControl (syncPrimitiveTopology renderer glState programD3D m s) = passControl s"
  by (simp add: syncPrimitiveTopology_def Let_def pc_update)

lemma pc_setShader_bits:
  "passControl ((setVertexShader sh s)\<lparr> mInternalDirtyBits := {} \<rparr>) =
     passControl (s\<lparr> mInternalDirtyBits := {} \<rparr>)"
  "passControl ((setGeometryShader sh s)\<lparr> mInternalDirtyBits := {} \<rparr>) =
     passControl (s\<lparr> mInternalDirtyBits := {} \<rparr>)"
  "passControl ((setPixelShader sh s)\<lparr> mInternalDirtyBits := {} \<rparr>) =
     passControl (s\<lparr> mInternalDirtyBits := {} \<rparr>)"
  by (simp_all add: setVertexShader_def setGeometryShader_def setPixelShader_def
        invalidateShaders_def setDirtyBit_def deviceCall_def passControl_def)

lemma setShader_bits:
  "mInternalDirtyBits (setVertexShader sh s) \<subseteq> insert DIRTY_BIT_SHADERS (mInternalDirtyBits s)"
  "mInternalDirtyBits (setGeometryShader sh s) \<subseteq> insert DIRTY_BIT_SHADERS (mInternalDirtyBits s)"
  "mInternalDirtyBits (setPixelShader sh s) \<subseteq> insert DIRTY_BIT_SHADERS (mInternalDirtyBits s)"
  by (auto simp: setVertexShader_def setGeometryShader_def setPixelShader_def
        invalidateShaders_def setDirtyBit_def deviceCall_def)

lemma pc_bits_reset:
  "passControl (s\<lparr> mInternalDirtyBits := b \<rparr>) =
     ((b, snd (fst (passControl s))), snd (passControl s))"
  by (simp add: passControl_def)

lemma pc_bits: "mInternalDirtyBits s = fst (fst (passControl s))"
  by (simp add: passControl_def)

lemma pc_setDrawShaders:
  assumes "mInternalDirtyBits s = {}"
  shows "passControl ((setDrawShaders v g p s)
           \<lparr> mInternalDirtyBits := mInternalDirtyBits (setDrawShaders v g p s) - {DIRTY_BIT_SHADERS} \<rparr>)
         = passControl s"
proof -
  let ?s1 = "setVertexShader v s"
  let ?s2 = "setGeometryShader g ?s1"
  let ?s3 = "setPixelShader p ?s2"
  have b3: "mInternalDirtyBits ?s3 \<subseteq> {DIRTY_BIT_SHADERS}"
    using setShader_bits(1) [of v s] setShader_bits(2) [of g ?s1] setShader_bits(3) [of p ?s2]
      assms by blast
  hence e: "mInternalDirtyBits ?s3 - {DIRTY_BIT_SHADERS} = {}" by blast
  have "passControl (?s3\<lparr> mInternalDirtyBits := {} \<rparr>) = passControl (s\<lparr> mInternalDirtyBits := {} \<rparr>)"
    by (simp only: pc_setShader_bits)
  also have "\<dots> = passControl s"
    using assms by (simp add: passControl_def)
  finally show ?thesis by (simp add: setDrawShaders_def e)
qed

lemma pc_syncProgram:
  assumes "mInternalDirtyBits s = {}"
  shows "passControl (snd (syncProgram context programD3D s)) = passControl s"
  using pc_setDrawShaders [OF assms]
  by (simp add: syncProgram_def Let_def split: prod.splits)

lemma pc_syncDirtyBit:
  assumes "mInternalDirtyBits (snd w) = {}"
  shows "passControl (snd (snd (syncDirtyBit context dp sm b w))) =
           (if b = DIRTY_BIT_BLEND_STATE \<and> fst (syncDirtyBit context dp sm b w) = NoError
            then (fst (passControl (snd w)),
                  (mLastFirstVertex (snd w), mLastAppliedDrawMode (snd w), sm))
            else passControl (snd w))"
  using assms
  by (cases b) (simp_all add: syncDirtyBit_def Let_def pc_syncProgram pc_syncBlendState)

lemma program_syncDirtyBit:
  "fst (snd (syncDirtyBit context dp sm b w)) =
     (if b = DIRTY_BIT_PROGRAM_UNIFORMS \<and> fst (syncDirtyBit context dp sm b w) = NoError
      then markUniformsClean (fst w) else fst w)"
  by (cases b) (simp_all add: syncDirtyBit_def Let_def applyUniforms_def split: prod.splits)

lemma pf_setDirtyBit [simp]: "passFlags (setDirtyBit b s) = passFlags s"
  by (simp add: passFlags_def setDirtyBit_def)

lemma bits_setDirtyBit [simp]:
  "mInternalDirtyBits (setDirtyBit b s) = insert b (mInternalDirtyBits s)"
  by (simp add: setDirtyBit_def)

lemma pf_invalidate [simp]:
  "passFlags (invalidateShaders s) = passFlags s"
  "passFlags (invalidateDriverUniforms s) = passFlags s"
  "passFlags (invalidateInputLayout s) = passFlags s"
  "passFlags (invalidateViewport s) = passFlags s"
  by (simp_all add: invalidateShaders_def invalidateDriverUniforms_def invalidateInputLayout_def
        invalidateViewport_def)

lemma bits_invalidate:
  "mInternalDirtyBits s \<subseteq> mInternalDirtyBits (invalidateShaders s)"
  "mInternalDirtyBits s \<subseteq> mInternalDirtyBits (invalidateDriverUniforms s)"
  "mInternalDirtyBits s \<subseteq> mInternalDirtyBits (invalidateInputLayout s)"
  "mInternalDirtyBits s \<subseteq> mInternalDirtyBits (invalidateViewport s)"
  "mInternalDirtyBits s \<subseteq> mInternalDirtyBits (invalidateTexturesAndSamplers s)"
  by (auto simp: invalidateShaders_def invalidateDriverUniforms_def invalidateInputLayout_def
        invalidateViewport_def invalidateTexturesAndSamplers_def invalidateSwizzles_def)

lemma pf_invalidateTexturesAndSamplers:
  "passFlags (invalidateTexturesAndSamplers s) = passFlags (s\<lparr> mDirtySwizzles := True \<rparr>)"
  by (simp add: invalidateTexturesAndSamplers_def invalidateSwizzles_def passFlags_def
        invalidateDriverUniforms_def setDirtyBit_def)

lemma pf_checkPresentPath [simp]: "passFlags (checkPresentPath context s) = passFlags s"
  by (simp add: checkPresentPath_def Let_def passFlags_def invalidateViewport_def
        invalidateDriverUniforms_def setDirtyBit_def)

lemma bits_checkPresentPath:
  "mInternalDirtyBits s \<subseteq> mInternalDirtyBits (checkPresentPath context s)"
  by (auto simp: checkPresentPath_def Let_def invalidateViewport_def invalidateDriverUniforms_def)

lemma processFramebufferInvalidation_pass:
  "passFlags (processFramebufferInvalidation context s) =
     passFlags (s\<lparr> mRenderTargetIsDirty := False \<rparr>) \<and>
   mInternalDirtyBits s \<subseteq> mInternalDirtyBits (processFramebufferInvalidation context s)"
proof (cases "mRenderTargetIsDirty s")
  case False
  thus ?thesis by (simp add: processFramebufferInvalidation_def passFlags_def)
next
  case True
  define s1 where "s1 = setDirtyBit DIRTY_BIT_BLEND_STATE
                    (invalidateShaders
                       (setDirtyBit DIRTY_BIT_RENDER_TARGET (s\<lparr> mRenderTargetIsDirty := False \<rparr>)))"
  define fbo where "fbo = getDrawFramebuffer context"
  define s2 where "s2 = (if mCurDisableDepth s1 = None \<or> (\<not> hasDepth fbo \<and> hasStencil fbo) \<noteq> the (mCurDisableDepth s1) \<or>
                      mCurDisableStencil s1 = None \<or>
                      (hasDepth fbo \<and> \<not> hasStencil fbo) \<noteq> the (mCurDisableStencil s1)
                   then (setDirtyBit DIRTY_BIT_DEPTH_STENCIL_STATE s1)
                          \<lparr> mCurDisableDepth := Some (\<not> hasDepth fbo \<and> hasStencil fbo),
                            mCurDisableStencil := Some (hasDepth fbo \<and> \<not> hasStencil fbo) \<rparr>
                   else s1)"
  define s3 where "s3 = (if (getCachedSamples fbo \<noteq> 0) \<noteq> multiSample (mCurRasterState s2)
                   then (setDirtyBit DIRTY_BIT_RASTERIZER_STATE s2)
                          \<lparr> mCurRasterState :=
                              (mCurRasterState s2)\<lparr> multiSample := (getCachedSamples fbo \<noteq> 0) \<rparr> \<rparr>
                   else s2)"
  define s4 where "s4 = checkPresentPath context s3"
  let ?s0 = "s\<lparr> mRenderTargetIsDirty := False \<rparr>"
  have f1: "passFlags s1 = passFlags ?s0 \<and> mInternalDirtyBits s \<subseteq> mInternalDirtyBits s1"
    unfolding s1_def by (auto simp: invalidateShaders_def)
  have f2: "passFlags s2 = passFlags s1 \<and> mInternalDirtyBits s1 \<subseteq> mInternalDirtyBits s2"
    unfolding s2_def by (auto simp: passFlags_def setDirtyBit_def)
  have f3: "passFlags s3 = passFlags s2 \<and> mInternalDirtyBits s2 \<subseteq> mInternalDirtyBits s3"
    unfolding s3_def by (auto simp: passFlags_def setDirtyBit_def)
  have f4: "passFlags s4 = passFlags s3 \<and> mInternalDirtyBits s3 \<subseteq> mInternalDirtyBits s4"
    unfolding s4_def using bits_checkPresentPath by simp
  have f: "passFlags s4 = passFlags ?s0 \<and> mInternalDirtyBits s \<subseteq> mInternalDirtyBits s4"
    using f1 f2 f3 f4 by (metis subset_trans)
  have eq: "processFramebufferInvalidation context s =
       (if featureLevel_le_9_3 (getRenderer context)
            then (case getFirstNonNullAttachment fbo of
                    Some firstAttachment \<Rightarrow>
                      (let sz = getSize firstAttachment
                       in if ext_width (mViewportBounds s4) \<noteq> ext_width sz \<or>
                             ext_height (mViewportBounds s4) \<noteq> ext_height sz
                          then invalidateViewport
                                 (s4\<lparr> mViewportBounds :=
                                        \<lparr> ext_width = ext_width sz, ext_height = ext_height sz,
                                          ext_depth = 1 \<rparr> \<rparr>)
                          else s4)
                  | None \<Rightarrow> s4)
            else s4)"
    using True unfolding processFramebufferInvalidation_def Let_def s4_def s3_def s2_def s1_def fbo_def
    by simp
  have v: "passFlags (invalidateViewport (s4\<lparr> mViewportBounds := b \<rparr>)) = passFlags s4 \<and>
           mInternalDirtyBits s4 \<subseteq> mInternalDirtyBits (invalidateViewport (s4\<lparr> mViewportBounds := b \<rparr>))"
    for b
    by (auto simp: invalidateViewport_def invalidateDriverUniforms_def setDirtyBit_def
          passFlags_def)
  show ?thesis
    unfolding eq using f v
    by (auto simp: Let_def split: option.splits)
qed

lemma applyIndexBuffer_pass:
  "mInternalDirtyBits (snd (applyIndexBuffer context s)) = mInternalDirtyBits s \<and>
   passFlags ((snd (applyIndexBuffer context s))\<lparr> mIndexBufferIsDirty := False \<rparr>) =
     passFlags (s\<lparr> mIndexBufferIsDirty := False \<rparr>) \<and>
   (fst (applyIndexBuffer context s) = NoError \<longrightarrow>
      \<not> mIndexBufferIsDirty (snd (applyIndexBuffer context s)))"
  by (simp add: applyIndexBuffer_def Let_def syncIndexBuffer_def deviceCall_def passFlags_def
        split: prod.splits)

lemma applyIndexBuffer_clean:
  "\<not> mIndexBufferIsDirty s \<Longrightarrow> applyIndexBuffer context s = (NoError, s)"
  by (simp add: applyIndexBuffer_def)

lemma updateState_prepare_post:
  assumes ok: "updateState_prepare context drawCallParams w = (NoError, w0)"
  shows "\<not> mRenderTargetIsDirty (snd w0) \<and> \<not> mDirtySwizzles (snd w0) \<and>
         \<not> mDirtySamplerMapping (fst w0) \<and>
         (mShaderUniformsDirty (fst w0) \<noteq> {} \<longrightarrow>
            DIRTY_BIT_PROGRAM_UNIFORMS \<in> mInternalDirtyBits (snd w0)) \<and>
         (mCurSampleMask (snd w0) \<noteq> GetBlendSampleMask context \<longrightarrow>
            DIRTY_BIT_BLEND_STATE \<in> mInternalDirtyBits (snd w0)) \<and>
         mLastFirstVertex (snd w0) = Some (firstVertex drawCallParams) \<and>
         mLastAppliedDrawMode (snd w0) = mode drawCallParams \<and>
         (isDrawElements drawCallParams \<longrightarrow> \<not> mIndexBufferIsDirty (snd w0)) \<and>
         markAttachmentsDirty (getDrawFramebuffer context) = NoError \<and>
         syncStateForDraw (getVertexArray context) = NoError"
proof -
  define s1 where "s1 = processFramebufferInvalidation context (snd w)"
  define mp where "mp = updateSamplerMapping (fst w)"
  define p0 where "p0 = snd mp"
  define s2 where "s2 = (if fst mp = WasDirty then invalidateTexturesAndSamplers s1 else s1)"
  define s3 where "s3 = (if anyShaderUniformsDirty p0
                then setDirtyBit DIRTY_BIT_PROGRAM_UNIFORMS s2 else s2)"
  define swizzled where "swizzled = (if mDirtySwizzles s3
                      then ANGLE_TRY (generateSwizzles p0 s3)
                             (\<lambda>s'. (NoError, s'\<lparr> mDirtySwizzles := False \<rparr>))
                      else (NoError, s3))"
  define s4 where "s4 = snd swizzled"
  define s5 where "s5 = (if GetBlendSampleMask context \<noteq> mCurSampleMask s4
                      then setDirtyBit DIRTY_BIT_BLEND_STATE s4 else s4)"
  define s6 where "s6 = (if mLastFirstVertex s5 = None \<or>
                         the (mLastFirstVertex s5) \<noteq> firstVertex drawCallParams
                      then invalidateInputLayout
                             (s5\<lparr> mLastFirstVertex := Some (firstVertex drawCallParams) \<rparr>)
                      else s5)"
  define indexed where "indexed = (if isDrawElements drawCallParams
                                 then applyIndexBuffer context s6 else (NoError, s6))"
  define s7 where "s7 = snd indexed"
  define t where "t = setDirtyBit DIRTY_BIT_PRIMITIVE_TOPOLOGY
                        (s7\<lparr> mLastAppliedDrawMode := mode drawCallParams \<rparr>)"
  define s8 where "s8 = (if mLastAppliedDrawMode s7 \<noteq> mode drawCallParams
                         then (if (mode drawCallParams = GL_POINTS) \<noteq>
                                    pointDrawMode (mCurRasterState t)
                               then invalidateShaders (setDirtyBit DIRTY_BIT_RASTERIZER_STATE t)
                               else t)
                         else s7)"
  have eq: "updateState_prepare context drawCallParams w =
      (if fst swizzled \<noteq> NoError then (fst swizzled, p0, snd swizzled)
       else if markAttachmentsDirty (getDrawFramebuffer context) \<noteq> NoError
       then (markAttachmentsDirty (getDrawFramebuffer context), p0, snd swizzled)
       else if syncStateForDraw (getVertexArray context) \<noteq> NoError
       then (syncStateForDraw (getVertexArray context), p0, s6)
       else if fst indexed \<noteq> NoError then (fst indexed, p0, snd indexed)
       else (NoError, p0, s8))"
    unfolding updateState_prepare_def Let_def case_prod_beta s8_def t_def s7_def indexed_def
      s6_def s5_def s4_def swizzled_def s3_def s2_def p0_def mp_def s1_def
    by (rule refl)
  from ok have sw_ok: "fst swizzled = NoError"
    and mad: "markAttachmentsDirty (getDrawFramebuffer context) = NoError"
    and ssfd: "syncStateForDraw (getVertexArray context) = NoError"
    and ix_ok: "fst indexed = NoError"
    and w0: "w0 = (p0, s8)"
    unfolding eq by (auto split: if_splits)
  have p0_clean: "\<not> mDirtySamplerMapping p0 \<and> mShaderUniformsDirty p0 = mShaderUniformsDirty (fst w)"
    unfolding p0_def mp_def by (simp add: updateSamplerMapping_def)
  have f1: "\<not> mRenderTargetIsDirty s1"
    using processFramebufferInvalidation_pass [of "context" "snd w"]
    unfolding s1_def by (simp add: passFlags_def)
  have f2: "\<not> mRenderTargetIsDirty s2"
    unfolding s2_def using f1 pf_invalidateTexturesAndSamplers [of s1]
    by (simp add: passFlags_def)
  have f3: "\<not> mRenderTargetIsDirty s3 \<and>
            (mShaderUniformsDirty p0 \<noteq> {} \<longrightarrow> DIRTY_BIT_PROGRAM_UNIFORMS \<in> mInternalDirtyBits s3)"
    unfolding s3_def using f2 pf_setDirtyBit [of DIRTY_BIT_PROGRAM_UNIFORMS s2]
    by (simp add: passFlags_def anyShaderUniformsDirty_def)
  have f4: "\<not> mRenderTargetIsDirty s4 \<and> \<not> mDirtySwizzles s4 \<and>
            mInternalDirtyBits s4 = mInternalDirtyBits s3"
    using sw_ok f3 unfolding s4_def swizzled_def
    by (simp add: ANGLE_TRY_def split: if_splits)
  have f5: "passFlags s5 = passFlags s4 \<and> mInternalDirtyBits s4 \<subseteq> mInternalDirtyBits s5 \<and>
            (mCurSampleMask s4 \<noteq> GetBlendSampleMask context \<longrightarrow>
               DIRTY_BIT_BLEND_STATE \<in> mInternalDirtyBits s5)"
    unfolding s5_def by auto
  have f6: "passFlags s6 = passFlags (s5\<lparr> mLastFirstVertex := Some (firstVertex drawCallParams) \<rparr>) \<and>
            mInternalDirtyBits s5 \<subseteq> mInternalDirtyBits s6"
    unfolding s6_def
    by (auto simp: invalidateInputLayout_def setDirtyBit_def passFlags_def)
  have f7: "passFlags (s7\<lparr> mIndexBufferIsDirty := False \<rparr>) =
              passFlags (s6\<lparr> mIndexBufferIsDirty := False \<rparr>) \<and>
            mInternalDirtyBits s7 = mInternalDirtyBits s6 \<and>
            (isDrawElements drawCallParams \<longrightarrow> \<not> mIndexBufferIsDirty s7)"
    using ix_ok applyIndexBuffer_pass [of "context" s6] unfolding s7_def indexed_def
    by (simp split: if_splits)
  have ft: "passFlags t = passFlags (s7\<lparr> mLastAppliedDrawMode := mode drawCallParams \<rparr>) \<and>
            mInternalDirtyBits s7 \<subseteq> mInternalDirtyBits t"
    unfolding t_def by (auto simp: setDirtyBit_def passFlags_def)
  have f8: "passFlags s8 = passFlags (s7\<lparr> mLastAppliedDrawMode := mode drawCallParams \<rparr>) \<and>
            mInternalDirtyBits s7 \<subseteq> mInternalDirtyBits s8"
    unfolding s8_def using ft
    by (auto simp: invalidateShaders_def passFlags_def setDirtyBit_def)
  have bits: "mInternalDirtyBits s3 \<subseteq> mInternalDirtyBits s8 \<and>
              mInternalDirtyBits s5 \<subseteq> mInternalDirtyBits s8"
    using f4 f5 f6 f7 f8 by auto
  have flags8: "\<not> mRenderTargetIsDirty s8 \<and> \<not> mDirtySwizzles s8 \<and>
                mCurSampleMask s8 = mCurSampleMask s4 \<and>
                mLastFirstVertex s8 = Some (firstVertex drawCallParams) \<and>
                mLastAppliedDrawMode s8 = mode drawCallParams \<and>
                mIndexBufferIsDirty s8 = mIndexBufferIsDirty s7"
    using f4 f5 f6 f7 f8 by (simp add: passFlags_def)
  show ?thesis
    unfolding w0 using flags8 bits f3 f5 f7 p0_clean mad ssfd by auto
qed

lemma reset_empty_bits:
  "mInternalDirtyBits s = {} \<Longrightarrow> s\<lparr> mInternalDirtyBits := {} \<rparr> = s"
  by (cases s) simp

lemma allDirtyBits_complete: "b \<in> set allDirtyBits"
  by (cases b) (simp_all add: allDirtyBits_def)

lemma updateState_prepare_settled:
  assumes "settled context drawCallParams w"
  shows "updateState_prepare context drawCallParams w = (NoError, w)"
proof -
  obtain p s where w: "w = (p, s)" by (cases w)
  have a: "mInternalDirtyBits s = {}" "\<not> mRenderTargetIsDirty s" "\<not> mDirtySwizzles s"
    "\<not> mDirtySamplerMapping p" "mShaderUniformsDirty p = {}"
    "mCurSampleMask s = GetBlendSampleMask context"
    "mLastFirstVertex s = Some (firstVertex drawCallParams)"
    "mLastAppliedDrawMode s = mode drawCallParams"
    "isDrawElements drawCallParams \<longrightarrow> \<not> mIndexBufferIsDirty s"
    "markAttachmentsDirty (getDrawFramebuffer context) = NoError"
    "syncStateForDraw (getVertexArray context) = NoError"
    using assms by (simp_all add: settled_def w)
  have pfi: "processFramebufferInvalidation context s = s"
    using a(2) by (simp add: processFramebufferInvalidation_def)
  have ix: "isDrawElements drawCallParams \<Longrightarrow> applyIndexBuffer context s = (NoError, s)"
    using a(9) by (simp add: applyIndexBuffer_clean)
  show ?thesis
    unfolding updateState_prepare_def w
    using a ix
    by (simp add: pfi updateSamplerMapping_def anyShaderUniformsDirty_def Let_def)
qed

lemma updateState_settled:
  assumes "settled context drawCallParams w"
  shows "updateState context drawCallParams w = (NoError, w)"
proof -
  have b: "mInternalDirtyBits (snd w) = {}" using assms by (simp add: settled_def)
  have "(fst w, (snd w)\<lparr> mInternalDirtyBits := {} \<rparr>) = w"
    using reset_empty_bits [OF b] by simp
  thus ?thesis
    by (simp add: updateState_def updateState_prepare_settled [OF assms] ANGLE_TRY_def b Let_def)
qed

lemma forEachTry_keeps:
  assumes "\<And>x w. P w \<Longrightarrow> P (snd (f x w))" and "P w"
  shows "P (snd (forEachTry f xs w))"
  using assms(2)
proof (induction xs arbitrary: w)
  case Nil
  thus ?case by simp
next
  case (Cons x xs)
  thus ?case by (simp add: ANGLE_TRY_def assms(1))
qed

lemma forEachTry_success:
  assumes "forEachTry f xs w = (NoError, w')" and "I xs w"
    and step: "\<And>x xs w w1. I (x # xs) w \<Longrightarrow> f x w = (NoError, w1) \<Longrightarrow> I xs w1"
  shows "I [] w'"
  using assms(1,2)
proof (induction xs arbitrary: w)
  case Nil
  thus ?case by simp
next
  case (Cons x xs)
  from Cons.prems(1) have ok: "fst (f x w) = NoError"
    by (auto simp: ANGLE_TRY_def split: if_splits)
  with Cons.prems(1) have rest: "forEachTry f xs (snd (f x w)) = (NoError, w')"
    by (simp add: ANGLE_TRY_def)
  from ok have "f x w = (NoError, snd (f x w))" by (metis prod.collapse)
  with Cons.prems(2) have "I xs (snd (f x w))" by (rule step [rotated -1, rotated])
  with rest show ?case by (rule Cons.IH)
qed

lemma syncDirtyBit_bits:
  "mInternalDirtyBits (snd w) = {} \<Longrightarrow>
   mInternalDirtyBits (snd (snd (syncDirtyBit context dp sm b w))) = {}"
  using pc_syncDirtyBit [of w "context" dp sm b]
  by (simp add: passControl_def split: if_splits)

lemma draining_step:
  assumes d: "draining context dp (b # bs) w"
    and ok: "syncDirtyBit context dp (GetBlendSampleMask context) b w = (NoError, w1)"
  shows "draining context dp bs w1"
proof -
  have bits: "mInternalDirtyBits (snd w) = {}" using d by (simp add: draining_def)
  note pc = pc_syncDirtyBit [OF bits, of "context" dp "GetBlendSampleMask context" b]
  note pr = program_syncDirtyBit [of "context" dp "GetBlendSampleMask context" b w]
  have flags: "mInternalDirtyBits (snd w1) = {} \<and>
               mRenderTargetIsDirty (snd w1) = mRenderTargetIsDirty (snd w) \<and>
               mDirtySwizzles (snd w1) = mDirtySwizzles (snd w) \<and>
               mIndexBufferIsDirty (snd w1) = mIndexBufferIsDirty (snd w) \<and>
               mLastFirstVertex (snd w1) = mLastFirstVertex (snd w) \<and>
               mLastAppliedDrawMode (snd w1) = mLastAppliedDrawMode (snd w) \<and>
               mCurSampleMask (snd w1) =
                 (if b = DIRTY_BIT_BLEND_STATE then GetBlendSampleMask context
                  else mCurSampleMask (snd w))"
    using pc bits unfolding ok by (simp add: passControl_def split: if_splits)
  have prog: "fst w1 = (if b = DIRTY_BIT_PROGRAM_UNIFORMS then markUniformsClean (fst w) else fst w)"
    using pr unfolding ok by simp
  show ?thesis
    using d flags prog
    by (auto simp: draining_def markUniformsClean_def)
qed

lemma updateState_success_settled:
  assumes ok: "updateState context dp w = (NoError, w1)"
  shows "settled context dp w1"
proof -
  let ?sm = "GetBlendSampleMask context"
  from ok have pok: "fst (updateState_prepare context dp w) = NoError"
    by (auto simp: updateState_def ANGLE_TRY_def split: if_splits)
  define w0 where "w0 = snd (updateState_prepare context dp w)"
  have prep: "updateState_prepare context dp w = (NoError, w0)"
    using pok unfolding w0_def by (metis prod.collapse)
  note post = updateState_prepare_post [OF prep]
  let ?bs = "filter (\<lambda>b. b \<in> mInternalDirtyBits (snd w0)) allDirtyBits"
  let ?w2 = "(fst w0, (snd w0)\<lparr> mInternalDirtyBits := {} \<rparr>)"
  have drain: "forEachTry (syncDirtyBit context dp ?sm) ?bs ?w2 = (NoError, w1)"
    using ok unfolding updateState_def prep by (simp add: ANGLE_TRY_def Let_def)
  have start: "draining context dp ?bs ?w2"
    using post by (auto simp: draining_def allDirtyBits_complete)
  have "draining context dp [] w1"
    using drain start
  proof (rule forEachTry_success)
    fix x xs w' w1'
    assume "draining context dp (x # xs) w'"
      and "syncDirtyBit context dp ?sm x w' = (NoError, w1')"
    thus "draining context dp xs w1'" by (rule draining_step)
  qed
  thus ?thesis
    using post by (simp add: draining_def settled_def)
qed

lemma initialState_fields:
  "mDirtySwizzles initialState = False"
  "mIndexBufferIsDirty initialState = False"
  "mCurPresentPathFastEnabled initialState = False"
  by (simp_all add: initialState_def initialize_def StateManager11_new_def)

lemma initialState_fields2:
  "mCurDisableDepth initialState = None"
  "mCurDisableStencil initialState = None"
  "multiSample (mCurRasterState initialState) = False"
  "mAppliedVertexShader initialState = kDirty"
  "mAppliedGeometryShader initialState = kDirty"
  "mAppliedPixelShader initialState = kDirty"
  "mRenderTargetIsDirty initialState = True"
  by (simp_all add: initialState_def initialize_def StateManager11_new_def)

text \<open>
  Claim C5 (no dirty bit at the end of the drain). In a pass that reaches the drain, the
  internal dirty bits are empty when \<^verbatim>\<open>updateState\<close> returns, so the assertion at its end
  holds; and every synchronizer of the drain, entered with no dirty bit set, returns with
  no dirty bit set. \<^verbatim>\<open>syncProgram\<close> is the one synchronizer that sets a bit, that of the
  shaders, and it clears that bit again before it returns.
\<close>

theorem updateState_drain_leaves_no_dirty_bit:
  "(fst (updateState_prepare context drawCallParams w) = NoError \<longrightarrow>
      mInternalDirtyBits (snd (snd (updateState context drawCallParams w))) = {}) \<and>
   (\<forall>dirtyBit w'. mInternalDirtyBits (snd w') = {} \<longrightarrow>
      mInternalDirtyBits
        (snd (snd (syncDirtyBit context drawCallParams sampleMask dirtyBit w'))) = {})"
proof (rule conjI; intro allI impI)
  assume pok: "fst (updateState_prepare context drawCallParams w) = NoError"
  let ?w0 = "snd (updateState_prepare context drawCallParams w)"
  let ?w2 = "(fst ?w0, (snd ?w0)\<lparr> mInternalDirtyBits := {} \<rparr>)"
  have "mInternalDirtyBits (snd (snd
          (forEachTry (syncDirtyBit context drawCallParams (GetBlendSampleMask context))
             (filter (\<lambda>b. b \<in> mInternalDirtyBits (snd ?w0)) allDirtyBits) ?w2))) = {}"
  proof (rule forEachTry_keeps
           [where P = "\<lambda>w :: ProgramD3D \<times> StateManager11. mInternalDirtyBits (snd w) = {}"])
    fix x and w' :: "ProgramD3D \<times> StateManager11"
    assume "mInternalDirtyBits (snd w') = {}"
    thus "mInternalDirtyBits
            (snd (snd (syncDirtyBit context drawCallParams (GetBlendSampleMask context) x w'))) = {}"
      by (rule syncDirtyBit_bits)
  next
    show "mInternalDirtyBits (snd ?w2) = {}" by simp
  qed
  thus "mInternalDirtyBits (snd (snd (updateState context drawCallParams w))) = {}"
    using pok by (simp add: updateState_def ANGLE_TRY_def Let_def)
next
  fix dirtyBit and w' :: "ProgramD3D \<times> StateManager11"
  assume "mInternalDirtyBits (snd w') = {}"
  thus "mInternalDirtyBits
          (snd (snd (syncDirtyBit context drawCallParams sampleMask dirtyBit w'))) = {}"
    by (rule syncDirtyBit_bits)
qed

theorem updateState_drain_leaves_no_dirty_bit_witness:
  "fst (updateState_prepare
          (exampleContext (exampleFramebuffer 1 (exampleAttachment GL_TEXTURE 64 64) 50))
          exampleDraw (exampleProgram, initialState)) = NoError \<and>
   mInternalDirtyBits (snd (snd (updateState
          (exampleContext (exampleFramebuffer 1 (exampleAttachment GL_TEXTURE 64 64) 50))
          exampleDraw (exampleProgram, initialState)))) = {} \<and>
   mInternalDirtyBits (snd (linkedProgram, drawnState)) = {} \<and>
   mInternalDirtyBits (snd (snd (syncDirtyBit
          (exampleContext (exampleFramebuffer 1 (exampleAttachment GL_TEXTURE 64 64) 50))
          exampleDraw 0xFFFFFFFF DIRTY_BIT_SHADERS (linkedProgram, drawnState)))) = {}"
proof -
  let ?C = "exampleContext (exampleFramebuffer 1 (exampleAttachment GL_TEXTURE 64 64) 50)"
  have p: "fst (updateState_prepare ?C exampleDraw (exampleProgram, initialState)) = NoError"
    by (simp add: updateState_prepare_def ANGLE_TRY_def Let_def
        updateSamplerMapping_def anyShaderUniformsDirty_def
        generateSwizzles_def generateSwizzlesForShader_def
        exampleContext_def exampleFramebuffer_def exampleDraw_def exampleVertexArray_def
        exampleProgram_def)
  have e: "mInternalDirtyBits (snd (linkedProgram, drawnState)) = {}"
    by (simp add: drawnState_def)
  note t = updateState_drain_leaves_no_dirty_bit
             [of ?C exampleDraw "(exampleProgram, initialState)" "0xFFFFFFFF"]
  from t p e show ?thesis by blast
qed

text \<open>
  Claim C1 (idempotence of the pass). After a call of \<^verbatim>\<open>updateState\<close> that succeeded,
  a second call with the same context and draw parameters succeeds and changes nothing:
  the state manager and the program are as the first call left them, and the trace of
  device calls has no new entry.
\<close>

theorem updateState_idempotent:
  assumes "updateState context drawCallParams w = (NoError, w1)"
  shows "updateState context drawCallParams w1 = (NoError, w1) \<and>
         deviceContext (snd (snd (updateState context drawCallParams w1))) =
           deviceContext (snd w1)"
proof -
  have "settled context drawCallParams w1"
    using assms by (rule updateState_success_settled)
  hence "updateState context drawCallParams w1 = (NoError, w1)"
    by (rule updateState_settled)
  thus ?thesis by simp
qed

theorem updateState_idempotent_witness:
  "fst (updateState
          (exampleContext (exampleFramebuffer 1 (exampleAttachment GL_RENDERBUFFER 64 64) 50))
          exampleDraw (linkedProgram, drawnState\<lparr> mRenderTargetIsDirty := True \<rparr>)) = NoError \<and>
   deviceContext (snd (snd (updateState
          (exampleContext (exampleFramebuffer 1 (exampleAttachment GL_RENDERBUFFER 64 64) 50))
          exampleDraw (linkedProgram, drawnState\<lparr> mRenderTargetIsDirty := True \<rparr>)))) =
     deviceContext (drawnState\<lparr> mRenderTargetIsDirty := True \<rparr>) @
     [OMSetRenderTargets 1 [500] 0,
      OMSetBlendState 7 [0, 1 / 2, 1, 1 / 4] 0xFFFFFFFF,
      OMSetDepthStencilState 8 0,
      SetShader VS 81, SetShader GS 0, SetShader PS 83] \<and>
   updateState
     (exampleContext (exampleFramebuffer 1 (exampleAttachment GL_RENDERBUFFER 64 64) 50))
     exampleDraw
     (snd (updateState
          (exampleContext (exampleFramebuffer 1 (exampleAttachment GL_RENDERBUFFER 64 64) 50))
          exampleDraw (linkedProgram, drawnState\<lparr> mRenderTargetIsDirty := True \<rparr>))) =
   (NoError,
    snd (updateState
          (exampleContext (exampleFramebuffer 1 (exampleAttachment GL_RENDERBUFFER 64 64) 50))
          exampleDraw (linkedProgram, drawnState\<lparr> mRenderTargetIsDirty := True \<rparr>)))"
proof -
  let ?C = "exampleContext (exampleFramebuffer 1 (exampleAttachment GL_RENDERBUFFER 64 64) 50)"
  let ?W = "(linkedProgram, drawnState\<lparr> mRenderTargetIsDirty := True \<rparr>)"
  have first: "fst (updateState ?C exampleDraw ?W) = NoError \<and>
     deviceContext (snd (snd (updateState ?C exampleDraw ?W))) =
     deviceContext (drawnState\<lparr> mRenderTargetIsDirty := True \<rparr>) @
     [OMSetRenderTargets 1 [500] 0,
      OMSetBlendState 7 [0, 1 / 2, 1, 1 / 4] 0xFFFFFFFF,
      OMSetDepthStencilState 8 0,
      SetShader VS 81, SetShader GS 0, SetShader PS 83]"
    by (simp add: updateState_def updateState_prepare_def syncDirtyBit_def ANGLE_TRY_def Let_def
        processFramebufferInvalidation_def checkPresentPath_def setDirtyBit_def
        invalidateShaders_def updateSamplerMapping_def anyShaderUniformsDirty_def
        allDirtyBits_def syncFramebuffer_def syncFramebuffer_step_def
        zeroSizedDefaultFramebuffer_def unsetConflictingAttachmentResources_def
        D3D11_SIMULTANEOUS_RENDER_TARGET_COUNT_def take_one_rtv
        syncBlendState_def blendColors_def syncDepthStencilState_def modifiedGLState_def
        gl_clamp_def syncProgram_def setDrawShaders_def setVertexShader_def
        setGeometryShader_def setPixelShader_def serialOf_def shaderPtr_def kDirty_def
        deviceCall_def rendererRequest_def
        linkedProgram_def drawnState_def initialState_fields initialState_fields2
        exampleContext_def exampleFramebuffer_def exampleAttachment_def exampleRenderTarget_def
        exampleGLState_def
        exampleDraw_def exampleVertexArray_def exampleRenderer_def exampleBlendState_def
        exampleBlendColor_def exampleProgram_def exampleDepthStencilState_def
        exampleRasterizerState_def
        GL_ONE_def GL_ZERO_def GL_CONSTANT_ALPHA_def GL_ONE_MINUS_CONSTANT_ALPHA_def
        GL_TRIANGLES_def GL_POINTS_def GL_RENDERBUFFER_def GL_TEXTURE_def
        GL_FRAMEBUFFER_DEFAULT_def)
  hence h: "updateState ?C exampleDraw ?W = (NoError, snd (updateState ?C exampleDraw ?W))"
    by (metis prod.collapse)
  from updateState_idempotent [OF h] first show ?thesis by blast
qed

text \<open>
  Claim C9 (zero-sized default framebuffer). \<^verbatim>\<open>syncFramebuffer\<close> returns success
  without a change when the draw framebuffer is the default framebuffer and its colour
  buffer has no area, and the comment there says that this makes the calling method
  return. The calling method goes on: in a pass on such a framebuffer whose render target
  is dirty, \<^verbatim>\<open>syncFramebuffer\<close> on the state of the pass changes nothing, and
  \<^verbatim>\<open>updateState\<close> succeeds after it has set the blend state, the depth stencil state
  and the shaders on the device.
\<close>

theorem updateState_continues_on_zero_sized_default_framebuffer:
  "syncFramebuffer exampleRenderer linkedProgram
     (exampleFramebuffer 0 (exampleAttachment GL_FRAMEBUFFER_DEFAULT 0 0) 50)
     (drawnState\<lparr> mRenderTargetIsDirty := True \<rparr>) =
   (NoError, drawnState\<lparr> mRenderTargetIsDirty := True \<rparr>) \<and>
   zeroSizedDefaultFramebuffer (exampleFramebuffer 0 (exampleAttachment GL_FRAMEBUFFER_DEFAULT 0 0) 50) \<and>
   fst (updateState
          (exampleContext (exampleFramebuffer 0 (exampleAttachment GL_FRAMEBUFFER_DEFAULT 0 0) 50))
          exampleDraw (linkedProgram, drawnState\<lparr> mRenderTargetIsDirty := True \<rparr>)) = NoError \<and>
   deviceContext (snd (snd (updateState
          (exampleContext (exampleFramebuffer 0 (exampleAttachment GL_FRAMEBUFFER_DEFAULT 0 0) 50))
          exampleDraw (linkedProgram, drawnState\<lparr> mRenderTargetIsDirty := True \<rparr>)))) =
     deviceContext (drawnState\<lparr> mRenderTargetIsDirty := True \<rparr>) @
     [OMSetBlendState 7 [0, 1 / 2, 1, 1 / 4] 0xFFFFFFFF,
      OMSetDepthStencilState 8 0,
      SetShader VS 81, SetShader GS 0, SetShader PS 83]"
proof -
  have a: "syncFramebuffer exampleRenderer linkedProgram
     (exampleFramebuffer 0 (exampleAttachment GL_FRAMEBUFFER_DEFAULT 0 0) 50)
     (drawnState\<lparr> mRenderTargetIsDirty := True \<rparr>) =
   (NoError, drawnState\<lparr> mRenderTargetIsDirty := True \<rparr>)"
    by (simp add: syncFramebuffer_def zeroSizedDefaultFramebuffer_def exampleFramebuffer_def
          exampleAttachment_def)
  have b: "zeroSizedDefaultFramebuffer (exampleFramebuffer 0 (exampleAttachment GL_FRAMEBUFFER_DEFAULT 0 0) 50) \<and>
   fst (updateState
          (exampleContext (exampleFramebuffer 0 (exampleAttachment GL_FRAMEBUFFER_DEFAULT 0 0) 50))
          exampleDraw (linkedProgram, drawnState\<lparr> mRenderTargetIsDirty := True \<rparr>)) = NoError \<and>
   deviceContext (snd (snd (updateState
          (exampleContext (exampleFramebuffer 0 (exampleAttachment GL_FRAMEBUFFER_DEFAULT 0 0) 50))
          exampleDraw (linkedProgram, drawnState\<lparr> mRenderTargetIsDirty := True \<rparr>)))) =
     deviceContext (drawnState\<lparr> mRenderTargetIsDirty := True \<rparr>) @
     [OMSetBlendState 7 [0, 1 / 2, 1, 1 / 4] 0xFFFFFFFF,
      OMSetDepthStencilState 8 0,
      SetShader VS 81, SetShader GS 0, SetShader PS 83]"
    by (simp add: updateState_def updateState_prepare_def syncDirtyBit_def ANGLE_TRY_def Let_def
          processFramebufferInvalidation_def checkPresentPath_def setDirtyBit_def
          invalidateShaders_def updateSamplerMapping_def anyShaderUniformsDirty_def
          allDirtyBits_def syncFramebuffer_def zeroSizedDefaultFramebuffer_def
          syncBlendState_def blendColors_def syncDepthStencilState_def modifiedGLState_def
          gl_clamp_def syncProgram_def setDrawShaders_def setVertexShader_def
          setGeometryShader_def setPixelShader_def serialOf_def shaderPtr_def kDirty_def
          deviceCall_def rendererRequest_def
          linkedProgram_def drawnState_def initialState_fields initialState_fields2
          exampleContext_def exampleFramebuffer_def exampleAttachment_def exampleGLState_def
          exampleDraw_def exampleVertexArray_def exampleRenderer_def exampleBlendState_def
          exampleBlendColor_def exampleProgram_def exampleDepthStencilState_def
          exampleRasterizerState_def
          GL_ONE_def GL_ZERO_def GL_CONSTANT_ALPHA_def GL_ONE_MINUS_CONSTANT_ALPHA_def
          GL_TRIANGLES_def GL_POINTS_def)
  from a b show ?thesis by (rule conjI)
qed
end
